theory Spec2Isabelle
  imports Complex_Main "HOL-Library.Sublist"
begin

section \<open>JavaScript values as the print worker sees them\<close>

text \<open>
  The print worker reads most of its inputs through a coercion: \<^verbatim>\<open>Number(value)\<close>,
  \<^verbatim>\<open>String(value ?? "")\<close>. The coercions are built-ins of the language, not code of the
  worker, so each function below takes the value its first coercion yields.

  A JavaScript number is NaN, an infinity, or a finite double; a finite double is the rational
  it denotes. \<^verbatim>\<open>Math.trunc\<close> and \<^verbatim>\<open>Math.round\<close> are exact on doubles, so they are
  exact here. A string is a list of 8-bit characters, read as the code points U+0000 to
  U+00FF; white space and \<^verbatim>\<open>toLowerCase\<close> are those of JavaScript on that range.
\<close>

datatype jsnum = NaN | PosInf | NegInf | Fin rat

fun isFinite :: "jsnum \<Rightarrow> bool" where
  "isFinite (Fin q) = True"
| "isFinite n = False"

definition trunc :: "rat \<Rightarrow> int" where
  \<comment> \<open>\<^verbatim>\<open>Math.trunc\<close>: rounding toward zero.\<close>
  "trunc q = (if 0 \<le> q then \<lfloor>q\<rfloor> else \<lceil>q\<rceil>)"

definition isInteger :: "jsnum \<Rightarrow> bool" where
  \<comment> \<open>\<^verbatim>\<open>Number.isInteger\<close>.\<close>
  "isInteger n = (case n of Fin q \<Rightarrow> of_int \<lfloor>q\<rfloor> = q | _ \<Rightarrow> False)"

definition ofInt :: "int \<Rightarrow> jsnum" where
  \<comment> \<open>An integer result handed back to a function that starts with \<^verbatim>\<open>Number(value)\<close>.\<close>
  "ofInt i = Fin (of_int i)"

section \<open>String primitives\<close>

definition isSpace :: "char \<Rightarrow> bool" where
  \<comment> \<open>The white space of \<^verbatim>\<open>trim\<close> and of the regular expression class for white space:
      tab, line feed, vertical tab, form feed, carriage return, space, and the no-break
      space U+00A0.\<close>
  "isSpace c = ((of_char c :: nat) \<in> {9, 10, 11, 12, 13, 32, 160})"

definition trim :: "string \<Rightarrow> string" where
  "trim s = rev (dropWhile isSpace (rev (dropWhile isSpace s)))"

definition isLowerAZ :: "char \<Rightarrow> bool" where
  "isLowerAZ c = (97 \<le> (of_char c :: nat) \<and> (of_char c :: nat) \<le> 122)"

definition isUpperAZ :: "char \<Rightarrow> bool" where
  "isUpperAZ c = (65 \<le> (of_char c :: nat) \<and> (of_char c :: nat) \<le> 90)"

definition isDigit :: "char \<Rightarrow> bool" where
  "isDigit c = (48 \<le> (of_char c :: nat) \<and> (of_char c :: nat) \<le> 57)"

definition isUpperLatin1 :: "char \<Rightarrow> bool" where
  \<comment> \<open>The capital letters U+00C0 to U+00DE; U+00D7 is the multiplication sign.\<close>
  "isUpperLatin1 c = (192 \<le> (of_char c :: nat) \<and> (of_char c :: nat) \<le> 222
                      \<and> (of_char c :: nat) \<noteq> 215)"

definition toLowerChar :: "char \<Rightarrow> char" where
  \<comment> \<open>Each capital letter below U+0100 has its small letter 32 places further.\<close>
  "toLowerChar c = (if isUpperAZ c \<or> isUpperLatin1 c then char_of ((of_char c :: nat) + 32) else c)"

definition toLowerCase :: "string \<Rightarrow> string" where
  "toLowerCase s = map toLowerChar s"

text \<open>
  \<^verbatim>\<open>s.replace(/[class]+/g, r)\<close>: every maximal run of characters of the class is replaced
  by \<open>r\<close>.
\<close>

function replaceRuns :: "(char \<Rightarrow> bool) \<Rightarrow> string \<Rightarrow> string \<Rightarrow> string" where
  "replaceRuns P r [] = []"
| "replaceRuns P r (c # cs) =
     (if P c then r @ replaceRuns P r (dropWhile P cs) else c # replaceRuns P r cs)"
  by pat_completeness auto
termination
  by (relation "measure (\<lambda>(P, r, s). length s)")
     (auto simp add: le_imp_less_Suc length_dropWhile_le)

definition replaceEach :: "(char \<Rightarrow> bool) \<Rightarrow> string \<Rightarrow> string \<Rightarrow> string" where
  \<comment> \<open>\<^verbatim>\<open>s.replace(/[class]/g, r)\<close>: every single character of the class is replaced.\<close>
  "replaceEach P r s = concat (map (\<lambda>c. if P c then r else [c]) s)"

definition isDash :: "char \<Rightarrow> bool" where
  "isDash c = (c = CHR ''-'')"

definition stripDashes :: "string \<Rightarrow> string" where
  \<comment> \<open>Removing the leading run and the trailing run of dashes.\<close>
  "stripDashes s = rev (dropWhile isDash (rev (dropWhile isDash s)))"

fun includesStr :: "string \<Rightarrow> string \<Rightarrow> bool" where
  \<comment> \<open>\<^verbatim>\<open>s.includes(needle)\<close>.\<close>
  "includesStr [] needle = (needle = [])"
| "includesStr (c # cs) needle = (prefix needle (c # cs) \<or> includesStr cs needle)"

section \<open>Text sanitizers of the configuration\<close>

text \<open>
  \<^verbatim>\<open>sanitizeConsumerId(value)\<close> trims and lowercases \<^verbatim>\<open>String(value ?? "")\<close>, replaces each
  run of characters other than \<^verbatim>\<open>a-z 0-9 . _ : -\<close> by one dash, collapses runs of dashes,
  strips leading and trailing dashes and keeps the first 64 characters. When nothing is
  left it builds an identifier from the platform and the host name. The host name
  (\<^verbatim>\<open>os.hostname()\<close>) and the platform (\<^verbatim>\<open>process.platform\<close>) are parameters.
\<close>

definition consumerIdChar :: "char \<Rightarrow> bool" where
  "consumerIdChar c = (isLowerAZ c \<or> isDigit c \<or> c \<in> {CHR ''.'', CHR ''_'', CHR '':'', CHR ''-''})"

definition hostChar :: "char \<Rightarrow> bool" where
  "hostChar c = (isLowerAZ c \<or> isDigit c \<or> c = CHR ''-'')"

definition sanitizeConsumerId :: "string \<Rightarrow> string \<Rightarrow> string \<Rightarrow> string" where
  "sanitizeConsumerId hostname platform v =
     (let raw = take 64 (stripDashes (replaceRuns isDash ''-''
                  (replaceRuns (\<lambda>c. \<not> consumerIdChar c) ''-'' (toLowerCase (trim v)))))
      in if raw \<noteq> [] then raw
         else
           let host = take 40 (stripDashes (replaceRuns isDash ''-''
                        (replaceEach (\<lambda>c. \<not> hostChar c) ''-'' (toLowerCase hostname))));
               pre = (if platform = ''win32'' then ''win''
                      else if platform = ''darwin'' then ''mac'' else ''bridge'')
           in take 64 (pre @ ''-bridge-'' @ (if host \<noteq> [] then host else ''main'')))"

text \<open>
  \<^verbatim>\<open>sanitizeDeviceName(value)\<close> trims \<^verbatim>\<open>String(value ?? "")\<close>, replaces each run of white
  space by one space and keeps the first 80 characters; an empty result becomes
  \<^verbatim>\<open>Bridge\<close> followed by the host name.
\<close>

definition sanitizeDeviceName :: "string \<Rightarrow> string \<Rightarrow> string" where
  "sanitizeDeviceName hostname v =
     (let normalized = take 80 (replaceRuns isSpace '' '' (trim v))
      in if normalized \<noteq> [] then normalized else ''Bridge '' @ hostname)"

section \<open>Numeric sanitizers\<close>

text \<open>
  \<^verbatim>\<open>
  function sanitizePollMs(value: unknown) {
    const n = Number(value);
    if (!Number.isFinite(n)) return 2500;
    return Math.max(1000, Math.min(10000, Math.trunc(n)));
  }
  \<close>
  and likewise \<^verbatim>\<open>sanitizeClaimLimit\<close> (default 5, range 1 to 20) and
  \<^verbatim>\<open>sanitizePrinterPort\<close> (a truncated value outside 1 to 65535 gives 9100).
  The argument of each model is \<^verbatim>\<open>Number(value)\<close>.
\<close>

definition sanitizePollMs :: "jsnum \<Rightarrow> int" where
  "sanitizePollMs n =
     (if \<not> isFinite n then 2500
      else case n of Fin q \<Rightarrow> max 1000 (min 10000 (trunc q)) | _ \<Rightarrow> 2500)"

definition sanitizeClaimLimit :: "jsnum \<Rightarrow> int" where
  "sanitizeClaimLimit n =
     (if \<not> isFinite n then 5
      else case n of Fin q \<Rightarrow> max 1 (min 20 (trunc q)) | _ \<Rightarrow> 5)"

definition sanitizePrinterPort :: "jsnum \<Rightarrow> int" where
  "sanitizePrinterPort n =
     (if \<not> isFinite n then 9100
      else case n of
        Fin q \<Rightarrow> (let port = trunc q in if port \<ge> 1 \<and> port \<le> 65535 then port else 9100)
      | _ \<Rightarrow> 9100)"

lemma trunc_of_int [simp]: "trunc (of_int i) = i"
  by (simp add: trunc_def)

lemma trunc_numeral [simp]: "trunc (numeral k) = numeral k"
  by (simp add: trunc_def)

lemma sanitizePrinterPort_range: "1 \<le> sanitizePrinterPort n \<and> sanitizePrinterPort n \<le> 65535"
  by (cases n) (simp_all add: sanitizePrinterPort_def Let_def)

lemma sanitizePollMs_range: "1000 \<le> sanitizePollMs n \<and> sanitizePollMs n \<le> 10000"
  by (cases n) (simp_all add: sanitizePollMs_def)

lemma sanitizeClaimLimit_range: "1 \<le> sanitizeClaimLimit n \<and> sanitizeClaimLimit n \<le> 20"
  by (cases n) (simp_all add: sanitizeClaimLimit_def)

lemma sanitizePollMs_ofInt: "sanitizePollMs (ofInt i) = max 1000 (min 10000 i)"
  by (simp add: sanitizePollMs_def ofInt_def)

lemma sanitizeClaimLimit_ofInt: "sanitizeClaimLimit (ofInt i) = max 1 (min 20 i)"
  by (simp add: sanitizeClaimLimit_def ofInt_def)

lemma sanitizePrinterPort_ofInt:
  "sanitizePrinterPort (ofInt i) = (if 1 \<le> i \<and> i \<le> 65535 then i else 9100)"
  by (simp add: sanitizePrinterPort_def ofInt_def)

lemma sanitizePollMs_idem: "sanitizePollMs (ofInt (sanitizePollMs n)) = sanitizePollMs n"
  using sanitizePollMs_range [of n] by (simp add: sanitizePollMs_ofInt)

lemma sanitizeClaimLimit_idem:
  "sanitizeClaimLimit (ofInt (sanitizeClaimLimit n)) = sanitizeClaimLimit n"
  using sanitizeClaimLimit_range [of n] by (simp add: sanitizeClaimLimit_ofInt)

lemma sanitizePrinterPort_idem:
  "sanitizePrinterPort (ofInt (sanitizePrinterPort n)) = sanitizePrinterPort n"
  using sanitizePrinterPort_range [of n] by (simp add: sanitizePrinterPort_ofInt)

lemma sanitizeConsumerId_nonempty: "sanitizeConsumerId hostname platform v \<noteq> []"
  by (simp add: sanitizeConsumerId_def Let_def)

text \<open>
  C8: every sanitizer of the configuration is idempotent, and \<^verbatim>\<open>sanitizeConsumerId\<close> never
  returns the empty string. The three numeric sanitizers are idempotent
  (\<open>sanitizePollMs_idem\<close>, \<open>sanitizeClaimLimit_idem\<close>, \<open>sanitizePrinterPort_idem\<close>) and the
  consumer id is never empty (\<open>sanitizeConsumerId_nonempty\<close>), but the two text sanitizers cut
  the string after they have stripped its ends, and the cut can leave a dash or a space at
  the end that a second pass removes. At a consumer id of 63 letters followed by
  \<^verbatim>\<open>-b\<close> the first pass keeps the dash and the second drops it; at a device name of 79
  letters followed by a space and a letter the first pass keeps the space.
\<close>

theorem C8_text_sanitizers_not_idempotent:
  "sanitizeConsumerId ''kitchen-pc'' ''linux'' (replicate 63 (CHR ''a'') @ ''-b'')
     = replicate 63 (CHR ''a'') @ ''-''
   \<and> sanitizeConsumerId ''kitchen-pc'' ''linux''
        (sanitizeConsumerId ''kitchen-pc'' ''linux'' (replicate 63 (CHR ''a'') @ ''-b''))
     = replicate 63 (CHR ''a'')
   \<and> sanitizeDeviceName ''kitchen-pc'' (replicate 79 (CHR ''a'') @ '' b'')
     = replicate 79 (CHR ''a'') @ '' ''
   \<and> sanitizeDeviceName ''kitchen-pc''
        (sanitizeDeviceName ''kitchen-pc'' (replicate 79 (CHR ''a'') @ '' b''))
     = replicate 79 (CHR ''a'')"
  by code_simp

text \<open>
  C4, as stated: the result is always a port in 1..65535 and every input that is not an
  integer gives 9100. The second half fails: 80.5 is truncated to 80.
\<close>

theorem C4_sanitizePrinterPort_counterexample:
  "\<not> isInteger (Fin (161 / 2)) \<and> sanitizePrinterPort (Fin (161 / 2)) = 80
   \<and> sanitizePrinterPort (Fin (161 / 2)) \<noteq> 9100"
proof -
  have f: "\<lfloor>161 / 2 :: rat\<rfloor> = 80" by (simp add: floor_eq_iff)
  show ?thesis
    by (simp add: isInteger_def sanitizePrinterPort_def trunc_def Let_def f)
qed

text \<open>
  C4, amended: the result is an integer in 1..65535; it is 9100 whenever the number is not
  finite or its truncation toward zero lies outside 1..65535, and it is that truncation
  otherwise (an integer in range is returned as it is).
\<close>

theorem C4_sanitizePrinterPort:
  "1 \<le> sanitizePrinterPort n \<and> sanitizePrinterPort n \<le> 65535
   \<and> (\<not> isFinite n \<longrightarrow> sanitizePrinterPort n = 9100)
   \<and> (\<forall>q. n = Fin q \<and> (trunc q < 1 \<or> 65535 < trunc q) \<longrightarrow> sanitizePrinterPort n = 9100)
   \<and> (\<forall>q. n = Fin q \<and> 1 \<le> trunc q \<and> trunc q \<le> 65535 \<longrightarrow> sanitizePrinterPort n = trunc q)
   \<and> (\<forall>i. n = ofInt i \<and> 1 \<le> i \<and> i \<le> 65535 \<longrightarrow> sanitizePrinterPort n = i)"
  by (cases n) (auto simp add: sanitizePrinterPort_def Let_def ofInt_def)

theorem C4_sanitizePrinterPort_witness:
  "sanitizePrinterPort NaN = 9100
   \<and> sanitizePrinterPort (Fin 70000) = 9100
   \<and> sanitizePrinterPort (Fin (161 / 2)) = 80
   \<and> sanitizePrinterPort (ofInt 631) = 631"
proof -
  have a: "\<not> isFinite NaN" by simp
  have b: "Fin 70000 = Fin 70000 \<and> (trunc 70000 < 1 \<or> 65535 < trunc 70000)"
    by (simp add: trunc_def)
  have c: "Fin (161 / 2) = Fin (161 / 2) \<and> 1 \<le> trunc (161 / 2) \<and> trunc (161 / 2) \<le> 65535"
    by (simp add: trunc_def)
  have c': "trunc (161 / 2) = 80" by (simp add: trunc_def floor_eq_iff)
  have d: "ofInt 631 = ofInt 631 \<and> (1::int) \<le> 631 \<and> (631::int) \<le> 65535" by simp
  show ?thesis
    using C4_sanitizePrinterPort [of NaN] a
      C4_sanitizePrinterPort [of "Fin 70000"] b
      C4_sanitizePrinterPort [of "Fin (161 / 2)"] c c'
      C4_sanitizePrinterPort [of "ofInt 631"] d
    by metis
qed

section \<open>Session snapshots\<close>

text \<open>
  \<^verbatim>\<open>type SessionSnapshot = { access_token: string; refresh_token: string; expires_at: number | null }\<close>
\<close>

record SessionSnapshot =
  access_token :: string
  refresh_token :: string
  expires_at :: "jsnum option"

definition truthyNum :: "jsnum \<Rightarrow> bool" where
  \<comment> \<open>A number is falsy when it is zero or NaN.\<close>
  "truthyNum n = (n \<noteq> NaN \<and> n \<noteq> Fin 0)"

definition expiresOrZero :: "jsnum option \<Rightarrow> jsnum" where
  \<comment> \<open>\<^verbatim>\<open>Number(x.expires_at || 0)\<close>\<close>
  "expiresOrZero e = (case e of None \<Rightarrow> Fin 0 | Some n \<Rightarrow> if truthyNum n then n else Fin 0)"

text \<open>
  \<^verbatim>\<open>
  function sameSession(a: SessionSnapshot | null, b: SessionSnapshot | null) {
    if (!a && !b) return true;
    if (!a || !b) return false;
    return a.access_token === b.access_token && a.refresh_token === b.refresh_token
      && Number(a.expires_at || 0) === Number(b.expires_at || 0);
  }
  \<close>
\<close>

fun sameSession :: "SessionSnapshot option \<Rightarrow> SessionSnapshot option \<Rightarrow> bool" where
  "sameSession None None = True"
| "sameSession None (Some b) = False"
| "sameSession (Some a) None = False"
| "sameSession (Some a) (Some b) =
     (access_token a = access_token b \<and> refresh_token a = refresh_token b
      \<and> expiresOrZero (expires_at a) = expiresOrZero (expires_at b))"

text \<open>
  \<^verbatim>\<open>toSessionSnapshot(raw)\<close>: \<open>None\<close> stands for a raw value that is not an object; the
  fields of an object are \<^verbatim>\<open>String(session.access_token || "")\<close>,
  \<^verbatim>\<open>String(session.refresh_token || "")\<close> and \<^verbatim>\<open>Number(session.expires_at)\<close>.
\<close>

record RawSession =
  raw_access_token :: string
  raw_refresh_token :: string
  raw_expires_at :: jsnum

definition toSessionSnapshot :: "RawSession option \<Rightarrow> SessionSnapshot option" where
  "toSessionSnapshot raw =
     (case raw of
        None \<Rightarrow> None
      | Some session \<Rightarrow>
          let accessToken = trim (raw_access_token session);
              refreshToken = trim (raw_refresh_token session)
          in if accessToken = [] \<or> refreshToken = [] then None
             else Some \<lparr> access_token = accessToken, refresh_token = refreshToken,
                         expires_at = (case raw_expires_at session of
                                         Fin q \<Rightarrow> Some (ofInt (trunc q)) | _ \<Rightarrow> None) \<rparr>)"

lemma sameSession_refl: "sameSession a a"
  by (cases a) simp_all

lemma sameSession_sym: "sameSession a b \<Longrightarrow> sameSession b a"
  by (cases a; cases b) simp_all

lemma sameSession_trans: "sameSession a b \<Longrightarrow> sameSession b c \<Longrightarrow> sameSession a c"
  by (cases a; cases b; cases c) simp_all

section \<open>Errors\<close>

text \<open>
  What a \<^verbatim>\<open>catch\<close> clause can receive: a falsy value, a string, an \<^verbatim>\<open>Error\<close> with its
  message, or another object, given by the text \<^verbatim>\<open>JSON.stringify\<close> renders for it (the
  error objects of the backend client are of this kind).
\<close>

datatype js_error = ErrFalsy | ErrString string | ErrError string | ErrObject string

definition normalizeError :: "js_error \<Rightarrow> string" where
  "normalizeError err =
     (case err of
        ErrFalsy \<Rightarrow> ''Errore sconosciuto''
      | ErrString s \<Rightarrow> (if s = [] then ''Errore sconosciuto'' else s)
      | ErrError m \<Rightarrow> (if m = [] then ''Errore sconosciuto'' else m)
      | ErrObject json \<Rightarrow> json)"

definition isMissingRpcError :: "js_error \<Rightarrow> string \<Rightarrow> bool" where
  "isMissingRpcError err rpcName =
     (let message = toLowerCase (normalizeError err);
          needle = toLowerCase (trim rpcName)
      in if needle = [] then False
         else includesStr message needle
              \<and> (includesStr message ''schema cache''
                   \<or> includesStr message ''could not find''
                   \<or> includesStr message ''does not exist''
                   \<or> includesStr message ''not found''))"

definition shouldRetryPrintLocally :: "js_error \<Rightarrow> bool" where
  "shouldRetryPrintLocally err =
     (let message = toLowerCase (normalizeError err)
      in includesStr message ''timeout''
         \<or> includesStr message ''econnreset''
         \<or> includesStr message ''ehostunreach''
         \<or> includesStr message ''econnrefused''
         \<or> includesStr message ''epipe'')"

section \<open>Data of the worker\<close>

datatype level = INFO | WARN | ERROR

datatype role = Owner | Admin | Manager | Staff

record WorkerConfig =
  consumerId :: string
  deviceName :: string
  pollMs :: int
  claimLimit :: int
  autoStart :: bool

record RestaurantScope =
  scope_id :: string
  scope_name :: string
  scope_city :: "string option"
  scope_role :: role

record AuthUser =
  user_id :: string
  user_email :: "string option"

record AuthState =
  user :: "AuthUser option"
  restaurant :: "RestaurantScope option"

record WorkerLogRow =
  log_at :: string
  log_level :: level
  log_message :: string

record Stats =
  claimed :: nat
  printed :: nat
  failed :: nat
  lastRunAt :: "string option"
  lastError :: "string option"

record Service =
  running :: bool
  processing :: bool
  timer :: "int option"
  assignedPrinterId :: "string option"
  stats :: Stats

text \<open>
  The route snapshot of a kitchen job is an object of unknown fields. Each field is the
  string \<^verbatim>\<open>String(field || "")\<close> (empty when the field is absent or falsy), the port is
  \<^verbatim>\<open>Number(route.port)\<close>. The payload of a kitchen job is only read by the ticket renderer.
\<close>

record SnapshotRoute =
  route_id :: string
  route_printer_id :: string
  route_host :: string
  route_port :: jsnum
  route_name :: string

record JobRow =
  job_id :: string
  job_department :: "string option"
  job_payload :: string
  job_route :: "SnapshotRoute option"
  job_created_at :: string

record LivePrinter =
  lp_id :: string
  lp_name :: string
  lp_host :: string
  lp_port :: int
  lp_enabled :: bool
  lp_departments :: "string list"

record LiveRoutes =
  byId :: "string \<rightharpoonup> LivePrinter"
  byDepartment :: "string \<rightharpoonup> LivePrinter"
  defaultPrinterId :: "string option"

record Route =
  target_id :: "string option"
  target_name :: string
  target_host :: string
  target_port :: int

text \<open>
  A printer of \<^verbatim>\<open>restaurants.settings.printing.printers\<close> before it is mapped:
  \<^verbatim>\<open>String(printer.id || "")\<close>, \<^verbatim>\<open>String(printer.name || "")\<close>,
  \<^verbatim>\<open>String(printer.host || "")\<close>, \<^verbatim>\<open>Number(printer.port)\<close>,
  \<^verbatim>\<open>printer.enabled !== false\<close>, and the entries of \<^verbatim>\<open>printer.departments\<close> as
  \<^verbatim>\<open>String(entry ?? "")\<close> (no entries when it is not an array).
\<close>

record RawPrinter =
  raw_id :: string
  raw_name :: string
  raw_host :: string
  raw_port :: jsnum
  raw_enabled :: bool
  raw_departments :: "string list"

text \<open>
  The payload of a fiscal job: the embedded route as \<^verbatim>\<open>String(route.host ?? "")\<close>,
  \<^verbatim>\<open>String(route.brand ?? "")\<close>, \<^verbatim>\<open>Number(route.port)\<close>,
  \<^verbatim>\<open>String(route.api_path ?? "")\<close>, then \<^verbatim>\<open>String(payload.table_number ?? "")\<close>,
  \<^verbatim>\<open>String(payload.payment_method ?? "")\<close> and \<^verbatim>\<open>Number(payload.total_amount)\<close>.
\<close>

record FiscalPayload =
  fp_host :: string
  fp_brand :: string
  fp_port :: jsnum
  fp_api_path :: string
  table_number :: string
  payment_method :: string
  total_amount :: jsnum

record PhysicalReceiptJobRow =
  pj_id :: string
  pj_payload :: FiscalPayload
  pj_created_at :: string

text \<open>
  A non-fiscal receipt job: the host \<^verbatim>\<open>String(route.host ?? "")\<close> and the port
  \<^verbatim>\<open>Number(route.port ?? 9100)\<close> of the embedded route; the rest of the payload is only read
  by the receipt renderer.
\<close>

record NonFiscalReceiptJobRow =
  nj_id :: string
  nj_host :: string
  nj_port :: jsnum
  nj_payload :: string
  nj_created_at :: string

record PublicService =
  pub_running :: bool
  pub_processing :: bool
  pub_assignedPrinterId :: "string option"
  pub_stats :: Stats

record WorkerPublicState =
  pub_config :: WorkerConfig
  pub_auth :: AuthState
  pub_service :: PublicService
  pub_logs :: "WorkerLogRow list"

record Worker =
  runtimeUrl :: string
  runtimeAnonKey :: string
  appVersion :: string
  config :: WorkerConfig
  savedSession :: "SessionSnapshot option"
  authState :: AuthState
  supabase :: bool
  physicalReceiptRpcAvailable :: bool
  nonFiscalReceiptRpcAvailable :: bool
  boundWindow :: bool
  service :: Service
  logs :: "WorkerLogRow list"

section \<open>Effects\<close>

text \<open>
  Everything the worker sends out of the process is a request: a backend RPC, a table
  read, an authentication call, a socket connection, an HTTP POST, a pause, a file write, a
  log row or a state snapshot for the shell, a reading of the clock. The environment answers
  each request; it is any function \<open>io\<close> from its own state and the request to a response and
  its next state. The requests are recorded in the order they are issued.
\<close>

datatype request =
    ReadClock
  | MainLog level string
  | SendLog WorkerLogRow
  | SendState WorkerPublicState
  | WriteFile WorkerConfig "SessionSnapshot option"
  | AuthGetUser
  | AuthSetSession string string
  | ResolveRestaurant string
  | PrintingListAgents string
  | PrintingRegisterAgent string string "string option" string string bool
  | SelectRestaurantSettings string
  | PrintClaimJobs string string int
  | PrintCompleteJob string string bool "string option"
  | PhysicalReceiptClaimJobs string string int
  | PhysicalReceiptCompleteJob string string bool "string option" "string option"
  | NonFiscalReceiptClaimJobs string string int
  | NonFiscalReceiptCompleteJob string string bool "string option"
  | OpenRawSocket string int "nat list"
  | HttpPost string string
  | Sleep nat

datatype response =
    RespNone
  | RespError js_error
  | RespTime string
  | RespUser "AuthUser option"
  | RespRestored "AuthUser option" "RawSession option"
  | RespScope "RestaurantScope option"
  | RespAgents "(string \<times> string) list"
  | RespPrinterId string
  | RespSettings "RawPrinter list" string
  | RespJobs "JobRow list"
  | RespPhysicalJobs "PhysicalReceiptJobRow list"
  | RespNonFiscalJobs "NonFiscalReceiptJobRow list"
  | RespHttp int string

record 'w sys =
  worker :: Worker
  world :: 'w
  trace :: "request list"

type_synonym 'w io = "'w \<Rightarrow> request \<Rightarrow> response \<times> 'w"

definition perform :: "'w io \<Rightarrow> request \<Rightarrow> 'w sys \<Rightarrow> response \<times> 'w sys" where
  "perform io req s =
     (case io (world s) req of
        (resp, w') \<Rightarrow> (resp, s\<lparr>world := w', trace := trace s @ [req]\<rparr>))"

definition failure :: "response \<Rightarrow> js_error option" where
  \<comment> \<open>The \<^verbatim>\<open>error\<close> of an answer, or what the call threw.\<close>
  "failure resp = (case resp of RespError e \<Rightarrow> Some e | _ \<Rightarrow> None)"

section \<open>State, log and persistence of the worker\<close>

definition LOG_CAP :: nat where
  "LOG_CAP = 500"

text \<open>The fields of the class as its initialisers and constructor set them.\<close>

definition initialWorker :: "string \<Rightarrow> string \<Rightarrow> string \<Rightarrow> string \<Rightarrow> string \<Rightarrow> Worker" where
  "initialWorker hostname platform url anonKey version =
     \<lparr> runtimeUrl = url, runtimeAnonKey = anonKey, appVersion = version,
       config = \<lparr> consumerId = sanitizeConsumerId hostname platform [],
                  deviceName = sanitizeDeviceName hostname (''Bridge '' @ hostname),
                  pollMs = 2500, claimLimit = 5, autoStart = True \<rparr>,
       savedSession = None,
       authState = \<lparr> user = None, restaurant = None \<rparr>,
       supabase = False,
       physicalReceiptRpcAvailable = True,
       nonFiscalReceiptRpcAvailable = True,
       boundWindow = False,
       service = \<lparr> running = False, processing = False, timer = None,
                   assignedPrinterId = None,
                   stats = \<lparr> claimed = 0, printed = 0, failed = 0,
                             lastRunAt = None, lastError = None \<rparr> \<rparr>,
       logs = [] \<rparr>"

definition getPublicState :: "Worker \<Rightarrow> WorkerPublicState" where
  "getPublicState w =
     \<lparr> pub_config = config w,
       pub_auth = authState w,
       pub_service = \<lparr> pub_running = running (service w),
                       pub_processing = processing (service w),
                       pub_assignedPrinterId = assignedPrinterId (service w),
                       pub_stats = stats (service w) \<rparr>,
       pub_logs = logs w \<rparr>"

text \<open>
  \<^verbatim>\<open>pushLog\<close> stamps the row with the clock, appends it, drops the oldest row above the
  capacity, and hands the row to the host's log sink and, when a window is bound, to the
  window.
\<close>

definition pushLog :: "'w io \<Rightarrow> level \<Rightarrow> string \<Rightarrow> 'w sys \<Rightarrow> 'w sys" where
  "pushLog io lvl msg s =
     (case perform io ReadClock s of
        (r, s1) \<Rightarrow>
          let entry = \<lparr> log_at = (case r of RespTime t \<Rightarrow> t | _ \<Rightarrow> []),
                        log_level = lvl, log_message = msg \<rparr>;
              pushed = logs (worker s1) @ [entry];
              kept = (if length pushed > LOG_CAP then tl pushed else pushed);
              s2 = s1\<lparr>worker := (worker s1)\<lparr>logs := kept\<rparr>\<rparr>;
              s3 = snd (perform io (MainLog lvl (''[print-worker] '' @ msg)) s2)
          in if boundWindow (worker s3) then snd (perform io (SendLog entry) s3) else s3)"

definition broadcastState :: "'w io \<Rightarrow> 'w sys \<Rightarrow> 'w sys" where
  "broadcastState io s =
     (if boundWindow (worker s)
      then snd (perform io (SendState (getPublicState (worker s))) s) else s)"

definition persistState :: "'w io \<Rightarrow> 'w sys \<Rightarrow> js_error option \<times> 'w sys" where
  \<comment> \<open>The full rewrite of the file; \<open>Some e\<close> is the error the write threw.\<close>
  "persistState io s =
     (case perform io (WriteFile (config (worker s)) (savedSession (worker s))) s of
        (resp, s1) \<Rightarrow> (failure resp, s1))"

definition ensureSupabaseClient :: "'w sys \<Rightarrow> js_error option \<times> 'w sys" where
  "ensureSupabaseClient s =
     (let url = trim (runtimeUrl (worker s)); anonKey = trim (runtimeAnonKey (worker s))
      in if url = [] \<or> anonKey = []
         then (Some (ErrError ''Config desktop Supabase non valida.''), s)
         else (None, s\<lparr>worker := (worker s)\<lparr>supabase := True\<rparr>\<rparr>))"

section \<open>Session manager\<close>

text \<open>
  \<^verbatim>\<open>resolveRestaurantForCurrentUser\<close> reads the tables of the backend; its queries and the
  choice among the rows they return are one request here, answered with the scope or with
  the error a query reported.
\<close>

definition resolveRestaurantForCurrentUser ::
  "'w io \<Rightarrow> string \<Rightarrow> 'w sys \<Rightarrow> (js_error + RestaurantScope option) \<times> 'w sys" where
  "resolveRestaurantForCurrentUser io userId s =
     (case ensureSupabaseClient s of
        (Some e, s0) \<Rightarrow> (Inl e, s0)
      | (None, s0) \<Rightarrow>
          (case perform io (ResolveRestaurant userId) s0 of
             (resp, s1) \<Rightarrow>
               (case failure resp of
                  Some e \<Rightarrow> (Inl e, s1)
                | None \<Rightarrow> (Inr (case resp of RespScope sc \<Rightarrow> sc | _ \<Rightarrow> None), s1))))"

definition setUser :: "AuthUser \<Rightarrow> 'w sys \<Rightarrow> 'w sys" where
  "setUser u s = s\<lparr>worker := (worker s)\<lparr>authState := (authState (worker s))\<lparr>user := Some u\<rparr>\<rparr>\<rparr>"

definition setRestaurant :: "RestaurantScope option \<Rightarrow> 'w sys \<Rightarrow> 'w sys" where
  "setRestaurant sc s =
     s\<lparr>worker := (worker s)\<lparr>authState := (authState (worker s))\<lparr>restaurant := sc\<rparr>\<rparr>\<rparr>"

definition adoptUser :: "'w io \<Rightarrow> AuthUser \<Rightarrow> 'w sys \<Rightarrow> js_error option \<times> 'w sys" where
  \<comment> \<open>The backend reports a current user: the scope is resolved when there is none yet.\<close>
  "adoptUser io u s1 =
     (let s2 = setUser u s1
      in if restaurant (authState (worker s2)) = None
         then (case resolveRestaurantForCurrentUser io (user_id u) s2 of
                 (Inl e, s3) \<Rightarrow> (Some e, s3)
               | (Inr sc, s3) \<Rightarrow> (None, setRestaurant sc s3))
         else (None, s2))"

definition adoptRestored ::
  "'w io \<Rightarrow> AuthUser \<Rightarrow> RawSession option \<Rightarrow> 'w sys \<Rightarrow> js_error option \<times> 'w sys" where
  \<comment> \<open>The saved session was restored: the scope is resolved again and refreshed tokens are
      persisted when they differ.\<close>
  "adoptRestored io u rawSession s2 =
     (case resolveRestaurantForCurrentUser io (user_id u) (setUser u s2) of
        (Inl e, s3) \<Rightarrow> (Some e, s3)
      | (Inr sc, s3) \<Rightarrow>
          (let s4 = setRestaurant sc s3;
               refreshedSnapshot = toSessionSnapshot rawSession
           in if refreshedSnapshot \<noteq> None
                 \<and> \<not> sameSession (savedSession (worker s4)) refreshedSnapshot
              then persistState io (s4\<lparr>worker := (worker s4)\<lparr>savedSession := refreshedSnapshot\<rparr>\<rparr>)
              else (None, s4)))"

definition restoreSession ::
  "'w io \<Rightarrow> SessionSnapshot \<Rightarrow> 'w sys \<Rightarrow> js_error option \<times> 'w sys" where
  "restoreSession io saved s1 =
     (case perform io (AuthSetSession (access_token saved) (refresh_token saved)) s1 of
        (resp, s2) \<Rightarrow>
          (case failure resp of
             Some e \<Rightarrow> (Some e, s2)
           | None \<Rightarrow>
               (case resp of
                  RespRestored (Some u) rawSession \<Rightarrow> adoptRestored io u rawSession s2
                | _ \<Rightarrow> (Some (ErrError ''SESSION_INVALID''), s2))))"

definition ensureSignedIn :: "'w io \<Rightarrow> 'w sys \<Rightarrow> js_error option \<times> 'w sys" where
  "ensureSignedIn io s =
     (case ensureSupabaseClient s of
        (Some e, s0) \<Rightarrow> (Some e, s0)
      | (None, s0) \<Rightarrow>
          (case perform io AuthGetUser s0 of
             (resp, s1) \<Rightarrow>
               (case (case resp of RespUser u \<Rightarrow> u | _ \<Rightarrow> None) of
                  Some u \<Rightarrow> adoptUser io u s1
                | None \<Rightarrow>
                    (case savedSession (worker s1) of
                       None \<Rightarrow> (Some (ErrError ''Sessione desktop assente: effettua login nell'app.''), s1)
                     | Some saved \<Rightarrow> restoreSession io saved s1))))"

section \<open>Starting the service and synchronising the session\<close>

text \<open>
  \<^verbatim>\<open>runTick\<close> is asynchronous. Up to its first \<^verbatim>\<open>await\<close> it runs in the caller's turn:
  it returns when the service is not running or a tick is in progress, and otherwise takes
  the processing flag and broadcasts. \<open>runTickStart\<close> is that part; the boolean tells whether
  the tick goes on.
\<close>

definition runTickStart :: "'w io \<Rightarrow> 'w sys \<Rightarrow> bool \<times> 'w sys" where
  "runTickStart io s =
     (if \<not> running (service (worker s)) \<or> processing (service (worker s)) then (False, s)
      else (True, broadcastState io
              (s\<lparr>worker := (worker s)\<lparr>service := (service (worker s))\<lparr>processing := True\<rparr>\<rparr>\<rparr>)))"

definition hasRestaurantId :: "Worker \<Rightarrow> bool" where
  \<comment> \<open>\<^verbatim>\<open>this.authState.restaurant?.id\<close> is truthy.\<close>
  "hasRestaurantId w =
     (case restaurant (authState w) of None \<Rightarrow> False | Some sc \<Rightarrow> scope_id sc \<noteq> [])"

definition restaurantId :: "Worker \<Rightarrow> string" where
  "restaurantId w = (case restaurant (authState w) of None \<Rightarrow> [] | Some sc \<Rightarrow> scope_id sc)"

text \<open>
  \<^verbatim>\<open>startService\<close> returns at once when the service runs. Otherwise it signs in, resets
  the assignment, the counters and both availability flags, and starts a tick without
  waiting for it (\<^verbatim>\<open>void this.runTick()\<close>).
\<close>

definition startService :: "'w io \<Rightarrow> 'w sys \<Rightarrow> (js_error + WorkerPublicState) \<times> 'w sys" where
  "startService io s =
     (if running (service (worker s)) then (Inr (getPublicState (worker s)), s)
      else case ensureSignedIn io s of
        (Some e, s1) \<Rightarrow> (Inl e, s1)
      | (None, s1) \<Rightarrow>
          if \<not> hasRestaurantId (worker s1)
          then (Inl (ErrError ''Nessun ristorante associato all'account.''), s1)
          else
            let w1 = worker s1;
                w2 = w1\<lparr> service := (service w1)
                         \<lparr> running := True, processing := False, assignedPrinterId := None,
                           stats := \<lparr> claimed = 0, printed = 0, failed = 0,
                                      lastRunAt = None, lastError = None \<rparr> \<rparr>,
                       physicalReceiptRpcAvailable := True,
                       nonFiscalReceiptRpcAvailable := True \<rparr>;
                s2 = pushLog io INFO (''Servizio stampa avviato ('' @ consumerId (config w2) @ '')'')
                       (s1\<lparr>worker := w2\<rparr>);
                s3 = broadcastState io s2;
                s4 = snd (runTickStart io s3)
            in (Inr (getPublicState (worker s4)), s4))"

definition syncSession ::
  "'w io \<Rightarrow> RawSession option \<Rightarrow> 'w sys \<Rightarrow> (js_error + WorkerPublicState) \<times> 'w sys" where
  "syncSession io rawSession s =
     (case toSessionSnapshot rawSession of
        None \<Rightarrow> (Inl (ErrError ''SESSION_INVALID''), s)
      | Some snapshot \<Rightarrow>
          if sameSession (savedSession (worker s)) (Some snapshot)
          then (Inr (getPublicState (worker s)), s)
          else
            (case persistState io (s\<lparr>worker := (worker s)\<lparr>savedSession := Some snapshot\<rparr>\<rparr>) of
               (Some e, s2) \<Rightarrow> (Inl e, s2)
             | (None, s2) \<Rightarrow>
                 let s3 = pushLog io INFO ''Sessione desktop sincronizzata'' s2;
                     s4 = (if autoStart (config (worker s3)) \<and> \<not> running (service (worker s3))
                           then (case startService io s3 of
                                   (Inl e, s') \<Rightarrow>
                                     pushLog io WARN (''Auto-start non riuscito: '' @ normalizeError e) s'
                                 | (Inr st, s') \<Rightarrow> s')
                           else s3)
                 in (Inr (getPublicState (worker s4)), s4)))"

section \<open>Numbers as text, and what the model takes from outside\<close>

function showNat :: "nat \<Rightarrow> string" where
  "showNat n = (if n < 10 then [char_of (48 + n)] else showNat (n div 10) @ [char_of (48 + n mod 10)])"
  by pat_completeness auto
termination
  by (relation "measure (\<lambda>n. n)") auto

declare showNat.simps [simp del]

definition showInt :: "int \<Rightarrow> string" where
  "showInt i = (if i < 0 then ''-'' @ showNat (nat (- i)) else showNat (nat i))"

text \<open>
  Four computations are not followed into their implementation and are parameters of the
  model, so that every theorem holds whatever they compute:
  the double product \<^verbatim>\<open>amount * 100\<close> (a product of doubles is rounded and can overflow to
  infinity); the text of a number that is not an integer of at most 53 bits (integers up to
  that size are written in decimal digits); the two readings of the response of a fiscal
  device that are made with regular expressions (whether the body reports an error, and the
  receipt identifier in it); and the bytes the two ticket renderers produce for a job, or
  the error they throw.
\<close>

record Externals =
  times100 :: "rat \<Rightarrow> jsnum"
  numberText :: "rat \<Rightarrow> string"
  rtErrorBody :: "string \<Rightarrow> bool"
  extractReceiptIdFromResponse :: "string \<Rightarrow> string option"
  kitchenPayload :: "JobRow \<Rightarrow> js_error + nat list"
  receiptPayload :: "NonFiscalReceiptJobRow \<Rightarrow> js_error + nat list"

definition numberToString :: "Externals \<Rightarrow> jsnum \<Rightarrow> string" where
  "numberToString ext n =
     (case n of
        NaN \<Rightarrow> ''NaN''
      | PosInf \<Rightarrow> ''Infinity''
      | NegInf \<Rightarrow> ''-Infinity''
      | Fin q \<Rightarrow> (if of_int \<lfloor>q\<rfloor> = q \<and> \<bar>q\<bar> \<le> 2 ^ 53 then showInt \<lfloor>q\<rfloor> else numberText ext q))"

fun mathMax :: "jsnum \<Rightarrow> jsnum \<Rightarrow> jsnum" where
  "mathMax NaN b = NaN"
| "mathMax a NaN = NaN"
| "mathMax PosInf b = PosInf"
| "mathMax a PosInf = PosInf"
| "mathMax NegInf b = b"
| "mathMax a NegInf = a"
| "mathMax (Fin x) (Fin y) = Fin (max x y)"

fun mathRound :: "jsnum \<Rightarrow> jsnum" where
  \<comment> \<open>\<^verbatim>\<open>Math.round\<close>: the nearest integer, a tie going up.\<close>
  "mathRound (Fin q) = Fin (of_int \<lfloor>q + 1 / 2\<rfloor>)"
| "mathRound n = n"

section \<open>Fiscal receipt document\<close>

definition normalizePaymentMethod :: "string \<Rightarrow> string" where
  "normalizePaymentMethod v =
     (let method = toLowerCase (trim v) in if method = ''card'' then ''card'' else ''cash'')"

text \<open>
  \<^verbatim>\<open>
  function toCents(value: unknown) {
    const amount = Number(value);
    if (!Number.isFinite(amount) || amount <= 0) return 0;
    return Math.max(0, Math.round(amount * 100));
  }
  \<close>
\<close>

definition toCents :: "Externals \<Rightarrow> jsnum \<Rightarrow> jsnum" where
  "toCents ext amount =
     (case amount of
        Fin q \<Rightarrow> (if q \<le> 0 then Fin 0 else mathMax (Fin 0) (mathRound (times100 ext q)))
      | _ \<Rightarrow> Fin 0)"

definition replaceAll :: "char \<Rightarrow> string \<Rightarrow> string \<Rightarrow> string" where
  "replaceAll c r s = concat (map (\<lambda>x. if x = c then r else [x]) s)"

definition escapeXml :: "string \<Rightarrow> string" where
  \<open>escapeXml v =
     replaceAll (CHR 0x27) ''&apos;''
       (replaceAll (CHR 0x22) ''&quot;''
         (replaceAll CHR ''>'' ''&gt;''
           (replaceAll CHR ''<'' ''&lt;''
             (replaceAll CHR ''&'' ''&amp;'' v))))\<close>

definition newline :: string where
  "newline = [CHR 0x0A]"

definition buildEpsonFiscalReceiptXml :: "Externals \<Rightarrow> FiscalPayload \<Rightarrow> string" where
  \<open>buildEpsonFiscalReceiptXml ext payload =
     (let tableNumber = (if trim (table_number payload) \<noteq> [] then trim (table_number payload) else ''-'');
          paymentMethod = normalizePaymentMethod (payment_method payload);
          paymentLabel = (if paymentMethod = ''card'' then ''ELETTRONICO'' else ''CONTANTI'');
          cents = mathMax (Fin 1) (toCents ext (total_amount payload));
          description = ''Sushiamo Tavolo '' @ tableNumber
      in ''<?xml version="1.0" encoding="UTF-8"?>'' @ newline
         @ ''<FPMessage>'' @ newline
         @ ''  <beginFiscalReceipt operator="1"/>'' @ newline
         @ ''  <printRecItem description="'' @ escapeXml description
           @ ''" price="'' @ numberToString ext cents
           @ ''" quantity="1" department="1" vatCode="1"/>'' @ newline
         @ ''  <printRecTotal description="'' @ paymentLabel
           @ ''" payment="'' @ numberToString ext cents @ ''"/>'' @ newline
         @ ''  <endFiscalReceipt/>'' @ newline
         @ ''</FPMessage>'')\<close>

section \<open>Live printer routes and route resolution\<close>

definition normalizeDepartment :: "string \<Rightarrow> string" where
  \<comment> \<open>The argument is \<^verbatim>\<open>String(value ?? "")\<close>.\<close>
  "normalizeDepartment v = (let dep = toLowerCase (trim v) in if dep \<noteq> [] then dep else ''cucina'')"

text \<open>
  \<^verbatim>\<open>fetchLivePrinterRoutes\<close> reads the settings of the restaurant and indexes the
  printers: every printer with an id by that id (a later one replaces an earlier one), and
  every enabled printer with a host by each of its departments that has no printer yet.
\<close>

fun addDepartments ::
  "LivePrinter \<Rightarrow> string list \<Rightarrow> (string \<rightharpoonup> LivePrinter) \<Rightarrow> (string \<rightharpoonup> LivePrinter)" where
  "addDepartments mapped [] byDep = byDep"
| "addDepartments mapped (dep # deps) byDep =
     addDepartments mapped deps (if byDep dep = None then byDep(dep \<mapsto> mapped) else byDep)"

definition mapPrinter :: "RawPrinter \<Rightarrow> LivePrinter" where
  \<comment> \<open>The object \<^verbatim>\<open>mapped\<close> built for a printer whose trimmed id is not empty.\<close>
  "mapPrinter printer =
     \<lparr> lp_id = trim (raw_id printer),
       lp_name = (if trim (raw_name printer) \<noteq> [] then trim (raw_name printer)
                  else trim (raw_id printer)),
       lp_host = trim (raw_host printer),
       lp_port = sanitizePrinterPort (raw_port printer),
       lp_enabled = raw_enabled printer,
       lp_departments =
         filter (\<lambda>d. d \<noteq> []) (map normalizeDepartment (raw_departments printer)) \<rparr>"

fun indexPrinters ::
  "RawPrinter list \<Rightarrow> (string \<rightharpoonup> LivePrinter) \<times> (string \<rightharpoonup> LivePrinter)
   \<Rightarrow> (string \<rightharpoonup> LivePrinter) \<times> (string \<rightharpoonup> LivePrinter)" where
  "indexPrinters [] (byI, byDep) = (byI, byDep)"
| "indexPrinters (printer # rest) (byI, byDep) =
     (if trim (raw_id printer) = [] then indexPrinters rest (byI, byDep)
      else indexPrinters rest
             (byI(trim (raw_id printer) \<mapsto> mapPrinter printer),
              if lp_enabled (mapPrinter printer) \<and> lp_host (mapPrinter printer) \<noteq> []
              then addDepartments (mapPrinter printer) (lp_departments (mapPrinter printer)) byDep
              else byDep))"

definition buildLiveRoutes :: "RawPrinter list \<Rightarrow> string \<Rightarrow> LiveRoutes" where
  \<comment> \<open>The second argument is \<^verbatim>\<open>String(printing.default_printer_id || "")\<close>.\<close>
  "buildLiveRoutes printersRaw defaultRaw =
     (case indexPrinters printersRaw (Map.empty, Map.empty) of
        (byI, byDep) \<Rightarrow>
          \<lparr> byId = byI, byDepartment = byDep,
            defaultPrinterId = (if trim defaultRaw \<noteq> [] then Some (trim defaultRaw) else None) \<rparr>)"

definition fetchLivePrinterRoutes ::
  "'w io \<Rightarrow> string \<Rightarrow> 'w sys \<Rightarrow> (js_error + LiveRoutes) \<times> 'w sys" where
  "fetchLivePrinterRoutes io rid s =
     (case ensureSupabaseClient s of
        (Some e, s0) \<Rightarrow> (Inl e, s0)
      | (None, s0) \<Rightarrow>
          (case perform io (SelectRestaurantSettings rid) s0 of
             (resp, s1) \<Rightarrow>
               (case failure resp of
                  Some e \<Rightarrow> (Inl e, s1)
                | None \<Rightarrow>
                    (Inr (case resp of
                            RespSettings printersRaw defaultRaw \<Rightarrow> buildLiveRoutes printersRaw defaultRaw
                          | _ \<Rightarrow> buildLiveRoutes [] []), s1))))"

definition snapshotId :: "JobRow \<Rightarrow> string option" where
  \<comment> \<open>\<^verbatim>\<open>String(snapshotRoute.id || snapshotRoute.printer_id || "").trim() || null\<close>\<close>
  "snapshotId job =
     (case job_route job of
        None \<Rightarrow> None
      | Some r \<Rightarrow>
          let t = trim (if route_id r \<noteq> [] then route_id r else route_printer_id r)
          in if t \<noteq> [] then Some t else None)"

definition snapshotHost :: "JobRow \<Rightarrow> string" where
  "snapshotHost job = (case job_route job of None \<Rightarrow> [] | Some r \<Rightarrow> trim (route_host r))"

definition snapshotPort :: "JobRow \<Rightarrow> int" where
  "snapshotPort job =
     sanitizePrinterPort (case job_route job of None \<Rightarrow> NaN | Some r \<Rightarrow> route_port r)"

definition snapshotName :: "JobRow \<Rightarrow> string" where
  \<comment> \<open>\<^verbatim>\<open>String(snapshotRoute.name || snapshotId || snapshotHost)\<close>\<close>
  "snapshotName job =
     (case job_route job of
        None \<Rightarrow> snapshotHost job
      | Some r \<Rightarrow>
          if route_name r \<noteq> [] then route_name r
          else (case snapshotId job of Some i \<Rightarrow> i | None \<Rightarrow> snapshotHost job))"

definition jobDepartment :: "JobRow \<Rightarrow> string" where
  "jobDepartment job = normalizeDepartment (case job_department job of None \<Rightarrow> [] | Some d \<Rightarrow> d)"

definition usable :: "LivePrinter option \<Rightarrow> bool" where
  \<comment> \<open>\<^verbatim>\<open>live && live.enabled && live.host\<close>\<close>
  "usable p = (case p of None \<Rightarrow> False | Some live \<Rightarrow> lp_enabled live \<and> lp_host live \<noteq> [])"

definition toRoute :: "LivePrinter \<Rightarrow> Route" where
  "toRoute live = \<lparr> target_id = Some (lp_id live), target_name = lp_name live,
                    target_host = lp_host live, target_port = lp_port live \<rparr>"

definition liveById :: "LiveRoutes option \<Rightarrow> string option \<Rightarrow> LivePrinter option" where
  \<comment> \<open>\<^verbatim>\<open>liveRoutes?.byId && id ? liveRoutes.byId.get(id) : undefined\<close>: an empty id is not
      looked up.\<close>
  "liveById liveRoutes ident =
     (case liveRoutes of
        None \<Rightarrow> None
      | Some lr \<Rightarrow> (case ident of None \<Rightarrow> None | Some i \<Rightarrow> if i = [] then None else byId lr i))"

definition resolveRouteForJob :: "JobRow \<Rightarrow> LiveRoutes option \<Rightarrow> Route option" where
  "resolveRouteForJob job liveRoutes =
     (let dep = jobDepartment job;
          live = liveById liveRoutes (snapshotId job);
          byDep = (case liveRoutes of None \<Rightarrow> None | Some lr \<Rightarrow> byDepartment lr dep);
          fallback = liveById liveRoutes (case liveRoutes of None \<Rightarrow> None | Some lr \<Rightarrow> defaultPrinterId lr)
      in if usable live then map_option toRoute live
         else if usable byDep then map_option toRoute byDep
         else if usable fallback then map_option toRoute fallback
         else if snapshotHost job \<noteq> []
         then Some \<lparr> target_id = snapshotId job, target_name = snapshotName job,
                     target_host = snapshotHost job, target_port = snapshotPort job \<rparr>
         else None)"

section \<open>Delivery with local retry\<close>

text \<open>
  The three delivery functions run the same loop around their attempt:
  \<^verbatim>\<open>
  let lastError: unknown = null;
  for (let attempt = 1; attempt <= 2; attempt += 1) {
    try { ...attempt...; return ...; }
    catch (error) {
      lastError = error;
      if (attempt >= 2 || !shouldRetryPrintLocally(error)) break;
      await sleep(500);
    }
  }
  \<close>
  \<open>retryLoop\<close> is that loop from a given value of \<^verbatim>\<open>attempt\<close>; \<open>Inr\<close> is the value the
  attempt returned, \<open>Inl\<close> the last error when the loop is left without a return.
\<close>

function retryLoop ::
  "'w io \<Rightarrow> ('w sys \<Rightarrow> (js_error + 'a) \<times> 'w sys) \<Rightarrow> nat \<Rightarrow> js_error option \<Rightarrow> 'w sys
   \<Rightarrow> (js_error option + 'a) \<times> 'w sys" where
  "retryLoop io body attempt lastErr s =
     (if attempt \<le> 2
      then (case body s of
              (Inr v, s1) \<Rightarrow> (Inr v, s1)
            | (Inl e, s1) \<Rightarrow>
                if attempt \<ge> 2 \<or> \<not> shouldRetryPrintLocally e then (Inl (Some e), s1)
                else retryLoop io body (attempt + 1) (Some e) (snd (perform io (Sleep 500) s1)))
      else (Inl lastErr, s))"
  by pat_completeness auto
termination
  by (relation "measure (\<lambda>(io, body, attempt, lastErr, s). 3 - attempt)") auto

declare retryLoop.simps [simp del]

definition lastErrorText :: "js_error option \<Rightarrow> string" where
  \<comment> \<open>\<^verbatim>\<open>normalizeError(lastError)\<close>, where \<^verbatim>\<open>lastError\<close> starts as null.\<close>
  "lastErrorText lastErr = normalizeError (case lastErr of None \<Rightarrow> ErrFalsy | Some e \<Rightarrow> e)"

definition openRawSocket ::
  "'w io \<Rightarrow> string \<Rightarrow> int \<Rightarrow> nat list \<Rightarrow> 'w sys \<Rightarrow> (js_error + unit) \<times> 'w sys" where
  \<comment> \<open>One connection: the environment answers with the error the socket reported, if any.\<close>
  "openRawSocket io host port payload s =
     (case perform io (OpenRawSocket host port payload) s of
        (resp, s1) \<Rightarrow> (case failure resp of Some e \<Rightarrow> (Inl e, s1) | None \<Rightarrow> (Inr (), s1)))"

definition sendToPrinter ::
  "Externals \<Rightarrow> 'w io \<Rightarrow> JobRow \<Rightarrow> Route option \<Rightarrow> 'w sys \<Rightarrow> (js_error + unit) \<times> 'w sys" where
  "sendToPrinter ext io job routeOverride s =
     (let host = trim (case routeOverride of None \<Rightarrow> [] | Some r \<Rightarrow> target_host r);
          port = sanitizePrinterPort (case routeOverride of None \<Rightarrow> NaN | Some r \<Rightarrow> ofInt (target_port r))
      in if host = [] then (Inl (ErrError ''NO_PRINTER_HOST''), s)
         else case kitchenPayload ext job of
           Inl e \<Rightarrow> (Inl e, s)
         | Inr payload \<Rightarrow>
             (case retryLoop io (openRawSocket io host port payload) 1 None s of
                (Inr u, s1) \<Rightarrow> (Inr (), s1)
              | (Inl lastErr, s1) \<Rightarrow>
                  (Inl (ErrError (lastErrorText lastErr
                                  @ '' (target '' @ host @ '':'' @ showInt port @ '')'')), s1)))"

definition normalizePhysicalBrand :: "string \<Rightarrow> string" where
  "normalizePhysicalBrand v = (let brand = toLowerCase (trim v) in if brand \<noteq> [] then brand else ''epson'')"

definition sanitizePhysicalPort :: "jsnum \<Rightarrow> string \<Rightarrow> int" where
  "sanitizePhysicalPort parsed brand =
     (case parsed of
        Fin q \<Rightarrow> (if of_int \<lfloor>q\<rfloor> = q \<and> q \<ge> 1 \<and> q \<le> 65535 then \<lfloor>q\<rfloor>
                  else if brand = ''epson'' then 8008 else 9100)
      | _ \<Rightarrow> (if brand = ''epson'' then 8008 else 9100))"

definition defaultPhysicalPathByBrand :: "string \<Rightarrow> string" where
  "defaultPhysicalPathByBrand brand = (if brand = ''epson'' then ''/cgi-bin/fpmate.cgi'' else ''/'')"

definition sanitizePhysicalPath :: "string \<Rightarrow> string \<Rightarrow> string" where
  "sanitizePhysicalPath v brand =
     (let pathValue = trim v
      in if pathValue = [] then defaultPhysicalPathByBrand brand
         else if prefix ''/'' pathValue then pathValue else ''/'' @ pathValue)"

text \<open>
  \<^verbatim>\<open>postPhysicalReceipt\<close>: one HTTP POST of the fiscal document. The environment answers
  with the status and the body, or with the error \<^verbatim>\<open>fetch\<close> threw (any other answer
  counts as such an error).
\<close>

definition readFiscalResponse :: "Externals \<Rightarrow> response \<Rightarrow> js_error + string option" where
  "readFiscalResponse ext resp =
     (case resp of
        RespHttp status responseText \<Rightarrow>
          if \<not> (200 \<le> status \<and> status \<le> 299)
          then Inl (ErrError (''HTTP '' @ showInt status @ '': ''
                      @ (if responseText \<noteq> [] then responseText else ''RT response error'')))
          else if rtErrorBody ext responseText
          then Inl (ErrError (if take 500 responseText \<noteq> [] then take 500 responseText
                               else ''RT_ERROR_RESPONSE''))
          else Inr (extractReceiptIdFromResponse ext responseText)
      | RespError e \<Rightarrow> Inl e
      | _ \<Rightarrow> Inl ErrFalsy)"

definition postPhysicalReceipt ::
  "Externals \<Rightarrow> 'w io \<Rightarrow> FiscalPayload \<Rightarrow> 'w sys \<Rightarrow> (js_error + string option) \<times> 'w sys" where
  "postPhysicalReceipt ext io payload s =
     (let host = trim (fp_host payload);
          brand = normalizePhysicalBrand (fp_brand payload);
          port = sanitizePhysicalPort (fp_port payload) brand;
          apiPath = sanitizePhysicalPath (fp_api_path payload) brand
      in if host = [] then (Inl (ErrError ''PHYSICAL_RT_HOST_MISSING''), s)
         else
           let endpoint = ''http://'' @ host @ '':'' @ showInt port @ apiPath;
               body = buildEpsonFiscalReceiptXml ext payload
           in case perform io (HttpPost endpoint body) s of
                (resp, s1) \<Rightarrow> (readFiscalResponse ext resp, s1))"

definition clockText :: "'w io \<Rightarrow> 'w sys \<Rightarrow> string \<times> 'w sys" where
  \<comment> \<open>A reading of the clock, as text.\<close>
  "clockText io s = (case perform io ReadClock s of (RespTime t, s1) \<Rightarrow> (t, s1) | (_, s1) \<Rightarrow> ([], s1))"

definition sendToPhysicalReceiptDevice ::
  "Externals \<Rightarrow> 'w io \<Rightarrow> PhysicalReceiptJobRow \<Rightarrow> 'w sys \<Rightarrow> (js_error + string) \<times> 'w sys" where
  "sendToPhysicalReceiptDevice ext io job s =
     (let payload = pj_payload job
      in case retryLoop io (postPhysicalReceipt ext io payload) 1 None s of
           (Inr receiptId, s1) \<Rightarrow>
             (case receiptId of
                Some r \<Rightarrow> if r \<noteq> [] then (Inr r, s1)
                          else (case clockText io s1 of
                                  (now, s2) \<Rightarrow> (Inr (''RT-'' @ take 8 (pj_id job) @ ''-'' @ now), s2))
              | None \<Rightarrow> (case clockText io s1 of
                           (now, s2) \<Rightarrow> (Inr (''RT-'' @ take 8 (pj_id job) @ ''-'' @ now), s2)))
         | (Inl lastErr, s1) \<Rightarrow>
             let host = (if trim (fp_host payload) \<noteq> [] then trim (fp_host payload) else ''n/a'');
                 brand = normalizePhysicalBrand (fp_brand payload);
                 port = sanitizePhysicalPort (fp_port payload) brand
             in (Inl (ErrError (lastErrorText lastErr
                                @ '' (target '' @ host @ '':'' @ showInt port @ '')'')), s1))"

definition sendToNonFiscalReceiptPrinter ::
  "Externals \<Rightarrow> 'w io \<Rightarrow> NonFiscalReceiptJobRow \<Rightarrow> 'w sys \<Rightarrow> (js_error + unit) \<times> 'w sys" where
  "sendToNonFiscalReceiptPrinter ext io job s =
     (let host = trim (nj_host job);
          port = sanitizePrinterPort (nj_port job)
      in if host = [] then (Inl (ErrError ''NO_PRINTER_HOST''), s)
         else case receiptPayload ext job of
           Inl e \<Rightarrow> (Inl e, s)
         | Inr escPosPayload \<Rightarrow>
             (case retryLoop io (openRawSocket io host port escPosPayload) 1 None s of
                (Inr u, s1) \<Rightarrow> (Inr (), s1)
              | (Inl lastErr, s1) \<Rightarrow>
                  (Inl (ErrError (lastErrorText lastErr
                                  @ '' (target '' @ host @ '':'' @ showInt port @ '')'')), s1)))"

section \<open>Completion calls and heartbeat\<close>

text \<open>
  The three completion calls. The error text sent with a failure is the message, or a fixed
  word when there is none, cut to 500 characters. (The constant \<^verbatim>\<open>p_meta\<close> object of the
  calls is left out of the requests.)
\<close>

definition failureText :: "string \<Rightarrow> string option \<Rightarrow> string" where
  \<comment> \<open>\<^verbatim>\<open>String(errorMessage || fallback).slice(0, 500)\<close>\<close>
  "failureText fallback errorMessage =
     take 500 (case errorMessage of None \<Rightarrow> fallback | Some m \<Rightarrow> if m = [] then fallback else m)"

definition completePrintJob ::
  "'w io \<Rightarrow> JobRow \<Rightarrow> bool \<Rightarrow> string option \<Rightarrow> 'w sys \<Rightarrow> js_error option \<times> 'w sys" where
  "completePrintJob io job success errorMessage s =
     (case ensureSupabaseClient s of
        (Some e, s0) \<Rightarrow> (Some e, s0)
      | (None, s0) \<Rightarrow>
          (case perform io
                  (PrintCompleteJob (job_id job) (consumerId (config (worker s0))) success
                     (if success then None else Some (failureText ''PRINT_FAILED'' errorMessage))) s0 of
             (resp, s1) \<Rightarrow> (failure resp, s1)))"

definition completePhysicalReceiptJob ::
  "'w io \<Rightarrow> PhysicalReceiptJobRow \<Rightarrow> bool \<Rightarrow> string option \<Rightarrow> string option \<Rightarrow> 'w sys
   \<Rightarrow> js_error option \<times> 'w sys" where
  "completePhysicalReceiptJob io job success receiptId errorMessage s =
     (case ensureSupabaseClient s of
        (Some e, s0) \<Rightarrow> (Some e, s0)
      | (None, s0) \<Rightarrow>
          (case perform io
                  (PhysicalReceiptCompleteJob (pj_id job) (consumerId (config (worker s0))) success
                     (if success
                      then (case receiptId of
                              None \<Rightarrow> None
                            | Some r \<Rightarrow> if trim r \<noteq> [] then Some (trim r) else None)
                      else None)
                     (if success then None
                      else Some (failureText ''PHYSICAL_RECEIPT_FAILED'' errorMessage))) s0 of
             (resp, s1) \<Rightarrow> (failure resp, s1)))"

definition completeNonFiscalReceiptJob ::
  "'w io \<Rightarrow> NonFiscalReceiptJobRow \<Rightarrow> bool \<Rightarrow> string option \<Rightarrow> 'w sys
   \<Rightarrow> js_error option \<times> 'w sys" where
  "completeNonFiscalReceiptJob io job success errorMessage s =
     (case ensureSupabaseClient s of
        (Some e, s0) \<Rightarrow> (Some e, s0)
      | (None, s0) \<Rightarrow>
          (case perform io
                  (NonFiscalReceiptCompleteJob (nj_id job) (consumerId (config (worker s0))) success
                     (if success then None else Some (failureText ''PRINT_FAILED'' errorMessage))) s0 of
             (resp, s1) \<Rightarrow> (failure resp, s1)))"

definition fetchAssignedPrinterId ::
  "'w io \<Rightarrow> 'w sys \<Rightarrow> (js_error + string option) \<times> 'w sys" where
  \<comment> \<open>The rows are given as \<^verbatim>\<open>String(row.agent_id || "")\<close> and \<^verbatim>\<open>String(row.printer_id || "")\<close>.\<close>
  "fetchAssignedPrinterId io s =
     (if \<not> hasRestaurantId (worker s) then (Inr None, s)
      else case ensureSupabaseClient s of
        (Some e, s0) \<Rightarrow> (Inl e, s0)
      | (None, s0) \<Rightarrow>
          (case perform io (PrintingListAgents (restaurantId (worker s0))) s0 of
             (resp, s1) \<Rightarrow>
               (case failure resp of
                  Some e \<Rightarrow> (Inl e, s1)
                | None \<Rightarrow>
                    let rows = (case resp of RespAgents rs \<Rightarrow> rs | _ \<Rightarrow> [])
                    in (Inr (case find (\<lambda>row. trim (fst row) = consumerId (config (worker s1))) rows of
                               None \<Rightarrow> None
                             | Some row \<Rightarrow> if trim (snd row) \<noteq> [] then Some (trim (snd row)) else None),
                        s1))))"

definition orElse :: "'a option \<Rightarrow> 'a option \<Rightarrow> 'a option" where
  "orElse a b = (case a of None \<Rightarrow> b | Some v \<Rightarrow> Some v)"

definition setAssigned :: "string option \<Rightarrow> 'w sys \<Rightarrow> 'w sys" where
  "setAssigned p s =
     s\<lparr>worker := (worker s)\<lparr>service := (service (worker s))\<lparr>assignedPrinterId := p\<rparr>\<rparr>\<rparr>"

text \<open>
  \<^verbatim>\<open>heartbeatAgent\<close> catches every error of its calls and logs it, so it never throws.
\<close>

definition heartbeatAgent :: "'w io \<Rightarrow> bool \<Rightarrow> 'w sys \<Rightarrow> 'w sys" where
  "heartbeatAgent io isActive s =
     (if \<not> hasRestaurantId (worker s) then s
      else case ensureSupabaseClient s of
        (Some e, s0) \<Rightarrow> pushLog io WARN (''Heartbeat agente fallito: '' @ normalizeError e) s0
      | (None, s0) \<Rightarrow>
          (case (case fetchAssignedPrinterId io s0 of
                   (Inl e, s') \<Rightarrow>
                     (None, pushLog io WARN (''Lettura assegnazione agente fallita: '' @ normalizeError e) s')
                 | (Inr v, s') \<Rightarrow> (v, s')) of
             (serverAssigned, s1) \<Rightarrow>
               (case perform io
                       (PrintingRegisterAgent (restaurantId (worker s1)) (consumerId (config (worker s1)))
                          (orElse serverAssigned (assignedPrinterId (service (worker s1))))
                          (deviceName (config (worker s1))) (appVersion (worker s1)) isActive) s1 of
                  (resp, s2) \<Rightarrow>
                    (case failure resp of
                       Some e \<Rightarrow> pushLog io WARN (''Heartbeat agente fallito: '' @ normalizeError e) s2
                     | None \<Rightarrow>
                         let nextAssigned =
                               orElse (case resp of
                                         RespPrinterId p \<Rightarrow> if trim p \<noteq> [] then Some (trim p) else None
                                       | _ \<Rightarrow> None) serverAssigned
                         in if assignedPrinterId (service (worker s2)) \<noteq> nextAssigned
                            then broadcastState io (setAssigned nextAssigned s2) else s2))))"

section \<open>The tick\<close>

definition addClaimed :: "nat \<Rightarrow> 'w sys \<Rightarrow> 'w sys" where
  "addClaimed n s =
     s\<lparr>worker := (worker s)\<lparr>service := (service (worker s))
        \<lparr>stats := (stats (service (worker s)))\<lparr>claimed := claimed (stats (service (worker s))) + n\<rparr>\<rparr>\<rparr>\<rparr>"

definition addPrinted :: "'w sys \<Rightarrow> 'w sys" where
  "addPrinted s =
     s\<lparr>worker := (worker s)\<lparr>service := (service (worker s))
        \<lparr>stats := (stats (service (worker s)))\<lparr>printed := printed (stats (service (worker s))) + 1\<rparr>\<rparr>\<rparr>\<rparr>"

definition addFailed :: "'w sys \<Rightarrow> 'w sys" where
  "addFailed s =
     s\<lparr>worker := (worker s)\<lparr>service := (service (worker s))
        \<lparr>stats := (stats (service (worker s)))\<lparr>failed := failed (stats (service (worker s))) + 1\<rparr>\<rparr>\<rparr>\<rparr>"

text \<open>
  The body of the loop over the claimed kitchen jobs:
  \<^verbatim>\<open>
  try {
    const route = this.resolveRouteForJob(job, liveRoutes);
    await this.sendToPrinter(job, route);
    await this.completePrintJob(job, true, null);
    this.service.stats.printed += 1;
    this.pushLog("INFO", ...);
  } catch (jobError) {
    const message = normalizeError(jobError);
    try { await this.completePrintJob(job, false, message); }
    catch (ackError) { this.pushLog("ERROR", ...); }
    this.service.stats.failed += 1;
    this.pushLog("ERROR", ...);
  }
  \<close>
  \<open>kitchenJobFailed\<close> is the \<^verbatim>\<open>catch\<close> clause. It is entered with the error of the delivery
  and also with the error of the completion call of the \<^verbatim>\<open>try\<close> block.
\<close>

definition kitchenJobFailed :: "'w io \<Rightarrow> JobRow \<Rightarrow> js_error \<Rightarrow> 'w sys \<Rightarrow> 'w sys" where
  "kitchenJobFailed io job jobError s =
     (let message = normalizeError jobError;
          s1 = (case completePrintJob io job False (Some message) s of
                  (Some ackError, s') \<Rightarrow>
                    pushLog io ERROR (''Ack failed job '' @ take 8 (job_id job) @ '': ''
                                      @ normalizeError ackError) s'
                | (None, s') \<Rightarrow> s')
      in pushLog io ERROR (''Errore job '' @ take 8 (job_id job) @ '': '' @ message) (addFailed s1))"

definition processKitchenJob ::
  "Externals \<Rightarrow> 'w io \<Rightarrow> LiveRoutes option \<Rightarrow> JobRow \<Rightarrow> 'w sys \<Rightarrow> 'w sys" where
  "processKitchenJob ext io liveRoutes job s =
     (case sendToPrinter ext io job (resolveRouteForJob job liveRoutes) s of
        (Inl jobError, s1) \<Rightarrow> kitchenJobFailed io job jobError s1
      | (Inr u, s1) \<Rightarrow>
          (case completePrintJob io job True None s1 of
             (Some jobError, s2) \<Rightarrow> kitchenJobFailed io job jobError s2
           | (None, s2) \<Rightarrow>
               pushLog io INFO (''Stampato job '' @ take 8 (job_id job) @ '' -> '' @ jobDepartment job)
                 (addPrinted s2)))"

fun processKitchenJobs ::
  "Externals \<Rightarrow> 'w io \<Rightarrow> LiveRoutes option \<Rightarrow> JobRow list \<Rightarrow> 'w sys \<Rightarrow> 'w sys" where
  "processKitchenJobs ext io liveRoutes [] s = s"
| "processKitchenJobs ext io liveRoutes (job # jobs) s =
     processKitchenJobs ext io liveRoutes jobs (processKitchenJob ext io liveRoutes job s)"

definition setPhysicalAvailable :: "bool \<Rightarrow> 'w sys \<Rightarrow> 'w sys" where
  "setPhysicalAvailable b s = s\<lparr>worker := (worker s)\<lparr>physicalReceiptRpcAvailable := b\<rparr>\<rparr>"

definition setNonFiscalAvailable :: "bool \<Rightarrow> 'w sys \<Rightarrow> 'w sys" where
  "setNonFiscalAvailable b s = s\<lparr>worker := (worker s)\<lparr>nonFiscalReceiptRpcAvailable := b\<rparr>\<rparr>"

definition physicalJobFailed ::
  "'w io \<Rightarrow> PhysicalReceiptJobRow \<Rightarrow> js_error \<Rightarrow> 'w sys \<Rightarrow> 'w sys" where
  "physicalJobFailed io job jobError s =
     (let message = normalizeError jobError;
          s1 = (case completePhysicalReceiptJob io job False None (Some message) s of
                  (Some ackError, s') \<Rightarrow>
                    if isMissingRpcError ackError ''physical_receipt_complete_job''
                    then pushLog io WARN
                           ''RPC physical_receipt_complete_job non trovata: applica la migrazione RT fisico.''
                           (setPhysicalAvailable False s')
                    else pushLog io ERROR (''Ack failed RT job '' @ take 8 (pj_id job) @ '': ''
                                           @ normalizeError ackError) s'
                | (None, s') \<Rightarrow> s')
      in pushLog io ERROR (''Errore RT job '' @ take 8 (pj_id job) @ '': '' @ message) (addFailed s1))"

definition processPhysicalJob ::
  "Externals \<Rightarrow> 'w io \<Rightarrow> PhysicalReceiptJobRow \<Rightarrow> 'w sys \<Rightarrow> 'w sys" where
  "processPhysicalJob ext io job s =
     (case sendToPhysicalReceiptDevice ext io job s of
        (Inl jobError, s1) \<Rightarrow> physicalJobFailed io job jobError s1
      | (Inr receiptId, s1) \<Rightarrow>
          (case completePhysicalReceiptJob io job True (Some receiptId) None s1 of
             (Some jobError, s2) \<Rightarrow> physicalJobFailed io job jobError s2
           | (None, s2) \<Rightarrow>
               pushLog io INFO (''Emesso scontrino RT job '' @ take 8 (pj_id job)) (addPrinted s2)))"

fun processPhysicalJobs ::
  "Externals \<Rightarrow> 'w io \<Rightarrow> PhysicalReceiptJobRow list \<Rightarrow> 'w sys \<Rightarrow> 'w sys" where
  "processPhysicalJobs ext io [] s = s"
| "processPhysicalJobs ext io (job # jobs) s =
     processPhysicalJobs ext io jobs (processPhysicalJob ext io job s)"

text \<open>
  The part of the tick for fiscal receipts. It is skipped when the availability flag is
  off. Inside, an error of the claim that \<^verbatim>\<open>isMissingRpcError\<close> recognises turns the flag off;
  any other error of the claim is logged as the error of this part.
\<close>

definition physicalReceiptSection :: "Externals \<Rightarrow> 'w io \<Rightarrow> 'w sys \<Rightarrow> 'w sys" where
  "physicalReceiptSection ext io s =
     (if \<not> physicalReceiptRpcAvailable (worker s) then s
      else case perform io (PhysicalReceiptClaimJobs (restaurantId (worker s))
                              (consumerId (config (worker s))) (claimLimit (config (worker s)))) s of
        (resp, s1) \<Rightarrow>
          (case failure resp of
             Some physicalError \<Rightarrow>
               if isMissingRpcError physicalError ''physical_receipt_claim_jobs''
               then pushLog io WARN
                      ''RPC physical_receipt_claim_jobs non trovata: applica la migrazione RT fisico.''
                      (setPhysicalAvailable False s1)
               else pushLog io ERROR (''Tick RT fisico: '' @ normalizeError physicalError) s1
           | None \<Rightarrow>
               let physicalJobs = (case resp of RespPhysicalJobs js \<Rightarrow> js | _ \<Rightarrow> []);
                   s2 = addClaimed (length physicalJobs) s1;
                   s3 = (if physicalJobs \<noteq> []
                         then pushLog io INFO (''Claimati '' @ showNat (length physicalJobs)
                                               @ '' job RT fisico'') s2
                         else s2)
               in processPhysicalJobs ext io physicalJobs s3))"

definition nonFiscalJobFailed ::
  "'w io \<Rightarrow> NonFiscalReceiptJobRow \<Rightarrow> js_error \<Rightarrow> 'w sys \<Rightarrow> 'w sys" where
  "nonFiscalJobFailed io job jobError s =
     (let message = normalizeError jobError;
          s1 = (case completeNonFiscalReceiptJob io job False (Some message) s of
                  (Some ackError, s') \<Rightarrow>
                    if isMissingRpcError ackError ''non_fiscal_receipt_complete_job''
                    then setNonFiscalAvailable False s'
                    else pushLog io ERROR (''Ack failed NFR job '' @ take 8 (nj_id job) @ '': ''
                                           @ normalizeError ackError) s'
                | (None, s') \<Rightarrow> s')
      in pushLog io ERROR (''Errore NFR job '' @ take 8 (nj_id job) @ '': '' @ message) (addFailed s1))"

definition processNonFiscalJob ::
  "Externals \<Rightarrow> 'w io \<Rightarrow> NonFiscalReceiptJobRow \<Rightarrow> 'w sys \<Rightarrow> 'w sys" where
  "processNonFiscalJob ext io job s =
     (case sendToNonFiscalReceiptPrinter ext io job s of
        (Inl jobError, s1) \<Rightarrow> nonFiscalJobFailed io job jobError s1
      | (Inr u, s1) \<Rightarrow>
          (case completeNonFiscalReceiptJob io job True None s1 of
             (Some jobError, s2) \<Rightarrow> nonFiscalJobFailed io job jobError s2
           | (None, s2) \<Rightarrow>
               pushLog io INFO (''Stampato scontrino non fiscale '' @ take 8 (nj_id job)) (addPrinted s2)))"

fun processNonFiscalJobs ::
  "Externals \<Rightarrow> 'w io \<Rightarrow> NonFiscalReceiptJobRow list \<Rightarrow> 'w sys \<Rightarrow> 'w sys" where
  "processNonFiscalJobs ext io [] s = s"
| "processNonFiscalJobs ext io (job # jobs) s =
     processNonFiscalJobs ext io jobs (processNonFiscalJob ext io job s)"

definition nonFiscalReceiptSection :: "Externals \<Rightarrow> 'w io \<Rightarrow> 'w sys \<Rightarrow> 'w sys" where
  "nonFiscalReceiptSection ext io s =
     (if \<not> nonFiscalReceiptRpcAvailable (worker s) then s
      else case perform io (NonFiscalReceiptClaimJobs (restaurantId (worker s))
                              (consumerId (config (worker s))) (claimLimit (config (worker s)))) s of
        (resp, s1) \<Rightarrow>
          (case failure resp of
             Some nfrError \<Rightarrow>
               if isMissingRpcError nfrError ''non_fiscal_receipt_claim_jobs''
               then pushLog io WARN ''RPC non_fiscal_receipt_claim_jobs non trovata: applica la migrazione.''
                      (setNonFiscalAvailable False s1)
               else pushLog io ERROR (''Tick scontrino non fiscale: '' @ normalizeError nfrError) s1
           | None \<Rightarrow>
               let nfrJobs = (case resp of RespNonFiscalJobs js \<Rightarrow> js | _ \<Rightarrow> []);
                   s2 = addClaimed (length nfrJobs) s1;
                   s3 = (if nfrJobs \<noteq> []
                         then pushLog io INFO (''Claimati '' @ showNat (length nfrJobs)
                                               @ '' job scontrino non fiscale'') s2
                         else s2)
               in processNonFiscalJobs ext io nfrJobs s3))"

text \<open>
  The \<^verbatim>\<open>try\<close> block of \<^verbatim>\<open>runTick\<close>: \<open>Some e\<close> is the error that leaves it.
\<close>

definition kitchenPart :: "Externals \<Rightarrow> 'w io \<Rightarrow> JobRow list \<Rightarrow> 'w sys \<Rightarrow> 'w sys" where
  \<comment> \<open>After a successful claim: the counter, the live routes (none when they cannot be
      read) and the loop over the jobs.\<close>
  "kitchenPart ext io jobs s4 =
     (let s5 = addClaimed (length jobs) s4;
          s6 = (if jobs \<noteq> [] then pushLog io INFO (''Claimati '' @ showNat (length jobs) @ '' job'') s5
                else s5)
      in case fetchLivePrinterRoutes io (restaurantId (worker s6)) s6 of
           (Inl routesError, s') \<Rightarrow>
             processKitchenJobs ext io None jobs
               (pushLog io WARN (''Risoluzione route live fallita: '' @ normalizeError routesError) s')
         | (Inr lr, s') \<Rightarrow> processKitchenJobs ext io (Some lr) jobs s')"

definition finishTick :: "'w io \<Rightarrow> 'w sys \<Rightarrow> 'w sys" where
  \<comment> \<open>\<^verbatim>\<open>lastRunAt = new Date().toISOString(); lastError = null\<close>\<close>
  "finishTick io s =
     (case clockText io s of
        (now, s8) \<Rightarrow>
          s8\<lparr>worker := (worker s8)\<lparr>service := (service (worker s8))
             \<lparr>stats := (stats (service (worker s8)))\<lparr>lastRunAt := Some now, lastError := None\<rparr>\<rparr>\<rparr>\<rparr>)"

definition runTickBody :: "Externals \<Rightarrow> 'w io \<Rightarrow> 'w sys \<Rightarrow> js_error option \<times> 'w sys" where
  "runTickBody ext io s =
     (case ensureSignedIn io s of
        (Some e, s1) \<Rightarrow> (Some e, s1)
      | (None, s1) \<Rightarrow>
          if \<not> hasRestaurantId (worker s1) then (Some (ErrError ''Ristorante non risolto.''), s1)
          else
            (case ensureSupabaseClient (heartbeatAgent io True s1) of
               (Some e, s3) \<Rightarrow> (Some e, s3)
             | (None, s3) \<Rightarrow>
                 (case perform io (PrintClaimJobs (restaurantId (worker s3)) (consumerId (config (worker s3)))
                                     (claimLimit (config (worker s3)))) s3 of
                    (resp, s4) \<Rightarrow>
                      (case failure resp of
                         Some e \<Rightarrow> (Some e, s4)
                       | None \<Rightarrow>
                           (None,
                            finishTick io
                              (nonFiscalReceiptSection ext io
                                 (physicalReceiptSection ext io
                                    (kitchenPart ext io (case resp of RespJobs js \<Rightarrow> js | _ \<Rightarrow> []) s4))))))))"

definition runTickRest :: "Externals \<Rightarrow> 'w io \<Rightarrow> 'w sys \<Rightarrow> 'w sys" where
  \<comment> \<open>The tick after its first \<^verbatim>\<open>await\<close>: the \<^verbatim>\<open>try\<close> block, the \<^verbatim>\<open>catch\<close> and the
      \<^verbatim>\<open>finally\<close> clause, which arms the timer of the next tick while the service runs.\<close>
  "runTickRest ext io s =
     (let s1 = (case runTickBody ext io s of
                  (Some e, s') \<Rightarrow>
                    pushLog io ERROR (''Tick error: '' @ normalizeError e)
                      (s'\<lparr>worker := (worker s')\<lparr>service := (service (worker s'))
                          \<lparr>stats := (stats (service (worker s')))
                             \<lparr>lastError := Some (normalizeError e)\<rparr>\<rparr>\<rparr>\<rparr>)
                | (None, s') \<Rightarrow> s');
          s2 = broadcastState io
                 (s1\<lparr>worker := (worker s1)\<lparr>service := (service (worker s1))\<lparr>processing := False\<rparr>\<rparr>\<rparr>)
      in if running (service (worker s2))
         then s2\<lparr>worker := (worker s2)\<lparr>service := (service (worker s2))
                  \<lparr>timer := Some (pollMs (config (worker s2)))\<rparr>\<rparr>\<rparr>
         else s2)"

definition runTick :: "Externals \<Rightarrow> 'w io \<Rightarrow> 'w sys \<Rightarrow> 'w sys" where
  "runTick ext io s =
     (case runTickStart io s of
        (False, s') \<Rightarrow> s'
      | (True, s') \<Rightarrow> runTickRest ext io s')"

fun runTicks :: "Externals \<Rightarrow> 'w io \<Rightarrow> nat \<Rightarrow> 'w sys \<Rightarrow> 'w sys" where
  \<comment> \<open>The ticks the timer starts, one after the other.\<close>
  "runTicks ext io 0 s = s"
| "runTicks ext io (Suc n) s = runTicks ext io n (runTick ext io s)"

section \<open>C7: equality of session snapshots\<close>

text \<open>
  C7, as stated: for two snapshots, \<^verbatim>\<open>sameSession\<close> holds exactly when all three fields
  match. It also holds when one \<^verbatim>\<open>expires_at\<close> is null and the other is 0, because both
  are read through \<^verbatim>\<open>Number(x.expires_at || 0)\<close>.
\<close>

theorem C7_sameSession_counterexample:
  "sameSession (Some \<lparr>access_token = ''t'', refresh_token = ''r'', expires_at = None\<rparr>)
               (Some \<lparr>access_token = ''t'', refresh_token = ''r'', expires_at = Some (Fin 0)\<rparr>)
   \<and> expires_at \<lparr>access_token = ''t'', refresh_token = ''r'', expires_at = None\<rparr>
       \<noteq> expires_at \<lparr>access_token = ''t'', refresh_token = ''r'', expires_at = Some (Fin 0)\<rparr>"
  by (simp add: expiresOrZero_def truthyNum_def)

text \<open>
  C7, amended: \<^verbatim>\<open>sameSession\<close> is an equivalence relation on nullable snapshots; for two
  snapshots it holds exactly when the access tokens match, the refresh tokens match and the
  expiry times match once a null (or otherwise falsy) expiry is read as 0, so it holds
  whenever all three fields match; \<^verbatim>\<open>syncSession\<close> called with a snapshot that
  \<^verbatim>\<open>sameSession\<close> equates with the saved one returns the public state and leaves the state
  of the worker, the file and every other part of the environment untouched (no request is
  issued).
\<close>

theorem C7_sameSession:
  "(\<forall>a. sameSession a a)
   \<and> (\<forall>a b. sameSession a b \<longrightarrow> sameSession b a)
   \<and> (\<forall>a b c. sameSession a b \<and> sameSession b c \<longrightarrow> sameSession a c)
   \<and> (\<forall>a b. sameSession (Some a) (Some b) \<longleftrightarrow>
          access_token a = access_token b \<and> refresh_token a = refresh_token b
          \<and> expiresOrZero (expires_at a) = expiresOrZero (expires_at b))
   \<and> (\<forall>a b. access_token a = access_token b \<and> refresh_token a = refresh_token b
          \<and> expires_at a = expires_at b \<longrightarrow> sameSession (Some a) (Some b))
   \<and> (\<forall>(io :: 'w io) raw s snapshot.
          toSessionSnapshot raw = Some snapshot
          \<and> sameSession (savedSession (worker s)) (Some snapshot)
          \<longrightarrow> syncSession io raw s = (Inr (getPublicState (worker s)), s))"
  apply (intro conjI allI impI)
  subgoal by (rule sameSession_refl)
  subgoal by (erule sameSession_sym)
  subgoal by (elim conjE, erule (1) sameSession_trans)
  subgoal by simp
  subgoal by simp
  subgoal by (simp add: syncSession_def)
  done

theorem C7_sameSession_witness:
  "sameSession (Some \<lparr>access_token = ''t'', refresh_token = ''r'', expires_at = Some (Fin 1700000000)\<rparr>)
               (Some \<lparr>access_token = ''t'', refresh_token = ''r'', expires_at = Some (Fin 1700000000)\<rparr>)
   \<and> syncSession (\<lambda>w r. (RespNone, w))
         (Some \<lparr>raw_access_token = '' t'', raw_refresh_token = ''r '', raw_expires_at = Fin (3400000001 / 2)\<rparr>)
         \<lparr>worker = (initialWorker ''kitchen-pc'' ''linux'' ''https://db.example'' ''key'' ''1.0'')
                     \<lparr>savedSession :=
                        Some \<lparr>access_token = ''t'', refresh_token = ''r'',
                              expires_at = Some (Fin 1700000000)\<rparr>\<rparr>,
          world = (), trace = []\<rparr>
       = (Inr (getPublicState ((initialWorker ''kitchen-pc'' ''linux'' ''https://db.example'' ''key'' ''1.0'')
                     \<lparr>savedSession :=
                        Some \<lparr>access_token = ''t'', refresh_token = ''r'',
                              expires_at = Some (Fin 1700000000)\<rparr>\<rparr>)),
          \<lparr>worker = (initialWorker ''kitchen-pc'' ''linux'' ''https://db.example'' ''key'' ''1.0'')
                     \<lparr>savedSession :=
                        Some \<lparr>access_token = ''t'', refresh_token = ''r'',
                              expires_at = Some (Fin 1700000000)\<rparr>\<rparr>,
          world = (), trace = []\<rparr>)"
proof -
  let ?snap = "\<lparr>access_token = ''t'', refresh_token = ''r'', expires_at = Some (Fin 1700000000)\<rparr>"
  let ?raw = "Some \<lparr>raw_access_token = '' t'', raw_refresh_token = ''r '',
                     raw_expires_at = Fin (3400000001 / 2)\<rparr>"
  have t: "trunc (3400000001 / 2) = 1700000000"
    by (simp add: trunc_def floor_eq_iff)
  have h1: "toSessionSnapshot ?raw = Some ?snap"
    by (simp add: toSessionSnapshot_def trim_def isSpace_def Let_def ofInt_def t)
  have h2: "access_token ?snap = access_token ?snap \<and> refresh_token ?snap = refresh_token ?snap
            \<and> expires_at ?snap = expires_at ?snap"
    by simp
  have sync: "\<And>(io :: unit io) raw s snapshot.
          toSessionSnapshot raw = Some snapshot
          \<and> sameSession (savedSession (worker s)) (Some snapshot)
          \<longrightarrow> syncSession io raw s = (Inr (getPublicState (worker s)), s)"
    and same: "\<And>a b. access_token a = access_token b \<and> refresh_token a = refresh_token b
          \<and> expires_at a = expires_at b \<longrightarrow> sameSession (Some a) (Some b)"
    using C7_sameSession [where 'w = unit] by blast+
  have s: "sameSession (Some ?snap) (Some ?snap)"
    using same [of ?snap ?snap] h2 by blast
  show ?thesis
    using s sync [of ?raw ?snap _ "\<lambda>w r. (RespNone, w)"] h1 by simp
qed

section \<open>C3: route resolution\<close>

text \<open>
  Every printer that \<^verbatim>\<open>fetchLivePrinterRoutes\<close> files under a department is enabled and has
  a host.
\<close>

lemma addDepartments_usable:
  "\<forall>d p. byDep d = Some p \<longrightarrow> lp_enabled p \<and> lp_host p \<noteq> [] \<Longrightarrow>
   lp_enabled mapped \<and> lp_host mapped \<noteq> [] \<Longrightarrow>
   addDepartments mapped deps byDep d = Some p \<Longrightarrow> lp_enabled p \<and> lp_host p \<noteq> []"
proof (induction deps arbitrary: byDep)
  case Nil
  then show ?case by simp
next
  case (Cons dep deps)
  let ?next = "if byDep dep = None then byDep(dep \<mapsto> mapped) else byDep"
  have "\<forall>d p. ?next d = Some p \<longrightarrow> lp_enabled p \<and> lp_host p \<noteq> []"
    using Cons.prems(1,2) by (simp split: if_splits)
  moreover have "addDepartments mapped deps ?next d = Some p"
    using Cons.prems(3) by simp
  ultimately show ?case
    using Cons.IH [of ?next] Cons.prems(2) by blast
qed

lemma indexPrinters_usable:
  "\<forall>d p. byDep d = Some p \<longrightarrow> lp_enabled p \<and> lp_host p \<noteq> [] \<Longrightarrow>
   snd (indexPrinters raws (byI, byDep)) d = Some p \<Longrightarrow> lp_enabled p \<and> lp_host p \<noteq> []"
proof (induction raws arbitrary: byI byDep)
  case Nil
  then show ?case by simp
next
  case (Cons printer rest)
  show ?case
  proof (cases "trim (raw_id printer) = []")
    case True
    then show ?thesis using Cons.IH [OF Cons.prems(1)] Cons.prems(2) by simp
  next
    case False
    let ?m = "mapPrinter printer"
    let ?byDep = "if lp_enabled ?m \<and> lp_host ?m \<noteq> []
                  then addDepartments ?m (lp_departments ?m) byDep else byDep"
    have step: "indexPrinters (printer # rest) (byI, byDep)
                = indexPrinters rest (byI(trim (raw_id printer) \<mapsto> ?m), ?byDep)"
      using False by (simp only: indexPrinters.simps if_False)
    have inv: "\<forall>d p. ?byDep d = Some p \<longrightarrow> lp_enabled p \<and> lp_host p \<noteq> []"
    proof (cases "lp_enabled ?m \<and> lp_host ?m \<noteq> []")
      case True
      have "\<forall>d p. addDepartments ?m (lp_departments ?m) byDep d = Some p
              \<longrightarrow> lp_enabled p \<and> lp_host p \<noteq> []"
        using addDepartments_usable [OF Cons.prems(1) True] by blast
      then show ?thesis
        using True by simp
    next
      case False
      then show ?thesis using Cons.prems(1) by (simp only: if_False)
    qed
    have "snd (indexPrinters rest (byI(trim (raw_id printer) \<mapsto> ?m), ?byDep)) d = Some p"
      using Cons.prems(2) by (simp only: step)
    then show ?thesis
      using Cons.IH [of ?byDep "byI(trim (raw_id printer) \<mapsto> ?m)"] inv by blast
  qed
qed



lemma buildLiveRoutes_byDepartment:
  "byDepartment (buildLiveRoutes raws d) dep = Some p \<Longrightarrow> lp_enabled p \<and> lp_host p \<noteq> []"
proof -
  assume a: "byDepartment (buildLiveRoutes raws d) dep = Some p"
  have "snd (indexPrinters raws (Map.empty, Map.empty)) dep = Some p"
    using a by (simp add: buildLiveRoutes_def split: prod.splits)
  then show ?thesis
    using indexPrinters_usable [of Map.empty raws Map.empty dep p] by simp
qed

text \<open>
  C3, as stated: the third step uses the default printer as soon as it is enabled. The code
  also asks for a host: with an enabled default printer that has no host, and a job whose
  snapshot carries a host, the snapshot is used.
\<close>

theorem C3_resolveRouteForJob_counterexample:
  "snapshotId \<lparr>job_id = ''j1'', job_department = Some ''bar'', job_payload = [],
                job_route = Some \<lparr>route_id = [], route_printer_id = [], route_host = ''10.0.0.5'',
                                   route_port = Fin 9100, route_name = []\<rparr>,
                job_created_at = []\<rparr> = None
   \<and> byDepartment (buildLiveRoutes
          [\<lparr>raw_id = ''p9'', raw_name = ''Pass'', raw_host = [], raw_port = Fin 9100,
            raw_enabled = True, raw_departments = [''cucina'']\<rparr>] ''p9'') ''bar'' = None
   \<and> defaultPrinterId (buildLiveRoutes
          [\<lparr>raw_id = ''p9'', raw_name = ''Pass'', raw_host = [], raw_port = Fin 9100,
            raw_enabled = True, raw_departments = [''cucina'']\<rparr>] ''p9'') = Some ''p9''
   \<and> map_option lp_enabled (byId (buildLiveRoutes
          [\<lparr>raw_id = ''p9'', raw_name = ''Pass'', raw_host = [], raw_port = Fin 9100,
            raw_enabled = True, raw_departments = [''cucina'']\<rparr>] ''p9'') ''p9'') = Some True
   \<and> resolveRouteForJob
         \<lparr>job_id = ''j1'', job_department = Some ''bar'', job_payload = [],
           job_route = Some \<lparr>route_id = [], route_printer_id = [], route_host = ''10.0.0.5'',
                              route_port = Fin 9100, route_name = []\<rparr>,
           job_created_at = []\<rparr>
         (Some (buildLiveRoutes
          [\<lparr>raw_id = ''p9'', raw_name = ''Pass'', raw_host = [], raw_port = Fin 9100,
            raw_enabled = True, raw_departments = [''cucina'']\<rparr>] ''p9''))
       = Some \<lparr>target_id = None, target_name = ''10.0.0.5'', target_host = ''10.0.0.5'',
                target_port = 9100\<rparr>"
  by (simp add: snapshotId_def snapshotHost_def snapshotPort_def snapshotName_def
        resolveRouteForJob_def liveById_def usable_def jobDepartment_def normalizeDepartment_def
        buildLiveRoutes_def mapPrinter_def toRoute_def toLowerCase_def toLowerChar_def
        isUpperAZ_def isUpperLatin1_def trim_def isSpace_def sanitizePrinterPort_def Let_def)

lemma snapshotId_nonempty: "snapshotId job = Some i \<Longrightarrow> i \<noteq> []"
  by (auto simp add: snapshotId_def Let_def split: option.splits if_splits)

text \<open>
  C3, amended: the route of a kitchen job is (1) the live printer with the id of the
  snapshot (its \<^verbatim>\<open>id\<close>, else its \<^verbatim>\<open>printer_id\<close>, trimmed), when that printer is enabled
  and has a host; (2) else the printer filed under the department of the job (trimmed,
  lowercased, \<^verbatim>\<open>cucina\<close> when empty), when it is enabled and has a host, which every printer
  filed by \<^verbatim>\<open>fetchLivePrinterRoutes\<close> is; (3) else the default printer, when its id is not
  empty and it is enabled and has a host; (4) else the snapshot's own id, name, host and
  port, when it has a host; (5) else none, and the delivery fails with \<^verbatim>\<open>NO_PRINTER_HOST\<close>
  before any request is issued. The last four parts say what the id of the snapshot, the
  department of the job, a usable printer and the route of a live printer are.
\<close>

theorem C3_resolveRouteForJob:
  "(\<forall>i p. snapshotId job = Some i \<and> byId L i = Some p \<and> lp_enabled p \<and> lp_host p \<noteq> []
        \<longrightarrow> resolveRouteForJob job (Some L) = Some (toRoute p))
   \<and> (\<forall>p. \<not> usable (liveById (Some L) (snapshotId job))
        \<and> byDepartment L (jobDepartment job) = Some p \<and> lp_enabled p \<and> lp_host p \<noteq> []
        \<longrightarrow> resolveRouteForJob job (Some L) = Some (toRoute p))
   \<and> (\<forall>d p. \<not> usable (liveById (Some L) (snapshotId job))
        \<and> \<not> usable (byDepartment L (jobDepartment job))
        \<and> defaultPrinterId L = Some d \<and> d \<noteq> [] \<and> byId L d = Some p
        \<and> lp_enabled p \<and> lp_host p \<noteq> []
        \<longrightarrow> resolveRouteForJob job (Some L) = Some (toRoute p))
   \<and> (\<not> usable (liveById (Some L) (snapshotId job))
        \<and> \<not> usable (byDepartment L (jobDepartment job))
        \<and> \<not> usable (liveById (Some L) (defaultPrinterId L))
        \<and> snapshotHost job \<noteq> []
        \<longrightarrow> resolveRouteForJob job (Some L)
            = Some \<lparr> target_id = snapshotId job, target_name = snapshotName job,
                     target_host = snapshotHost job, target_port = snapshotPort job \<rparr>)
   \<and> (\<not> usable (liveById (Some L) (snapshotId job))
        \<and> \<not> usable (byDepartment L (jobDepartment job))
        \<and> \<not> usable (liveById (Some L) (defaultPrinterId L))
        \<and> snapshotHost job = []
        \<longrightarrow> resolveRouteForJob job (Some L) = None
            \<and> sendToPrinter ext io job (resolveRouteForJob job (Some L)) s
                = (Inl (ErrError ''NO_PRINTER_HOST''), s))
   \<and> (\<forall>raws d dep p. L = buildLiveRoutes raws d \<and> byDepartment L dep = Some p
        \<longrightarrow> lp_enabled p \<and> lp_host p \<noteq> [])
   \<and> snapshotId job
       = (case job_route job of
            None \<Rightarrow> None
          | Some r \<Rightarrow>
              let t = trim (if route_id r \<noteq> [] then route_id r else route_printer_id r)
              in if t = [] then None else Some t)
   \<and> jobDepartment job
       = (let dep = toLowerCase (trim (case job_department job of None \<Rightarrow> [] | Some v \<Rightarrow> v))
          in if dep = [] then ''cucina'' else dep)
   \<and> (\<forall>x. usable (liveById (Some L) x)
           \<longleftrightarrow> (\<exists>i p. x = Some i \<and> i \<noteq> [] \<and> byId L i = Some p \<and> lp_enabled p \<and> lp_host p \<noteq> []))
   \<and> (\<forall>x. usable x \<longleftrightarrow> (\<exists>p. x = Some p \<and> lp_enabled p \<and> lp_host p \<noteq> []))
   \<and> (\<forall>p. toRoute p = \<lparr> target_id = Some (lp_id p), target_name = lp_name p,
                          target_host = lp_host p, target_port = lp_port p \<rparr>)"
proof -
  have u: "usable x \<longleftrightarrow> (\<exists>p. x = Some p \<and> lp_enabled p \<and> lp_host p \<noteq> [])" for x
    by (cases x) (simp_all add: usable_def)
  have l: "usable (liveById (Some L) x)
           \<longleftrightarrow> (\<exists>i p. x = Some i \<and> i \<noteq> [] \<and> byId L i = Some p \<and> lp_enabled p \<and> lp_host p \<noteq> [])" for x
    by (cases x) (auto simp add: usable_def liveById_def split: option.splits)
  have 1: "resolveRouteForJob job (Some L) = Some (toRoute p)"
    if "snapshotId job = Some i \<and> byId L i = Some p \<and> lp_enabled p \<and> lp_host p \<noteq> []" for i p
    using that snapshotId_nonempty [of job i]
    by (simp add: resolveRouteForJob_def liveById_def usable_def Let_def)
  have 2: "resolveRouteForJob job (Some L) = Some (toRoute p)"
    if "\<not> usable (liveById (Some L) (snapshotId job))
        \<and> byDepartment L (jobDepartment job) = Some p \<and> lp_enabled p \<and> lp_host p \<noteq> []" for p
    using that by (simp add: resolveRouteForJob_def usable_def Let_def)
  have 3: "resolveRouteForJob job (Some L) = Some (toRoute p)"
    if "\<not> usable (liveById (Some L) (snapshotId job))
        \<and> \<not> usable (byDepartment L (jobDepartment job))
        \<and> defaultPrinterId L = Some d \<and> d \<noteq> [] \<and> byId L d = Some p
        \<and> lp_enabled p \<and> lp_host p \<noteq> []" for d p
    using that by (simp add: resolveRouteForJob_def liveById_def usable_def Let_def)
  have 4: "resolveRouteForJob job (Some L)
            = Some \<lparr> target_id = snapshotId job, target_name = snapshotName job,
                     target_host = snapshotHost job, target_port = snapshotPort job \<rparr>"
    if "\<not> usable (liveById (Some L) (snapshotId job))
        \<and> \<not> usable (byDepartment L (jobDepartment job))
        \<and> \<not> usable (liveById (Some L) (defaultPrinterId L))
        \<and> snapshotHost job \<noteq> []"
    using that by (simp add: resolveRouteForJob_def Let_def)
  have 5: "resolveRouteForJob job (Some L) = None
            \<and> sendToPrinter ext io job (resolveRouteForJob job (Some L)) s
                = (Inl (ErrError ''NO_PRINTER_HOST''), s)"
    if "\<not> usable (liveById (Some L) (snapshotId job))
        \<and> \<not> usable (byDepartment L (jobDepartment job))
        \<and> \<not> usable (liveById (Some L) (defaultPrinterId L))
        \<and> snapshotHost job = []"
    using that by (simp add: resolveRouteForJob_def Let_def sendToPrinter_def trim_def)
  have 6: "lp_enabled p \<and> lp_host p \<noteq> []"
    if "L = buildLiveRoutes raws d \<and> byDepartment L dep = Some p" for raws d dep p
    using that buildLiveRoutes_byDepartment by blast
  have 7: "snapshotId job
       = (case job_route job of
            None \<Rightarrow> None
          | Some r \<Rightarrow>
              let t = trim (if route_id r \<noteq> [] then route_id r else route_printer_id r)
              in if t = [] then None else Some t)"
    by (simp add: snapshotId_def Let_def split: option.splits)
  have 8: "jobDepartment job
       = (let dep = toLowerCase (trim (case job_department job of None \<Rightarrow> [] | Some v \<Rightarrow> v))
          in if dep = [] then ''cucina'' else dep)"
    by (simp add: jobDepartment_def normalizeDepartment_def Let_def)
  have 9: "toRoute p = \<lparr> target_id = Some (lp_id p), target_name = lp_name p,
                          target_host = lp_host p, target_port = lp_port p \<rparr>" for p
    by (simp add: toRoute_def)
  show ?thesis
    apply (intro conjI allI impI)
    subgoal for i p by (rule 1)
    subgoal for p by (rule 2)
    subgoal for d p by (rule 3)
    subgoal by (rule 4)
    subgoal using 5 by blast
    subgoal using 5 by blast
    subgoal for raws d dep p using 6 [of raws d dep p] by blast
    subgoal for raws d dep p using 6 [of raws d dep p] by blast
    subgoal by (rule 7)
    subgoal by (rule 8)
    subgoal for x by (rule l)
    subgoal for x by (rule u)
    subgoal for p by (rule 9)
    done
qed

text \<open>The routes of the scenarios: a kitchen printer \<open>p1\<close> and a default printer \<open>p9\<close>.\<close>

definition exampleJob :: "string option \<Rightarrow> SnapshotRoute option \<Rightarrow> JobRow" where
  "exampleJob dep r = \<lparr>job_id = ''abc'', job_department = dep, job_payload = [],
                         job_route = r, job_created_at = ''2024-01-15T12:30:00Z''\<rparr>"

definition exampleRoutes :: LiveRoutes where
  "exampleRoutes =
     buildLiveRoutes
       [\<lparr>raw_id = ''p1'', raw_name = ''Cucina'', raw_host = ''192.168.1.50'', raw_port = Fin 9100,
          raw_enabled = True, raw_departments = [''Cucina '']\<rparr>,
        \<lparr>raw_id = ''p9'', raw_name = [], raw_host = ''10.0.0.9'', raw_port = Fin 9100,
          raw_enabled = True, raw_departments = []\<rparr>]
       ''p9''"

lemma exampleRoutes_byId:
  "byId exampleRoutes ''p1'' = Some \<lparr>lp_id = ''p1'', lp_name = ''Cucina'', lp_host = ''192.168.1.50'',
         lp_port = 9100, lp_enabled = True, lp_departments = [''cucina'']\<rparr>"
  "byId exampleRoutes ''p9'' = Some \<lparr>lp_id = ''p9'', lp_name = ''p9'', lp_host = ''10.0.0.9'',
         lp_port = 9100, lp_enabled = True, lp_departments = []\<rparr>"
  "byDepartment exampleRoutes ''bar'' = None"
  "byDepartment exampleRoutes ''cucina'' = byId exampleRoutes ''p1''"
  "defaultPrinterId exampleRoutes = Some ''p9''"
  by code_simp+

theorem C3_resolveRouteForJob_witness:
  "resolveRouteForJob
     (exampleJob (Some ''cucina'')
        (Some \<lparr>route_id = ''p9'', route_printer_id = [], route_host = [], route_port = NaN, route_name = []\<rparr>))
     (Some exampleRoutes)
     = Some \<lparr>target_id = Some ''p9'', target_name = ''p9'', target_host = ''10.0.0.9'', target_port = 9100\<rparr>
   \<and> resolveRouteForJob (exampleJob None None) (Some exampleRoutes)
     = Some \<lparr>target_id = Some ''p1'', target_name = ''Cucina'', target_host = ''192.168.1.50'', target_port = 9100\<rparr>
   \<and> resolveRouteForJob (exampleJob (Some ''bar'') None) (Some exampleRoutes)
     = Some \<lparr>target_id = Some ''p9'', target_name = ''p9'', target_host = ''10.0.0.9'', target_port = 9100\<rparr>
   \<and> jobDepartment (exampleJob (Some ([CHR 0xA0] @ ''CAFF'' @ [CHR 0xC8] @ '' '')) None)
     = ''caff'' @ [CHR 0xE8]"
proof -
  let ?p1 = "\<lparr>lp_id = ''p1'', lp_name = ''Cucina'', lp_host = ''192.168.1.50'',
         lp_port = 9100, lp_enabled = True, lp_departments = [''cucina'']\<rparr>"
  let ?p9 = "\<lparr>lp_id = ''p9'', lp_name = ''p9'', lp_host = ''10.0.0.9'',
         lp_port = 9100, lp_enabled = True, lp_departments = []\<rparr>"
  let ?j1 = "exampleJob (Some ''cucina'')
        (Some \<lparr>route_id = ''p9'', route_printer_id = [], route_host = [], route_port = NaN, route_name = []\<rparr>)"
  let ?j2 = "exampleJob None None"
  let ?j3 = "exampleJob (Some ''bar'') None"
  have ev: "snapshotId ?j1 = Some ''p9''" "snapshotId ?j2 = None" "snapshotId ?j3 = None"
      "jobDepartment ?j2 = ''cucina''" "jobDepartment ?j3 = ''bar''"
    by code_simp+
  have a: "snapshotId ?j1 = Some ''p9'' \<and> byId exampleRoutes ''p9'' = Some ?p9
           \<and> lp_enabled ?p9 \<and> lp_host ?p9 \<noteq> []"
    by (simp add: ev exampleRoutes_byId)
  have b: "\<not> usable (liveById (Some exampleRoutes) (snapshotId ?j2))
           \<and> byDepartment exampleRoutes (jobDepartment ?j2) = Some ?p1
           \<and> lp_enabled ?p1 \<and> lp_host ?p1 \<noteq> []"
    by (simp add: ev exampleRoutes_byId liveById_def usable_def)
  have c: "\<not> usable (liveById (Some exampleRoutes) (snapshotId ?j3))
           \<and> \<not> usable (byDepartment exampleRoutes (jobDepartment ?j3))
           \<and> defaultPrinterId exampleRoutes = Some ''p9'' \<and> ''p9'' \<noteq> []
           \<and> byId exampleRoutes ''p9'' = Some ?p9
           \<and> lp_enabled ?p9 \<and> lp_host ?p9 \<noteq> []"
    by (simp add: ev exampleRoutes_byId liveById_def usable_def)
  have "resolveRouteForJob ?j1 (Some exampleRoutes) = Some (toRoute ?p9)"
    by (rule C3_resolveRouteForJob [of ?j1 exampleRoutes, THEN conjunct1, rule_format, OF a])
  moreover have "resolveRouteForJob ?j2 (Some exampleRoutes) = Some (toRoute ?p1)"
    by (rule C3_resolveRouteForJob [of ?j2 exampleRoutes, THEN conjunct2, THEN conjunct1,
          rule_format, OF b])
  moreover have "resolveRouteForJob ?j3 (Some exampleRoutes) = Some (toRoute ?p9)"
    by (rule C3_resolveRouteForJob [of ?j3 exampleRoutes, THEN conjunct2, THEN conjunct2,
          THEN conjunct1, rule_format, OF c])
  moreover have "jobDepartment (exampleJob (Some ([CHR 0xA0] @ ''CAFF'' @ [CHR 0xC8] @ '' '')) None)
      = ''caff'' @ [CHR 0xE8]"
  proof -
    have "toLowerCase (trim ([CHR 0xA0] @ ''CAFF'' @ [CHR 0xC8] @ '' '')) = ''caff'' @ [CHR 0xE8]"
      by code_simp
    then show ?thesis
      using C3_resolveRouteForJob [of "exampleJob (Some ([CHR 0xA0] @ ''CAFF'' @ [CHR 0xC8] @ '' '')) None"
          exampleRoutes, THEN conjunct2, THEN conjunct2, THEN conjunct2, THEN conjunct2,
          THEN conjunct2, THEN conjunct2, THEN conjunct2, THEN conjunct1]
      by (simp add: exampleJob_def)
  qed
  ultimately show ?thesis
    by (simp add: toRoute_def)
qed

section \<open>C2: at most two network attempts\<close>

text \<open>\<open>includesStr\<close> is the substring test.\<close>

lemma includesStr_iff: "includesStr s needle \<longleftrightarrow> (\<exists>a b. s = a @ needle @ b)"
proof (induction s)
  case Nil
  then show ?case by auto
next
  case (Cons c cs)
  show ?case
  proof
    assume "includesStr (c # cs) needle"
    then consider "prefix needle (c # cs)" | "includesStr cs needle" by auto
    then show "\<exists>a b. c # cs = a @ needle @ b"
    proof cases
      case 1
      then obtain b where "c # cs = needle @ b" by (auto simp: prefix_def)
      then have "c # cs = [] @ needle @ b" by simp
      then show ?thesis by blast
    next
      case 2
      then obtain a b where "cs = a @ needle @ b" using Cons.IH by blast
      then have "c # cs = (c # a) @ needle @ b" by simp
      then show ?thesis by blast
    qed
  next
    assume "\<exists>a b. c # cs = a @ needle @ b"
    then obtain a b where ab: "c # cs = a @ needle @ b" by blast
    show "includesStr (c # cs) needle"
    proof (cases a)
      case Nil
      then have "prefix needle (c # cs)" using ab by (simp add: prefix_def)
      then show ?thesis by simp
    next
      case (Cons x xs)
      then have "cs = xs @ needle @ b" using ab by simp
      then have "includesStr cs needle" using Cons.IH by blast
      then show ?thesis by simp
    qed
  qed
qed

lemma perform_trace [simp]: "trace (snd (perform io req s)) = trace s @ [req]"
  by (simp add: perform_def split: prod.splits)

lemma perform_fst [simp]: "fst (perform io req s) = fst (io (world s) req)"
  by (simp add: perform_def split: prod.splits)

lemma perform_worker [simp]: "worker (snd (perform io req s)) = worker s"
  by (simp add: perform_def split: prod.splits)

lemma retryLoop_2:
  "retryLoop io body (Suc (Suc 0)) lastErr s =
     (case body s of (Inr v, s1) \<Rightarrow> (Inr v, s1) | (Inl e, s1) \<Rightarrow> (Inl (Some e), s1))"
  by (subst retryLoop.simps) (simp split: prod.splits sum.splits)

lemma retryLoop_1:
  "retryLoop io body (Suc 0) lastErr s =
     (case body s of
        (Inr v, s1) \<Rightarrow> (Inr v, s1)
      | (Inl e, s1) \<Rightarrow>
          if \<not> shouldRetryPrintLocally e then (Inl (Some e), s1)
          else (case body (snd (perform io (Sleep 500) s1)) of
                  (Inr v, s2) \<Rightarrow> (Inr v, s2)
                | (Inl e2, s2) \<Rightarrow> (Inl (Some e2), s2)))"
  by (subst retryLoop.simps) (simp add: retryLoop_2 split: prod.splits sum.splits)

definition isNetworkRequest :: "request \<Rightarrow> bool" where
  "isNetworkRequest r = (case r of OpenRawSocket h p b \<Rightarrow> True | HttpPost u b \<Rightarrow> True | _ \<Rightarrow> False)"

definition networkAttempts :: "request list \<Rightarrow> nat" where
  "networkAttempts tr = length (filter isNetworkRequest tr)"

text \<open>
  The loop around an attempt that issues the same requests \<open>reqs\<close> whenever it runs: they are
  issued once, or twice with the pause between, and twice only after a first error that
  \<^verbatim>\<open>shouldRetryPrintLocally\<close> accepts.
\<close>

lemma retryLoop_trace:
  assumes body: "\<And>t. trace (snd (body t)) = trace t @ reqs"
  shows "trace (snd (retryLoop io body 1 None s))
         = trace s @ (case fst (body s) of
                        Inr v \<Rightarrow> reqs
                      | Inl e \<Rightarrow> if shouldRetryPrintLocally e then reqs @ [Sleep 500] @ reqs else reqs)"
proof (cases "body s")
  case (Pair r s1)
  have t1: "trace s1 = trace s @ reqs" using body [of s] Pair by simp
  show ?thesis
  proof (cases r)
    case (Inr v)
    then show ?thesis using Pair t1 by (simp add: retryLoop_1)
  next
    case (Inl e)
    show ?thesis
    proof (cases "shouldRetryPrintLocally e")
      case False
      then show ?thesis using Pair Inl t1 by (simp add: retryLoop_1)
    next
      case True
      let ?s2 = "snd (perform io (Sleep 500) s1)"
      have "trace (snd (body ?s2)) = trace s @ reqs @ [Sleep 500] @ reqs"
        using body [of ?s2] t1 by simp
      then show ?thesis using Pair Inl True
        by (auto simp add: retryLoop_1 split: prod.splits sum.splits)
    qed
  qed
qed

lemma openRawSocket_trace:
  "trace (snd (openRawSocket io h p b t)) = trace t @ [OpenRawSocket h p b]"
  by (simp add: openRawSocket_def perform_def failure_def split: prod.splits response.splits)

lemma openRawSocket_fst:
  "fst (openRawSocket io h p b t)
   = (case fst (io (world t) (OpenRawSocket h p b)) of RespError e \<Rightarrow> Inl e | _ \<Rightarrow> Inr ())"
  by (simp add: openRawSocket_def perform_def failure_def split: prod.splits response.splits)

lemma postPhysicalReceipt_trace:
  "trace (snd (postPhysicalReceipt ext io payload t))
   = trace t @ (if trim (fp_host payload) = [] then []
                else [HttpPost (''http://'' @ trim (fp_host payload) @ '':''
                        @ showInt (sanitizePhysicalPort (fp_port payload) (normalizePhysicalBrand (fp_brand payload)))
                        @ sanitizePhysicalPath (fp_api_path payload) (normalizePhysicalBrand (fp_brand payload)))
                       (buildEpsonFiscalReceiptXml ext payload)])"
  by (simp add: postPhysicalReceipt_def Let_def perform_def split: prod.splits)


definition attemptsOf :: "(js_error + 'a) \<Rightarrow> request list \<Rightarrow> request list" where
  "attemptsOf first reqs =
     (case first of
        Inr v \<Rightarrow> reqs
      | Inl e \<Rightarrow> if shouldRetryPrintLocally e then reqs @ [Sleep 500] @ reqs else reqs)"

lemma retryLoop_attemptsOf:
  assumes "\<And>t. trace (snd (body t)) = trace t @ reqs"
  shows "trace (snd (retryLoop io body (Suc 0) None s)) = trace s @ attemptsOf (fst (body s)) reqs"
  using retryLoop_trace [of body reqs io s, OF assms] by (simp add: attemptsOf_def)

lemma sendToPrinter_trace:
  "trace (snd (sendToPrinter ext io job route s))
   = trace s @
     (let host = trim (case route of None \<Rightarrow> [] | Some r \<Rightarrow> target_host r);
          port = sanitizePrinterPort (case route of None \<Rightarrow> NaN | Some r \<Rightarrow> ofInt (target_port r))
      in if host = [] then []
         else case kitchenPayload ext job of
                Inl e \<Rightarrow> []
              | Inr payload \<Rightarrow> attemptsOf (fst (openRawSocket io host port payload s))
                                [OpenRawSocket host port payload])"
proof -
  have "trace (snd (case retryLoop io (openRawSocket io h p b) (Suc 0) None s of
                      (Inr u, s1) \<Rightarrow> (Inr (), s1)
                    | (Inl lastErr, s1) \<Rightarrow> (Inl (f lastErr), s1)))
        = trace s @ attemptsOf (fst (openRawSocket io h p b s)) [OpenRawSocket h p b]"
    for h p b and f :: "js_error option \<Rightarrow> js_error"
    using retryLoop_attemptsOf [of "openRawSocket io h p b" "[OpenRawSocket h p b]" io s]
    by (auto simp add: openRawSocket_trace split: prod.splits sum.splits)
  then show ?thesis
    by (simp add: sendToPrinter_def Let_def split: sum.splits)
qed

lemma sendToNonFiscalReceiptPrinter_trace:
  "trace (snd (sendToNonFiscalReceiptPrinter ext io job s))
   = trace s @
     (let host = trim (nj_host job); port = sanitizePrinterPort (nj_port job)
      in if host = [] then []
         else case receiptPayload ext job of
                Inl e \<Rightarrow> []
              | Inr payload \<Rightarrow> attemptsOf (fst (openRawSocket io host port payload s))
                                [OpenRawSocket host port payload])"
proof -
  have "trace (snd (case retryLoop io (openRawSocket io h p b) (Suc 0) None s of
                      (Inr u, s1) \<Rightarrow> (Inr (), s1)
                    | (Inl lastErr, s1) \<Rightarrow> (Inl (f lastErr), s1)))
        = trace s @ attemptsOf (fst (openRawSocket io h p b s)) [OpenRawSocket h p b]"
    for h p b and f :: "js_error option \<Rightarrow> js_error"
    using retryLoop_attemptsOf [of "openRawSocket io h p b" "[OpenRawSocket h p b]" io s]
    by (auto simp add: openRawSocket_trace split: prod.splits sum.splits)
  then show ?thesis
    by (simp add: sendToNonFiscalReceiptPrinter_def Let_def split: sum.splits)
qed

definition fiscalRequests :: "Externals \<Rightarrow> FiscalPayload \<Rightarrow> request list" where
  "fiscalRequests ext payload =
     (if trim (fp_host payload) = [] then []
      else [HttpPost (''http://'' @ trim (fp_host payload) @ '':''
                        @ showInt (sanitizePhysicalPort (fp_port payload) (normalizePhysicalBrand (fp_brand payload)))
                        @ sanitizePhysicalPath (fp_api_path payload) (normalizePhysicalBrand (fp_brand payload)))
                     (buildEpsonFiscalReceiptXml ext payload)])"

lemma clockText_trace: "trace (snd (clockText io t)) = trace t @ [ReadClock]"
  by (simp add: clockText_def perform_def split: prod.splits response.splits)

lemma sendToPhysicalReceiptDevice_trace:
  "\<exists>tail. trace (snd (sendToPhysicalReceiptDevice ext io job s))
     = trace s @ attemptsOf (fst (postPhysicalReceipt ext io (pj_payload job) s))
                   (fiscalRequests ext (pj_payload job)) @ tail
     \<and> (tail = [] \<or> tail = [ReadClock])"
proof -
  let ?body = "postPhysicalReceipt ext io (pj_payload job)"
  let ?r = "retryLoop io ?body (Suc 0) None s"
  have tr: "trace (snd ?r) = trace s @ attemptsOf (fst (?body s)) (fiscalRequests ext (pj_payload job))"
    using retryLoop_attemptsOf [of ?body "fiscalRequests ext (pj_payload job)" io s]
    by (simp add: postPhysicalReceipt_trace fiscalRequests_def)
  obtain res s1 where r: "?r = (res, s1)" by (cases ?r)
  have t1: "trace s1 = trace s @ attemptsOf (fst (?body s)) (fiscalRequests ext (pj_payload job))"
    using tr r by simp
  show ?thesis
    using r t1 clockText_trace [of io s1]
    by (auto simp add: sendToPhysicalReceiptDevice_def Let_def split: prod.splits sum.splits option.splits)
qed


definition retriableSet :: "string list" where
  "retriableSet = [''timeout'', ''econnreset'', ''ehostunreach'', ''econnrefused'', ''epipe'']"

lemma shouldRetryPrintLocally_iff:
  "shouldRetryPrintLocally e
   \<longleftrightarrow> (\<exists>k \<in> set retriableSet. \<exists>a b. toLowerCase (normalizeError e) = a @ k @ b)"
  by (simp add: shouldRetryPrintLocally_def retriableSet_def Let_def includesStr_iff)

lemma attemptsOf_eq:
  "attemptsOf first reqs
   = (if \<exists>e. first = Inl e \<and> shouldRetryPrintLocally e then reqs @ [Sleep 500] @ reqs else reqs)"
  by (cases first) (simp_all add: attemptsOf_def)

lemma networkAttempts_attemptsOf:
  "isNetworkRequest req \<Longrightarrow>
   networkAttempts (attemptsOf first [req])
   = (if \<exists>e. first = Inl e \<and> shouldRetryPrintLocally e then 2 else 1)"
  by (simp add: attemptsOf_eq networkAttempts_def isNetworkRequest_def)

text \<open>
  C2: every delivery of a job (kitchen ticket over TCP, fiscal document by HTTP POST,
  non-fiscal receipt over TCP) makes at most two network attempts. The requests a delivery
  adds are those of one attempt, or of two attempts with a pause of 500 ms between them;
  there are two exactly when the first attempt threw an error whose lowercased message
  contains one of \<^verbatim>\<open>timeout\<close>, \<^verbatim>\<open>econnreset\<close>, \<^verbatim>\<open>ehostunreach\<close>, \<^verbatim>\<open>econnrefused\<close>,
  \<^verbatim>\<open>epipe\<close>, so any other error leaves exactly one attempt. (Without a host, or when the
  ticket cannot be rendered, nothing is sent; after a fiscal delivery that found no receipt
  id the clock is read for the substitute id.)
\<close>

theorem C2_retry_cap:
  "trace (snd (sendToPrinter ext io job route s))
     = trace s @
       (let host = trim (case route of None \<Rightarrow> [] | Some r \<Rightarrow> target_host r);
            port = sanitizePrinterPort (case route of None \<Rightarrow> NaN | Some r \<Rightarrow> ofInt (target_port r))
        in if host = [] then []
           else case kitchenPayload ext job of
                  Inl e \<Rightarrow> []
                | Inr payload \<Rightarrow> attemptsOf (fst (openRawSocket io host port payload s))
                                  [OpenRawSocket host port payload])
   \<and> (\<exists>tail. trace (snd (sendToPhysicalReceiptDevice ext io pjob s))
         = trace s @ attemptsOf (fst (postPhysicalReceipt ext io (pj_payload pjob) s))
                       (fiscalRequests ext (pj_payload pjob)) @ tail
         \<and> (tail = [] \<or> tail = [ReadClock]))
   \<and> trace (snd (sendToNonFiscalReceiptPrinter ext io njob s))
     = trace s @
       (let host = trim (nj_host njob); port = sanitizePrinterPort (nj_port njob)
        in if host = [] then []
           else case receiptPayload ext njob of
                  Inl e \<Rightarrow> []
                | Inr payload \<Rightarrow> attemptsOf (fst (openRawSocket io host port payload s))
                                  [OpenRawSocket host port payload])
   \<and> (\<forall>(first :: js_error + unit) reqs.
         attemptsOf first reqs
         = (if \<exists>e. first = Inl e \<and> shouldRetryPrintLocally e then reqs @ [Sleep 500] @ reqs else reqs))
   \<and> (\<forall>(first :: js_error + string option) reqs.
         attemptsOf first reqs
         = (if \<exists>e. first = Inl e \<and> shouldRetryPrintLocally e then reqs @ [Sleep 500] @ reqs else reqs))
   \<and> (\<forall>(first :: js_error + unit) req. isNetworkRequest req \<longrightarrow>
         networkAttempts (attemptsOf first [req])
         = (if \<exists>e. first = Inl e \<and> shouldRetryPrintLocally e then 2 else 1))
   \<and> (\<forall>(first :: js_error + string option) req. isNetworkRequest req \<longrightarrow>
         networkAttempts (attemptsOf first [req])
         = (if \<exists>e. first = Inl e \<and> shouldRetryPrintLocally e then 2 else 1))
   \<and> length (fiscalRequests ext (pj_payload pjob)) \<le> 1
   \<and> (\<forall>r \<in> set (fiscalRequests ext (pj_payload pjob)). isNetworkRequest r)
   \<and> (\<forall>h p b. isNetworkRequest (OpenRawSocket h p b)
         \<and> fst (openRawSocket io h p b s)
           = (case fst (io (world s) (OpenRawSocket h p b)) of RespError e \<Rightarrow> Inl e | _ \<Rightarrow> Inr ()))
   \<and> (\<forall>e. shouldRetryPrintLocally e
         \<longleftrightarrow> (\<exists>k \<in> set retriableSet. \<exists>a b. toLowerCase (normalizeError e) = a @ k @ b))"
  apply (intro conjI)
  subgoal by (rule sendToPrinter_trace)
  subgoal by (rule sendToPhysicalReceiptDevice_trace)
  subgoal by (rule sendToNonFiscalReceiptPrinter_trace)
  subgoal by (intro allI, rule attemptsOf_eq)
  subgoal by (intro allI, rule attemptsOf_eq)
  subgoal by (intro allI impI, erule networkAttempts_attemptsOf)
  subgoal by (intro allI impI, erule networkAttempts_attemptsOf)
  subgoal by (simp add: fiscalRequests_def)
  subgoal by (simp add: fiscalRequests_def isNetworkRequest_def)
  subgoal by (simp add: isNetworkRequest_def openRawSocket_fst)
  subgoal by (intro allI, rule shouldRetryPrintLocally_iff)
  done

text \<open>
  The third scenario: the first connection fails with \<^verbatim>\<open>ECONNRESET\<close>, the second is
  accepted.
\<close>

definition exampleExternals :: Externals where
  "exampleExternals =
     \<lparr> times100 = (\<lambda>q. Fin (q * 100)), numberText = (\<lambda>q. []),
       rtErrorBody = (\<lambda>t. False), extractReceiptIdFromResponse = (\<lambda>t. None),
       kitchenPayload = (\<lambda>j. Inr [27, 64]), receiptPayload = (\<lambda>j. Inr [27, 64]) \<rparr>"

definition resetThenAccept :: "nat io" where
  \<comment> \<open>The first connection is reset by the peer, every later one is accepted.\<close>
  "resetThenAccept n req =
     (case req of
        OpenRawSocket h p b \<Rightarrow> (if n = 0 then RespError (ErrError ''read ECONNRESET'') else RespNone, Suc n)
      | _ \<Rightarrow> (RespNone, n))"

definition exampleSys :: "'w \<Rightarrow> 'w sys" where
  "exampleSys w =
     \<lparr> worker = initialWorker ''kitchen-pc'' ''linux'' ''https://db.example'' ''key'' ''1.0'',
       world = w, trace = [] \<rparr>"

theorem C2_retry_cap_witness:
  "trace (snd (sendToPrinter exampleExternals resetThenAccept (exampleJob (Some ''cucina'') None)
          (Some \<lparr>target_id = Some ''p1'', target_name = ''Cucina'', target_host = ''192.168.1.50'',
                  target_port = 9100\<rparr>) (exampleSys 0)))
   = [OpenRawSocket ''192.168.1.50'' 9100 [27, 64], Sleep 500,
      OpenRawSocket ''192.168.1.50'' 9100 [27, 64]]
   \<and> networkAttempts [OpenRawSocket ''192.168.1.50'' 9100 [27, 64], Sleep 500,
      OpenRawSocket ''192.168.1.50'' 9100 [27, 64]] = 2"
proof -
  let ?req = "OpenRawSocket ''192.168.1.50'' 9100 [27, 64]"
  let ?first = "fst (openRawSocket resetThenAccept ''192.168.1.50'' 9100 [27, 64] (exampleSys (0::nat)))"
  have r: "shouldRetryPrintLocally (ErrError ''read ECONNRESET'')" by code_simp
  have f: "?first = Inl (ErrError ''read ECONNRESET'')"
    by (simp add: openRawSocket_def perform_def failure_def exampleSys_def resetThenAccept_def)
  have h: "trim ''192.168.1.50'' = ''192.168.1.50''" by code_simp
  have n: "isNetworkRequest ?req" by (simp add: isNetworkRequest_def)
  note c2 = C2_retry_cap [of exampleExternals resetThenAccept "exampleJob (Some ''cucina'') None"
        "Some \<lparr>target_id = Some ''p1'', target_name = ''Cucina'', target_host = ''192.168.1.50'',
                  target_port = 9100\<rparr>" "exampleSys 0"]
  have shape: "attemptsOf ?first [?req] = [?req, Sleep 500, ?req]"
    using c2 [THEN conjunct2, THEN conjunct2, THEN conjunct2, THEN conjunct1,
              rule_format, of ?first "[?req]"] f r
    by simp
  have count: "networkAttempts (attemptsOf ?first [?req]) = 2"
    using c2 [THEN conjunct2, THEN conjunct2, THEN conjunct2, THEN conjunct2, THEN conjunct2,
              THEN conjunct1, rule_format, of ?req ?first] f r n
    by simp
  have "trace (snd (sendToPrinter exampleExternals resetThenAccept (exampleJob (Some ''cucina'') None)
          (Some \<lparr>target_id = Some ''p1'', target_name = ''Cucina'', target_host = ''192.168.1.50'',
                  target_port = 9100\<rparr>) (exampleSys 0)))
        = trace (exampleSys (0::nat)) @ attemptsOf ?first [?req]"
    using c2 [THEN conjunct1] h
    by (simp add: Let_def exampleExternals_def sanitizePrinterPort_ofInt)
  then show ?thesis
    using shape count by (simp add: exampleSys_def)
qed

section \<open>The configuration and the log requests\<close>

text \<open>
  The requests that only report or read the clock, and the configuration every backend call
  needs: \<^verbatim>\<open>ensureSupabaseClient\<close> throws without a URL and a key. They are read-only
  (\<^verbatim>\<open>runtimeConfig\<close>), and \<^verbatim>\<open>runTick\<close> calls \<^verbatim>\<open>ensureSupabaseClient\<close> before it claims.
\<close>

definition isLogRequest :: "request \<Rightarrow> bool" where
  "isLogRequest r = (case r of ReadClock \<Rightarrow> True | MainLog l m \<Rightarrow> True | SendLog e \<Rightarrow> True
                     | SendState st \<Rightarrow> True | _ \<Rightarrow> False)"

definition validConfig :: "Worker \<Rightarrow> bool" where
  "validConfig w = (trim (runtimeUrl w) \<noteq> [] \<and> trim (runtimeAnonKey w) \<noteq> [])"

lemma perform_eqD:
  "perform io req s = (r, s') \<Longrightarrow>
   trace s' = trace s @ [req] \<and> worker s' = worker s \<and> r = fst (io (world s) req)"
  by (auto simp add: perform_def split: prod.splits)

lemma pushLog_trace:
  "\<exists>new. trace (pushLog io l m s) = trace s @ new \<and> (\<forall>r \<in> set new. isLogRequest r)"
  by (auto simp add: pushLog_def Let_def isLogRequest_def split: prod.splits dest!: perform_eqD)

lemma pushLog_validConfig [simp]: "validConfig (worker (pushLog io l m s)) = validConfig (worker s)"
  by (auto simp add: pushLog_def Let_def validConfig_def split: prod.splits dest!: perform_eqD)

lemma pushLog_consumerId [simp]:
  "consumerId (config (worker (pushLog io l m s))) = consumerId (config (worker s))"
  by (auto simp add: pushLog_def Let_def split: prod.splits dest!: perform_eqD)

lemma retryLoop_worker:
  assumes "\<And>t. worker (snd (body t)) = worker t"
  shows "worker (snd (retryLoop io body (Suc 0) None s)) = worker s"
proof -
  have a: "body t = (r, t') \<Longrightarrow> worker t' = worker t" for t r t'
    using assms [of t] by simp
  show ?thesis
    by (auto simp add: retryLoop_1 split: prod.splits sum.splits dest!: a)
qed

lemma openRawSocket_worker: "worker (snd (openRawSocket io h p b t)) = worker t"
  by (auto simp add: openRawSocket_def split: prod.splits option.splits dest!: perform_eqD)

lemma sendToPrinter_worker: "worker (snd (sendToPrinter ext io job route s)) = worker s"
proof -
  have "worker (snd (case retryLoop io (openRawSocket io h p b) (Suc 0) None s of
                      (Inr u, s1) \<Rightarrow> (Inr (), s1)
                    | (Inl lastErr, s1) \<Rightarrow> (Inl (f lastErr), s1))) = worker s"
    for h p b and f :: "js_error option \<Rightarrow> js_error"
    using retryLoop_worker [of "openRawSocket io h p b" io s]
    by (auto simp add: openRawSocket_worker split: prod.splits sum.splits)
  then show ?thesis
    by (simp add: sendToPrinter_def Let_def split: sum.splits)
qed

section \<open>The calls of one job family\<close>

text \<open>
  The worker serves three families of jobs, each with a claim call and a completion call:
  the kitchen jobs, the fiscal receipts and the non-fiscal receipts. The two families of
  receipts have an availability flag each.
\<close>

datatype family = Kitchen | Fiscal | NonFiscal

definition isKitchenRpc :: "request \<Rightarrow> bool" where
  "isKitchenRpc r = (case r of PrintClaimJobs a b c \<Rightarrow> True
                     | PrintCompleteJob a b c d \<Rightarrow> True | _ \<Rightarrow> False)"

definition isPhysicalRpc :: "request \<Rightarrow> bool" where
  "isPhysicalRpc r = (case r of PhysicalReceiptClaimJobs a b c \<Rightarrow> True
                      | PhysicalReceiptCompleteJob a b c d e \<Rightarrow> True | _ \<Rightarrow> False)"

definition isNonFiscalRpc :: "request \<Rightarrow> bool" where
  "isNonFiscalRpc r = (case r of NonFiscalReceiptClaimJobs a b c \<Rightarrow> True
                       | NonFiscalReceiptCompleteJob a b c d \<Rightarrow> True | _ \<Rightarrow> False)"

definition familyRpc :: "family \<Rightarrow> request \<Rightarrow> bool" where
  "familyRpc f r = (case f of Kitchen \<Rightarrow> isKitchenRpc r | Fiscal \<Rightarrow> isPhysicalRpc r
                    | NonFiscal \<Rightarrow> isNonFiscalRpc r)"

definition familyAvailable :: "family \<Rightarrow> Worker \<Rightarrow> bool" where
  \<comment> \<open>The kitchen family has no flag.\<close>
  "familyAvailable f w = (case f of Kitchen \<Rightarrow> True | Fiscal \<Rightarrow> physicalReceiptRpcAvailable w
                          | NonFiscal \<Rightarrow> nonFiscalReceiptRpcAvailable w)"

definition familyCalls :: "family \<Rightarrow> request list \<Rightarrow> request list" where
  "familyCalls f tr = filter (familyRpc f) tr"

text \<open>
  \<open>quietFor f s s'\<close>: from \<open>s\<close> to \<open>s'\<close> requests were only added, none of them a call of the
  family \<open>f\<close>, and neither the flag of \<open>f\<close> nor the URL and the key have changed.
\<close>

definition quietFor :: "family \<Rightarrow> 'w sys \<Rightarrow> 'w sys \<Rightarrow> bool" where
  "quietFor f s s' \<longleftrightarrow>
     (\<exists>new. trace s' = trace s @ new \<and> (\<forall>r \<in> set new. \<not> familyRpc f r))
     \<and> familyAvailable f (worker s') = familyAvailable f (worker s)
     \<and> validConfig (worker s') = validConfig (worker s)"

lemma quietFor_refl [simp]: "quietFor f s s"
  by (simp add: quietFor_def)

lemma quietFor_trans: "quietFor f s t \<Longrightarrow> quietFor f t u \<Longrightarrow> quietFor f s u"
  by (fastforce simp add: quietFor_def)

named_theorems quiet

lemma quietFor_worker [quiet]:
  "familyAvailable f w = familyAvailable f (worker s) \<Longrightarrow> validConfig w = validConfig (worker s)
   \<Longrightarrow> quietFor f a s \<Longrightarrow> quietFor f a (s\<lparr>worker := w\<rparr>)"
  by (simp add: quietFor_def)

lemma quietFor_perform [quiet]:
  "\<not> familyRpc f req \<Longrightarrow> quietFor f a s \<Longrightarrow> quietFor f a (snd (perform io req s))"
  by (rule quietFor_trans [of f a s]) (auto simp add: quietFor_def perform_def split: prod.splits)

lemma notFamily [simp]:
  "\<not> familyRpc f ReadClock" "\<not> familyRpc f (MainLog l m)" "\<not> familyRpc f (SendLog e)"
  "\<not> familyRpc f (SendState st)" "\<not> familyRpc f (WriteFile c ss)" "\<not> familyRpc f AuthGetUser"
  "\<not> familyRpc f (AuthSetSession x y)" "\<not> familyRpc f (ResolveRestaurant x)"
  "\<not> familyRpc f (PrintingListAgents x)" "\<not> familyRpc f (PrintingRegisterAgent x1 x2 x3 x4 x5 x6)"
  "\<not> familyRpc f (SelectRestaurantSettings x)" "\<not> familyRpc f (OpenRawSocket h p bs)"
  "\<not> familyRpc f (HttpPost u body)" "\<not> familyRpc f (Sleep n)"
  by (cases f; simp add: familyRpc_def isKitchenRpc_def isPhysicalRpc_def isNonFiscalRpc_def)+

lemma inFamily [simp]:
  "familyRpc f (PrintClaimJobs x y i) \<longleftrightarrow> f = Kitchen"
  "familyRpc f (PrintCompleteJob x y ok eo) \<longleftrightarrow> f = Kitchen"
  "familyRpc f (PhysicalReceiptClaimJobs x y i) \<longleftrightarrow> f = Fiscal"
  "familyRpc f (PhysicalReceiptCompleteJob x y ok ro eo) \<longleftrightarrow> f = Fiscal"
  "familyRpc f (NonFiscalReceiptClaimJobs x y i) \<longleftrightarrow> f = NonFiscal"
  "familyRpc f (NonFiscalReceiptCompleteJob x y ok eo) \<longleftrightarrow> f = NonFiscal"
  by (cases f; simp add: familyRpc_def isKitchenRpc_def isPhysicalRpc_def isNonFiscalRpc_def)+

lemma familyAvailable_simps [simp]:
  "familyAvailable f (w\<lparr>logs := l\<rparr>) = familyAvailable f w"
  "familyAvailable f (w\<lparr>supabase := sb\<rparr>) = familyAvailable f w"
  "familyAvailable f (w\<lparr>authState := au\<rparr>) = familyAvailable f w"
  "familyAvailable f (w\<lparr>savedSession := ss\<rparr>) = familyAvailable f w"
  "familyAvailable f (w\<lparr>service := sv\<rparr>) = familyAvailable f w"
  by (cases f; simp add: familyAvailable_def)+

lemma validConfig_simps [simp]:
  "validConfig (w\<lparr>logs := l\<rparr>) = validConfig w"
  "validConfig (w\<lparr>supabase := sb\<rparr>) = validConfig w"
  "validConfig (w\<lparr>authState := au\<rparr>) = validConfig w"
  "validConfig (w\<lparr>savedSession := ss\<rparr>) = validConfig w"
  "validConfig (w\<lparr>service := sv\<rparr>) = validConfig w"
  "validConfig (w\<lparr>physicalReceiptRpcAvailable := v\<rparr>) = validConfig w"
  "validConfig (w\<lparr>nonFiscalReceiptRpcAvailable := v\<rparr>) = validConfig w"
  by (simp_all add: validConfig_def)

lemma pushLog_quiet [quiet]: "quietFor f a s \<Longrightarrow> quietFor f a (pushLog io l m s)"
  unfolding pushLog_def Let_def case_prod_beta
  by (auto intro!: quiet)

lemma broadcastState_quiet [quiet]: "quietFor f a s \<Longrightarrow> quietFor f a (broadcastState io s)"
  unfolding broadcastState_def by (auto intro!: quiet)

lemma persistState_quiet [quiet]: "quietFor f a s \<Longrightarrow> quietFor f a (snd (persistState io s))"
  unfolding persistState_def case_prod_beta
  by (auto intro!: quiet)

lemma ensureSupabaseClient_quiet [quiet]:
  "quietFor f a s \<Longrightarrow> quietFor f a (snd (ensureSupabaseClient s))"
  unfolding ensureSupabaseClient_def Let_def by (auto intro!: quiet)

lemma resolveRestaurant_quiet [quiet]:
  "quietFor f a s \<Longrightarrow> quietFor f a (snd (resolveRestaurantForCurrentUser io u s))"
  unfolding resolveRestaurantForCurrentUser_def case_prod_beta
  by (auto intro!: quiet split: option.splits)

lemma setUser_quiet [quiet]: "quietFor f a s \<Longrightarrow> quietFor f a (setUser u s)"
  unfolding setUser_def by (auto intro!: quiet)

lemma setRestaurant_quiet [quiet]: "quietFor f a s \<Longrightarrow> quietFor f a (setRestaurant u s)"
  unfolding setRestaurant_def by (auto intro!: quiet)


lemma adoptUser_quiet [quiet]: "quietFor f a s \<Longrightarrow> quietFor f a (snd (adoptUser io u s))"
  unfolding adoptUser_def case_prod_beta Let_def
  by (auto intro!: quiet split: sum.splits)

lemma adoptRestored_quiet [quiet]:
  "quietFor f a s \<Longrightarrow> quietFor f a (snd (adoptRestored io u raw s))"
  unfolding adoptRestored_def case_prod_beta Let_def
  by (auto intro!: quiet split: sum.splits)

lemma restoreSession_quiet [quiet]:
  "quietFor f a s \<Longrightarrow> quietFor f a (snd (restoreSession io saved s))"
  unfolding restoreSession_def case_prod_beta
  by (auto intro!: quiet split: option.splits response.splits)

lemma ensureSignedIn_quiet [quiet]:
  "quietFor f a s \<Longrightarrow> quietFor f a (snd (ensureSignedIn io s))"
  unfolding ensureSignedIn_def case_prod_beta
  by (auto intro!: quiet split: option.splits)

lemma fetchAssignedPrinterId_quiet [quiet]:
  "quietFor f a s \<Longrightarrow> quietFor f a (snd (fetchAssignedPrinterId io s))"
  unfolding fetchAssignedPrinterId_def case_prod_beta Let_def
  by (auto intro!: quiet split: option.splits)

lemma setAssigned_quiet [quiet]: "quietFor f a s \<Longrightarrow> quietFor f a (setAssigned p s)"
  unfolding setAssigned_def by (auto intro!: quiet)

lemma heartbeatAgent_quiet [quiet]:
  "quietFor f a s \<Longrightarrow> quietFor f a (heartbeatAgent io act s)"
  unfolding heartbeatAgent_def case_prod_beta Let_def
  by (auto intro!: quiet split: option.splits sum.splits)

lemma fetchLivePrinterRoutes_quiet [quiet]:
  "quietFor f a s \<Longrightarrow> quietFor f a (snd (fetchLivePrinterRoutes io rid s))"
  unfolding fetchLivePrinterRoutes_def case_prod_beta
  by (auto intro!: quiet split: option.splits)

lemma clockText_quiet [quiet]: "quietFor f a s \<Longrightarrow> quietFor f a (snd (clockText io s))"
  unfolding clockText_def case_prod_beta
  by (auto intro!: quiet split: response.splits)

lemma finishTick_quiet [quiet]: "quietFor f a s \<Longrightarrow> quietFor f a (finishTick io s)"
  unfolding finishTick_def case_prod_beta
  by (auto intro!: quiet)

lemma add_quiet [quiet]:
  "quietFor f a s \<Longrightarrow> quietFor f a (addClaimed n s)"
  "quietFor f a s \<Longrightarrow> quietFor f a (addPrinted s)"
  "quietFor f a s \<Longrightarrow> quietFor f a (addFailed s)"
  unfolding addClaimed_def addPrinted_def addFailed_def by (auto intro!: quiet)

lemma completePrintJob_quiet [quiet]:
  "f \<noteq> Kitchen \<Longrightarrow> quietFor f a s \<Longrightarrow> quietFor f a (snd (completePrintJob io job ok m s))"
  unfolding completePrintJob_def case_prod_beta
  by (auto intro!: quiet split: option.splits)

lemma retryLoop_quiet:
  assumes "\<And>t. quietFor f a t \<Longrightarrow> quietFor f a (snd (body t))"
    and "quietFor f a s"
  shows "quietFor f a (snd (retryLoop io body (Suc 0) None s))"
  unfolding retryLoop_1 case_prod_beta
  using assms by (auto intro!: quiet assms(1) split: sum.splits)

lemma openRawSocket_quiet [quiet]:
  "quietFor f a s \<Longrightarrow> quietFor f a (snd (openRawSocket io h p bs s))"
  unfolding openRawSocket_def case_prod_beta
  by (auto intro!: quiet split: option.splits)

lemma postPhysicalReceipt_quiet [quiet]:
  "quietFor f a s \<Longrightarrow> quietFor f a (snd (postPhysicalReceipt ext io payload s))"
  unfolding postPhysicalReceipt_def case_prod_beta Let_def
  by (auto intro!: quiet)

lemma sendToPrinter_quiet [quiet]:
  "quietFor f a s \<Longrightarrow> quietFor f a (snd (sendToPrinter ext io job route s))"
  unfolding sendToPrinter_def case_prod_beta Let_def
  by (auto intro!: quiet retryLoop_quiet split: sum.splits)

lemma sendToNonFiscalReceiptPrinter_quiet [quiet]:
  "quietFor f a s \<Longrightarrow> quietFor f a (snd (sendToNonFiscalReceiptPrinter ext io job s))"
  unfolding sendToNonFiscalReceiptPrinter_def case_prod_beta Let_def
  by (auto intro!: quiet retryLoop_quiet split: sum.splits)

lemma sendToPhysicalReceiptDevice_quiet [quiet]:
  "quietFor f a s \<Longrightarrow> quietFor f a (snd (sendToPhysicalReceiptDevice ext io job s))"
  unfolding sendToPhysicalReceiptDevice_def case_prod_beta Let_def
  by (auto intro!: quiet retryLoop_quiet split: sum.splits option.splits)

lemma kitchenJobFailed_quiet [quiet]:
  "f \<noteq> Kitchen \<Longrightarrow> quietFor f a s \<Longrightarrow> quietFor f a (kitchenJobFailed io job e s)"
  unfolding kitchenJobFailed_def case_prod_beta Let_def
  by (auto intro!: quiet split: option.splits)

lemma processKitchenJob_quiet [quiet]:
  "f \<noteq> Kitchen \<Longrightarrow> quietFor f a s \<Longrightarrow> quietFor f a (processKitchenJob ext io lr job s)"
  unfolding processKitchenJob_def case_prod_beta
  by (auto intro!: quiet split: option.splits sum.splits)

lemma processKitchenJobs_quiet [quiet]:
  "f \<noteq> Kitchen \<Longrightarrow> quietFor f a s \<Longrightarrow> quietFor f a (processKitchenJobs ext io lr jobs s)"
  by (induction jobs arbitrary: s) (auto intro!: quiet)

lemma kitchenPart_quiet [quiet]:
  "f \<noteq> Kitchen \<Longrightarrow> quietFor f a s \<Longrightarrow> quietFor f a (kitchenPart ext io jobs s)"
  unfolding kitchenPart_def case_prod_beta Let_def
  by (auto intro!: quiet split: sum.splits)

text \<open>The part for one family of receipts leaves the other family alone.\<close>

lemma setAvailable_quiet [quiet]:
  "f \<noteq> NonFiscal \<Longrightarrow> quietFor f a s \<Longrightarrow> quietFor f a (setNonFiscalAvailable v s)"
  "f \<noteq> Fiscal \<Longrightarrow> quietFor f a s \<Longrightarrow> quietFor f a (setPhysicalAvailable v s)"
  unfolding setNonFiscalAvailable_def setPhysicalAvailable_def
  by (cases f; auto intro!: quiet simp add: familyAvailable_def)+

lemma completeNonFiscalReceiptJob_quiet [quiet]:
  "f \<noteq> NonFiscal \<Longrightarrow> quietFor f a s \<Longrightarrow> quietFor f a (snd (completeNonFiscalReceiptJob io job ok m s))"
  unfolding completeNonFiscalReceiptJob_def case_prod_beta
  by (auto intro!: quiet split: option.splits)

lemma completePhysicalReceiptJob_quiet [quiet]:
  "f \<noteq> Fiscal \<Longrightarrow> quietFor f a s \<Longrightarrow> quietFor f a (snd (completePhysicalReceiptJob io job ok r m s))"
  unfolding completePhysicalReceiptJob_def case_prod_beta
  by (auto intro!: quiet split: option.splits)

lemma nonFiscalJobFailed_quiet [quiet]:
  "f \<noteq> NonFiscal \<Longrightarrow> quietFor f a s \<Longrightarrow> quietFor f a (nonFiscalJobFailed io job e s)"
  unfolding nonFiscalJobFailed_def case_prod_beta Let_def
  by (auto intro!: quiet split: option.splits)

lemma physicalJobFailed_quiet [quiet]:
  "f \<noteq> Fiscal \<Longrightarrow> quietFor f a s \<Longrightarrow> quietFor f a (physicalJobFailed io job e s)"
  unfolding physicalJobFailed_def case_prod_beta Let_def
  by (auto intro!: quiet split: option.splits)

lemma processNonFiscalJob_quiet [quiet]:
  "f \<noteq> NonFiscal \<Longrightarrow> quietFor f a s \<Longrightarrow> quietFor f a (processNonFiscalJob ext io job s)"
  unfolding processNonFiscalJob_def case_prod_beta
  by (auto intro!: quiet split: option.splits sum.splits)

lemma processPhysicalJob_quiet [quiet]:
  "f \<noteq> Fiscal \<Longrightarrow> quietFor f a s \<Longrightarrow> quietFor f a (processPhysicalJob ext io job s)"
  unfolding processPhysicalJob_def case_prod_beta
  by (auto intro!: quiet split: option.splits sum.splits)

lemma processNonFiscalJobs_quiet [quiet]:
  "f \<noteq> NonFiscal \<Longrightarrow> quietFor f a s \<Longrightarrow> quietFor f a (processNonFiscalJobs ext io jobs s)"
  by (induction jobs arbitrary: s) (auto intro!: quiet)

lemma processPhysicalJobs_quiet [quiet]:
  "f \<noteq> Fiscal \<Longrightarrow> quietFor f a s \<Longrightarrow> quietFor f a (processPhysicalJobs ext io jobs s)"
  by (induction jobs arbitrary: s) (auto intro!: quiet)

lemma nonFiscalReceiptSection_quiet [quiet]:
  "f \<noteq> NonFiscal \<Longrightarrow> quietFor f a s \<Longrightarrow> quietFor f a (nonFiscalReceiptSection ext io s)"
  unfolding nonFiscalReceiptSection_def case_prod_beta Let_def
  by (auto intro!: quiet split: option.splits)

lemma physicalReceiptSection_quiet [quiet]:
  "f \<noteq> Fiscal \<Longrightarrow> quietFor f a s \<Longrightarrow> quietFor f a (physicalReceiptSection ext io s)"
  unfolding physicalReceiptSection_def case_prod_beta Let_def
  by (auto intro!: quiet split: option.splits)

text \<open>A part whose flag is off does nothing.\<close>

lemma section_skipped:
  "\<not> familyAvailable Fiscal (worker s) \<Longrightarrow> physicalReceiptSection ext io s = s"
  "\<not> familyAvailable NonFiscal (worker s) \<Longrightarrow> nonFiscalReceiptSection ext io s = s"
  by (simp_all add: physicalReceiptSection_def nonFiscalReceiptSection_def familyAvailable_def)

lemma quietFor_available: "quietFor f a s \<Longrightarrow> familyAvailable f (worker s) = familyAvailable f (worker a)"
  by (simp add: quietFor_def)

lemma unavailable_cases:
  "\<not> familyAvailable f w \<Longrightarrow> f = Fiscal \<or> f = NonFiscal"
  by (cases f) (simp_all add: familyAvailable_def)

lemma sections_quiet:
  assumes "quietFor f a s" and "\<not> familyAvailable f (worker a)"
  shows "quietFor f a (nonFiscalReceiptSection ext io (physicalReceiptSection ext io s))"
proof -
  consider "f = Fiscal" | "f = NonFiscal"
    using unavailable_cases [OF assms(2)] by blast
  then show ?thesis
  proof cases
    case 1
    have "\<not> familyAvailable Fiscal (worker s)"
      using assms 1 quietFor_available [of f a s] by simp
    then have "physicalReceiptSection ext io s = s"
      by (rule section_skipped(1))
    then show ?thesis
      using assms(1) 1 nonFiscalReceiptSection_quiet [of f a s ext io] by simp
  next
    case 2
    let ?y = "physicalReceiptSection ext io s"
    have q: "quietFor NonFiscal a ?y"
      using assms(1) 2 physicalReceiptSection_quiet [of f a s ext io] by simp
    then have "\<not> familyAvailable NonFiscal (worker ?y)"
      using assms(2) 2 quietFor_available [of NonFiscal a ?y] by simp
    then have "nonFiscalReceiptSection ext io ?y = ?y"
      by (rule section_skipped(2))
    then show ?thesis
      using q 2 by simp
  qed
qed

text \<open>The kitchen family is left alone by the two parts for the receipts.\<close>

lemma sections_quiet_kitchen:
  "quietFor Kitchen a s
   \<Longrightarrow> quietFor Kitchen a (nonFiscalReceiptSection ext io (physicalReceiptSection ext io s))"
  by (intro quiet) simp_all

lemma runTickBody_quiet:
  assumes "\<not> familyAvailable f (worker a)" and "quietFor f a s"
  shows "quietFor f a (snd (runTickBody ext io s))"
proof -
  have k: "f \<noteq> Kitchen"
    using unavailable_cases [OF assms(1)] by auto
  show ?thesis
    unfolding runTickBody_def case_prod_beta
    using assms k by (auto intro!: quiet sections_quiet split: option.splits)
qed

lemma runTickRest_quiet:
  assumes "\<not> familyAvailable f (worker a)" and "quietFor f a s"
  shows "quietFor f a (runTickRest ext io s)"
  unfolding runTickRest_def case_prod_beta Let_def
  using assms by (auto intro!: quiet runTickBody_quiet split: option.splits)

lemma runTickStart_quiet [quiet]:
  "quietFor f a s \<Longrightarrow> quietFor f a (snd (runTickStart io s))"
  unfolding runTickStart_def by (auto intro!: quiet)

lemma runTick_quiet:
  assumes "\<not> familyAvailable f (worker a)" and "quietFor f a s"
  shows "quietFor f a (runTick ext io s)"
  unfolding runTick_def case_prod_beta
  using assms by (auto intro!: quiet runTickRest_quiet split: bool.splits)

lemma runTicks_quiet:
  assumes "\<not> familyAvailable f (worker a)" and "quietFor f a s"
  shows "quietFor f a (runTicks ext io n s)"
  using assms(2)
proof (induction n arbitrary: s)
  case 0
  then show ?case by simp
next
  case (Suc n)
  then show ?case using runTick_quiet [OF assms(1)] by simp
qed

lemma familyCalls_quiet:
  "quietFor f s s' \<Longrightarrow> \<exists>new. trace s' = trace s @ new \<and> familyCalls f new = []"
  by (auto simp add: quietFor_def familyCalls_def filter_empty_conv)

text \<open>Where the flags are turned off, and where they are turned on.\<close>

lemma physicalReceiptSection_missing:
  assumes "physicalReceiptRpcAvailable (worker s)"
    and "failure (fst (io (world s) (PhysicalReceiptClaimJobs (restaurantId (worker s))
            (consumerId (config (worker s))) (claimLimit (config (worker s)))))) = Some e"
    and "isMissingRpcError e ''physical_receipt_claim_jobs''"
  shows "\<not> physicalReceiptRpcAvailable (worker (physicalReceiptSection ext io s))
         \<and> familyCalls Fiscal (trace (physicalReceiptSection ext io s))
           = familyCalls Fiscal (trace s) @ [PhysicalReceiptClaimJobs (restaurantId (worker s))
                (consumerId (config (worker s))) (claimLimit (config (worker s)))]"
proof -
  let ?req = "PhysicalReceiptClaimJobs (restaurantId (worker s))
                (consumerId (config (worker s))) (claimLimit (config (worker s)))"
  let ?s1 = "setPhysicalAvailable False (snd (perform io ?req s))"
  let ?msg = "''RPC physical_receipt_claim_jobs non trovata: applica la migrazione RT fisico.''"
  have sec: "physicalReceiptSection ext io s = pushLog io WARN ?msg ?s1"
    using assms by (simp add: physicalReceiptSection_def case_prod_beta)
  have "quietFor Fiscal ?s1 (pushLog io WARN ?msg ?s1)"
    by (rule pushLog_quiet) (rule quietFor_refl)
  then obtain new where new: "trace (pushLog io WARN ?msg ?s1) = trace ?s1 @ new"
      "familyCalls Fiscal new = []"
      and av: "familyAvailable Fiscal (worker (pushLog io WARN ?msg ?s1)) = familyAvailable Fiscal (worker ?s1)"
    using familyCalls_quiet quietFor_available by blast
  have "trace ?s1 = trace s @ [?req]"
    by (simp add: setPhysicalAvailable_def)
  then show ?thesis
    using new av sec
    by (simp add: familyCalls_def familyAvailable_def setPhysicalAvailable_def familyRpc_def isPhysicalRpc_def)
qed

lemma nonFiscalReceiptSection_missing:
  assumes "nonFiscalReceiptRpcAvailable (worker s)"
    and "failure (fst (io (world s) (NonFiscalReceiptClaimJobs (restaurantId (worker s))
            (consumerId (config (worker s))) (claimLimit (config (worker s)))))) = Some e"
    and "isMissingRpcError e ''non_fiscal_receipt_claim_jobs''"
  shows "\<not> nonFiscalReceiptRpcAvailable (worker (nonFiscalReceiptSection ext io s))
         \<and> familyCalls NonFiscal (trace (nonFiscalReceiptSection ext io s))
           = familyCalls NonFiscal (trace s) @ [NonFiscalReceiptClaimJobs (restaurantId (worker s))
                (consumerId (config (worker s))) (claimLimit (config (worker s)))]"
proof -
  let ?req = "NonFiscalReceiptClaimJobs (restaurantId (worker s))
                (consumerId (config (worker s))) (claimLimit (config (worker s)))"
  let ?s1 = "setNonFiscalAvailable False (snd (perform io ?req s))"
  let ?msg = "''RPC non_fiscal_receipt_claim_jobs non trovata: applica la migrazione.''"
  have sec: "nonFiscalReceiptSection ext io s = pushLog io WARN ?msg ?s1"
    using assms by (simp add: nonFiscalReceiptSection_def case_prod_beta)
  have "quietFor NonFiscal ?s1 (pushLog io WARN ?msg ?s1)"
    by (rule pushLog_quiet) (rule quietFor_refl)
  then obtain new where new: "trace (pushLog io WARN ?msg ?s1) = trace ?s1 @ new"
      "familyCalls NonFiscal new = []"
      and av: "familyAvailable NonFiscal (worker (pushLog io WARN ?msg ?s1)) = familyAvailable NonFiscal (worker ?s1)"
    using familyCalls_quiet quietFor_available by blast
  have "trace ?s1 = trace s @ [?req]"
    by (simp add: setNonFiscalAvailable_def)
  then show ?thesis
    using new av sec
    by (simp add: familyCalls_def familyAvailable_def setNonFiscalAvailable_def familyRpc_def isNonFiscalRpc_def)
qed

lemma pushLog_flags [simp]:
  "physicalReceiptRpcAvailable (worker (pushLog io l m s)) = physicalReceiptRpcAvailable (worker s)"
  "nonFiscalReceiptRpcAvailable (worker (pushLog io l m s)) = nonFiscalReceiptRpcAvailable (worker s)"
  using quietFor_available [of Fiscal "s" "pushLog io l m s"] quietFor_available [of NonFiscal "s" "pushLog io l m s"]
    pushLog_quiet [of Fiscal s s io l m] pushLog_quiet [of NonFiscal s s io l m]
  by (simp_all add: familyAvailable_def)

lemma jobFailed_missing:
  "completePhysicalReceiptJob io pjob False None (Some (normalizeError e)) s = (Some ackError, s')
   \<Longrightarrow> isMissingRpcError ackError ''physical_receipt_complete_job''
   \<Longrightarrow> \<not> physicalReceiptRpcAvailable (worker (physicalJobFailed io pjob e s))"
  "completeNonFiscalReceiptJob io njob False (Some (normalizeError e)) s = (Some ackError, s')
   \<Longrightarrow> isMissingRpcError ackError ''non_fiscal_receipt_complete_job''
   \<Longrightarrow> \<not> nonFiscalReceiptRpcAvailable (worker (nonFiscalJobFailed io njob e s))"
  by (simp_all add: physicalJobFailed_def nonFiscalJobFailed_def Let_def addFailed_def
        setPhysicalAvailable_def setNonFiscalAvailable_def)

lemma broadcastState_worker [simp]: "worker (broadcastState io s) = worker s"
  by (simp add: broadcastState_def)

lemma pushLog_service [simp]: "service (worker (pushLog io l m s)) = service (worker s)"
  by (auto simp add: pushLog_def Let_def split: prod.splits dest!: perform_eqD)

lemma startService_flags:
  "\<not> running (service (worker s)) \<Longrightarrow> startService io s = (Inr st, s')
   \<Longrightarrow> physicalReceiptRpcAvailable (worker s') \<and> nonFiscalReceiptRpcAvailable (worker s')
       \<and> running (service (worker s'))"
  by (auto simp add: startService_def Let_def runTickStart_def split: prod.splits option.splits if_splits)

lemma startService_running:
  "running (service (worker s)) \<Longrightarrow> startService io s = (Inr (getPublicState (worker s)), s)"
  by (simp add: startService_def)

section \<open>C1: completion calls of the kitchen jobs\<close>

text \<open>
  What the loop over the kitchen jobs does towards the printers and the queue: a connection
  to a printer, or a completion call for a job with its success flag.
\<close>

datatype kitchen_event = Transport | Ack string bool

definition kitchenEvent :: "request \<Rightarrow> kitchen_event list" where
  "kitchenEvent r =
     (case r of
        OpenRawSocket h p b \<Rightarrow> [Transport]
      | PrintCompleteJob j c ok e \<Rightarrow> [Ack j ok]
      | _ \<Rightarrow> [])"

definition kitchenEvents :: "request list \<Rightarrow> kitchen_event list" where
  "kitchenEvents tr = concat (map kitchenEvent tr)"

lemma kitchenEvents_append [simp]: "kitchenEvents (a @ b) = kitchenEvents a @ kitchenEvents b"
  by (simp add: kitchenEvents_def)

lemma kitchenEvents_Nil [simp]: "kitchenEvents [] = []"
  by (simp add: kitchenEvents_def)

lemma kitchenEvents_log: "\<forall>r \<in> set new. isLogRequest r \<Longrightarrow> kitchenEvents new = []"
  by (induction new) (auto simp add: kitchenEvents_def kitchenEvent_def isLogRequest_def split: request.splits)

lemma pushLog_kitchenEvents [simp]:
  "kitchenEvents (trace (pushLog io l m s)) = kitchenEvents (trace s)"
  using pushLog_trace [of io l m s] kitchenEvents_log by fastforce

lemma addFailed_simps [simp]:
  "trace (addFailed s) = trace s" "validConfig (worker (addFailed s)) = validConfig (worker s)"
  "consumerId (config (worker (addFailed s))) = consumerId (config (worker s))"
  by (simp_all add: addFailed_def validConfig_def)

lemma addPrinted_simps [simp]:
  "trace (addPrinted s) = trace s" "validConfig (worker (addPrinted s)) = validConfig (worker s)"
  "consumerId (config (worker (addPrinted s))) = consumerId (config (worker s))"
  by (simp_all add: addPrinted_def validConfig_def)

lemma completePrintJob_valid:
  assumes "validConfig (worker s)" and "completePrintJob io job ok msg s = (r, s')"
  shows "kitchenEvents (trace s') = kitchenEvents (trace s) @ [Ack (job_id job) ok]
         \<and> validConfig (worker s')"
  using assms
  by (auto simp add: completePrintJob_def ensureSupabaseClient_def validConfig_def Let_def
        kitchenEvents_def kitchenEvent_def
      split: prod.splits if_splits dest!: perform_eqD)

lemma kitchenJobFailed_events:
  assumes "validConfig (worker s)"
  shows "kitchenEvents (trace (kitchenJobFailed io job e s))
           = kitchenEvents (trace s) @ [Ack (job_id job) False]
         \<and> validConfig (worker (kitchenJobFailed io job e s))"
proof (cases "completePrintJob io job False (Some (normalizeError e)) s")
  case (Pair r s')
  from completePrintJob_valid [OF assms Pair] show ?thesis
    using Pair by (cases r) (simp_all add: kitchenJobFailed_def Let_def)
qed

lemma kitchenEvents_attemptsOf:
  "kitchenEvents (attemptsOf first [OpenRawSocket h p b])
   = replicate (if \<exists>e. first = Inl e \<and> shouldRetryPrintLocally e then 2 else 1) Transport"
  by (simp add: attemptsOf_eq kitchenEvents_def kitchenEvent_def numeral_2_eq_2)

lemma sendToPrinter_events:
  "\<exists>n\<le>2. kitchenEvents (trace (snd (sendToPrinter ext io job route s)))
            = kitchenEvents (trace s) @ replicate n Transport"
proof -
  have "\<exists>n\<le>2. kitchenEvents new = replicate n Transport"
    if shape: "new = [] \<or> (\<exists>first h p b. new = attemptsOf (first :: js_error + unit) [OpenRawSocket h p b])"
    for new
  proof (cases "new = []")
    case True
    then have "(0::nat) \<le> 2 \<and> kitchenEvents new = replicate 0 Transport" by simp
    then show ?thesis by blast
  next
    case False
    then obtain first :: "js_error + unit" and h p b
      where "new = attemptsOf first [OpenRawSocket h p b]"
      using shape by blast
    then have "kitchenEvents new
         = replicate (if \<exists>e. first = Inl e \<and> shouldRetryPrintLocally e then 2 else 1) Transport"
      by (simp only: kitchenEvents_attemptsOf)
    moreover have "(if \<exists>e. first = Inl e \<and> shouldRetryPrintLocally e then 2 else 1) \<le> (2::nat)"
      by simp
    ultimately show ?thesis by blast
  qed
  note shapes = this
  define new where "new =
       (let host = trim (case route of None \<Rightarrow> [] | Some r \<Rightarrow> target_host r);
            port = sanitizePrinterPort (case route of None \<Rightarrow> NaN | Some r \<Rightarrow> ofInt (target_port r))
        in if host = [] then []
           else case kitchenPayload ext job of
                  Inl e \<Rightarrow> []
                | Inr payload \<Rightarrow> attemptsOf (fst (openRawSocket io host port payload s))
                                  [OpenRawSocket host port payload])"
  have tr: "trace (snd (sendToPrinter ext io job route s)) = trace s @ new"
    unfolding new_def by (rule sendToPrinter_trace)
  have "new = [] \<or> (\<exists>first h p b. new = attemptsOf (first :: js_error + unit) [OpenRawSocket h p b])"
  proof (cases "trim (case route of None \<Rightarrow> [] | Some r \<Rightarrow> target_host r) = []")
    case True
    then show ?thesis by (simp add: new_def)
  next
    case False
    show ?thesis
    proof (cases "kitchenPayload ext job")
      case (Inl e)
      then show ?thesis using False by (simp add: new_def)
    next
      case (Inr payload)
      then have "new = attemptsOf (fst (openRawSocket io
                     (trim (case route of None \<Rightarrow> [] | Some r \<Rightarrow> target_host r))
                     (sanitizePrinterPort (case route of None \<Rightarrow> NaN | Some r \<Rightarrow> ofInt (target_port r)))
                     payload s))
                   [OpenRawSocket (trim (case route of None \<Rightarrow> [] | Some r \<Rightarrow> target_host r))
                     (sanitizePrinterPort (case route of None \<Rightarrow> NaN | Some r \<Rightarrow> ofInt (target_port r)))
                     payload]"
        using False by (simp add: new_def Let_def)
      then show ?thesis by blast
    qed
  qed
  then obtain n where "n \<le> 2" "kitchenEvents new = replicate n Transport"
    using shapes by blast
  then show ?thesis
    using tr by auto
qed

definition ackShapes :: "JobRow \<Rightarrow> kitchen_event list set" where
  "ackShapes job =
     {[Ack (job_id job) True], [Ack (job_id job) False],
      [Ack (job_id job) True, Ack (job_id job) False]}"

definition jobSegment :: "JobRow \<Rightarrow> kitchen_event list \<Rightarrow> bool" where
  "jobSegment job seg \<longleftrightarrow> (\<exists>n\<le>2. \<exists>acks \<in> ackShapes job. seg = replicate n Transport @ acks)"

lemma processKitchenJob_events:
  assumes "validConfig (worker s)"
  shows "\<exists>seg. jobSegment job seg
           \<and> kitchenEvents (trace (processKitchenJob ext io lr job s)) = kitchenEvents (trace s) @ seg
           \<and> validConfig (worker (processKitchenJob ext io lr job s))"
proof -
  let ?route = "resolveRouteForJob job lr"
  obtain res s1 where send: "sendToPrinter ext io job ?route s = (res, s1)"
    by (cases "sendToPrinter ext io job ?route s")
  obtain n where n: "n \<le> 2" "kitchenEvents (trace s1) = kitchenEvents (trace s) @ replicate n Transport"
    using sendToPrinter_events [of ext io job ?route s] send by auto
  have v1: "validConfig (worker s1)"
    using sendToPrinter_worker [of ext io job ?route s] send assms by simp
  show ?thesis
  proof (cases res)
    case (Inl e)
    have "processKitchenJob ext io lr job s = kitchenJobFailed io job e s1"
      using send Inl by (simp add: processKitchenJob_def)
    then show ?thesis
      using kitchenJobFailed_events [OF v1, of io job e] n
      by (auto simp add: jobSegment_def ackShapes_def)
  next
    case (Inr u)
    obtain r s2 where ack: "completePrintJob io job True None s1 = (r, s2)"
      by (cases "completePrintJob io job True None s1")
    note a = completePrintJob_valid [OF v1 ack]
    show ?thesis
    proof (cases r)
      case None
      then have "processKitchenJob ext io lr job s
            = pushLog io INFO (''Stampato job '' @ take 8 (job_id job) @ '' -> '' @ jobDepartment job)
                 (addPrinted s2)"
        using send Inr ack by (simp add: processKitchenJob_def)
      then show ?thesis
        using a n by (auto simp add: jobSegment_def ackShapes_def)
    next
      case (Some e)
      then have "processKitchenJob ext io lr job s = kitchenJobFailed io job e s2"
        using send Inr ack by (simp add: processKitchenJob_def)
      then show ?thesis
        using kitchenJobFailed_events [of s2 io job e] a n
        by (auto simp add: jobSegment_def ackShapes_def)
    qed
  qed
qed

lemma processKitchenJobs_events:
  assumes "validConfig (worker s)"
  shows "\<exists>segs. list_all2 jobSegment jobs segs
           \<and> kitchenEvents (trace (processKitchenJobs ext io lr jobs s))
             = kitchenEvents (trace s) @ concat segs
           \<and> validConfig (worker (processKitchenJobs ext io lr jobs s))"
  using assms
proof (induction jobs arbitrary: s)
  case Nil
  then show ?case by simp
next
  case (Cons job jobs)
  obtain seg where seg: "jobSegment job seg"
      "kitchenEvents (trace (processKitchenJob ext io lr job s)) = kitchenEvents (trace s) @ seg"
      "validConfig (worker (processKitchenJob ext io lr job s))"
    using processKitchenJob_events [OF Cons.prems] by blast
  obtain segs where segs: "list_all2 jobSegment jobs segs"
      "kitchenEvents (trace (processKitchenJobs ext io lr jobs (processKitchenJob ext io lr job s)))
       = kitchenEvents (trace (processKitchenJob ext io lr job s)) @ concat segs"
      "validConfig (worker (processKitchenJobs ext io lr jobs (processKitchenJob ext io lr job s)))"
    using Cons.IH [OF seg(3)] by blast
  have "list_all2 jobSegment (job # jobs) (seg # segs)"
    using seg(1) segs(1) by simp
  moreover have "kitchenEvents (trace (processKitchenJobs ext io lr (job # jobs) s))
        = kitchenEvents (trace s) @ concat (seg # segs)"
    using seg(2) segs(2) by simp
  ultimately show ?case
    using segs(3) by (metis processKitchenJobs.simps(2))
qed

lemma runTickBody_invalid:
  "\<not> validConfig (worker s) \<Longrightarrow>
   runTickBody ext io s = (Some (ErrError ''Config desktop Supabase non valida.''), s)"
  by (simp add: runTickBody_def ensureSignedIn_def ensureSupabaseClient_def validConfig_def Let_def)


definition kitchenAcks ::
  "Externals \<Rightarrow> 'w io \<Rightarrow> LiveRoutes option \<Rightarrow> JobRow \<Rightarrow> 'w sys \<Rightarrow> kitchen_event list" where
  "kitchenAcks ext io lr job s =
     (case sendToPrinter ext io job (resolveRouteForJob job lr) s of
        (Inl e, s1) \<Rightarrow> [Ack (job_id job) False]
      | (Inr u, s1) \<Rightarrow>
          (case fst (completePrintJob io job True None s1) of
             None \<Rightarrow> [Ack (job_id job) True]
           | Some e \<Rightarrow> [Ack (job_id job) True, Ack (job_id job) False]))"

lemma processKitchenJob_acks:
  assumes "validConfig (worker s)"
  shows "\<exists>n\<le>2. kitchenEvents (trace (processKitchenJob ext io lr job s))
                 = kitchenEvents (trace s) @ replicate n Transport @ kitchenAcks ext io lr job s"
proof -
  let ?route = "resolveRouteForJob job lr"
  obtain res s1 where send: "sendToPrinter ext io job ?route s = (res, s1)"
    by (cases "sendToPrinter ext io job ?route s")
  obtain n where n: "n \<le> 2" "kitchenEvents (trace s1) = kitchenEvents (trace s) @ replicate n Transport"
    using sendToPrinter_events [of ext io job ?route s] send by auto
  have v1: "validConfig (worker s1)"
    using sendToPrinter_worker [of ext io job ?route s] send assms by simp
  show ?thesis
  proof (cases res)
    case (Inl e)
    have "processKitchenJob ext io lr job s = kitchenJobFailed io job e s1"
      using send Inl by (simp add: processKitchenJob_def)
    moreover have "kitchenAcks ext io lr job s = [Ack (job_id job) False]"
      using send Inl by (simp add: kitchenAcks_def)
    ultimately show ?thesis
      using kitchenJobFailed_events [OF v1, of io job e] n by auto
  next
    case (Inr u)
    obtain r s2 where ack: "completePrintJob io job True None s1 = (r, s2)"
      by (cases "completePrintJob io job True None s1")
    note a = completePrintJob_valid [OF v1 ack]
    show ?thesis
    proof (cases r)
      case None
      then have "processKitchenJob ext io lr job s
            = pushLog io INFO (''Stampato job '' @ take 8 (job_id job) @ '' -> '' @ jobDepartment job)
                 (addPrinted s2)"
        using send Inr ack by (simp add: processKitchenJob_def)
      moreover have "kitchenAcks ext io lr job s = [Ack (job_id job) True]"
        using send Inr ack None by (simp add: kitchenAcks_def)
      ultimately show ?thesis
        using a n by auto
    next
      case (Some e)
      then have "processKitchenJob ext io lr job s = kitchenJobFailed io job e s2"
        using send Inr ack by (simp add: processKitchenJob_def)
      moreover have "kitchenAcks ext io lr job s = [Ack (job_id job) True, Ack (job_id job) False]"
        using send Inr ack Some by (simp add: kitchenAcks_def)
      ultimately show ?thesis
        using kitchenJobFailed_events [of s2 io job e] a n by auto
    qed
  qed
qed

lemma kitchenJobFailed_logged:
  assumes "completePrintJob io job False (Some (normalizeError e)) s = (Some ackError, s')"
  shows "MainLog ERROR (''[print-worker] Ack failed job '' @ take 8 (job_id job) @ '': ''
                        @ normalizeError ackError)
         \<in> set (trace (kitchenJobFailed io job e s))"
proof -
  have in_log: "MainLog l (''[print-worker] '' @ m) \<in> set (trace (pushLog io l m t))" for l m and t :: "'a sys"
    by (auto simp add: pushLog_def Let_def split: prod.splits dest!: perform_eqD)
  have keep: "x \<in> set (trace t) \<Longrightarrow> x \<in> set (trace (pushLog io l m t))" for x l m and t :: "'a sys"
    using pushLog_trace [of io l m t] by auto
  show ?thesis
    using assms in_log [of ERROR "''Ack failed job '' @ take 8 (job_id job) @ '': '' @ normalizeError ackError" s']
    by (simp add: kitchenJobFailed_def Let_def keep)
qed

text \<open>
  The tick. After the claim, \<^verbatim>\<open>kitchenPart\<close> counts the claimed jobs, reads the live routes
  and runs the loop over the jobs; only the loop opens connections or issues completion
  calls.
\<close>

lemma fetchLivePrinterRoutes_events:
  "kitchenEvents (trace (snd (fetchLivePrinterRoutes io rid s))) = kitchenEvents (trace s)"
  by (simp add: fetchLivePrinterRoutes_def ensureSupabaseClient_def Let_def case_prod_beta
        kitchenEvents_def kitchenEvent_def split: option.splits)

lemma addClaimed_simps [simp]:
  "trace (addClaimed n s) = trace s" "validConfig (worker (addClaimed n s)) = validConfig (worker s)"
  by (simp_all add: addClaimed_def validConfig_def)

lemma quietFor_valid: "quietFor f a s \<Longrightarrow> validConfig (worker s) = validConfig (worker a)"
  by (simp add: quietFor_def)

lemma kitchenPart_events:
  assumes "validConfig (worker s)"
  shows "\<exists>segs. list_all2 jobSegment jobs segs
           \<and> kitchenEvents (trace (kitchenPart ext io jobs s)) = kitchenEvents (trace s) @ concat segs"
proof -
  define s6 where "s6 = (if jobs \<noteq> []
      then pushLog io INFO (''Claimati '' @ showNat (length jobs) @ '' job'') (addClaimed (length jobs) s)
      else addClaimed (length jobs) s)"
  have v6: "validConfig (worker s6)" and e6: "kitchenEvents (trace s6) = kitchenEvents (trace s)"
    using assms by (simp_all add: s6_def)
  obtain res s' where f: "fetchLivePrinterRoutes io (restaurantId (worker s6)) s6 = (res, s')"
    by (cases "fetchLivePrinterRoutes io (restaurantId (worker s6)) s6")
  have "quietFor Fiscal s6 (snd (fetchLivePrinterRoutes io (restaurantId (worker s6)) s6))"
    by (rule fetchLivePrinterRoutes_quiet) (rule quietFor_refl)
  then have v': "validConfig (worker s')"
    using quietFor_valid f v6 by fastforce
  have e': "kitchenEvents (trace s') = kitchenEvents (trace s)"
    using fetchLivePrinterRoutes_events [of io "restaurantId (worker s6)" s6] f e6 by simp
  show ?thesis
  proof (cases res)
    case (Inl e)
    let ?t = "pushLog io WARN (''Risoluzione route live fallita: '' @ normalizeError e) s'"
    have "kitchenPart ext io jobs s = processKitchenJobs ext io None jobs ?t"
      using f Inl by (simp add: kitchenPart_def Let_def s6_def)
    moreover have "validConfig (worker ?t)" "kitchenEvents (trace ?t) = kitchenEvents (trace s)"
      using v' e' by simp_all
    ultimately show ?thesis
      using processKitchenJobs_events [of ?t jobs ext io None] by auto
  next
    case (Inr lr)
    have "kitchenPart ext io jobs s = processKitchenJobs ext io (Some lr) jobs s'"
      using f Inr by (simp add: kitchenPart_def Let_def s6_def)
    then show ?thesis
      using processKitchenJobs_events [of s' jobs ext io "Some lr"] v' e' by auto
  qed
qed

lemma ensureSignedIn_valid: "fst (ensureSignedIn io s) = None \<Longrightarrow> validConfig (worker s)"
  by (rule ccontr) (simp add: ensureSignedIn_def ensureSupabaseClient_def validConfig_def Let_def)

lemma ensureSupabaseClient_fst: "fst (ensureSupabaseClient s) = None \<longleftrightarrow> validConfig (worker s)"
  by (simp add: ensureSupabaseClient_def validConfig_def Let_def)

text \<open>
  The \<^verbatim>\<open>try\<close> block of a tick: when it ends without an error, and what it has requested
  then.
\<close>

lemma runTickBody_claim:
  fixes io :: "'w io" and s :: "'w sys"
  defines "s3 \<equiv> snd (ensureSupabaseClient (heartbeatAgent io True (snd (ensureSignedIn io s))))"
  defines "req \<equiv> PrintClaimJobs (restaurantId (worker s3)) (consumerId (config (worker s3)))
                    (claimLimit (config (worker s3)))"
  shows "quietFor Kitchen s s3"
    and "fst (runTickBody ext io s) = None
         \<longleftrightarrow> fst (ensureSignedIn io s) = None \<and> hasRestaurantId (worker (snd (ensureSignedIn io s)))
             \<and> failure (fst (io (world s3) req)) = None"
    and "fst (runTickBody ext io s) = None \<Longrightarrow>
         validConfig (worker s3)
         \<and> snd (runTickBody ext io s)
           = finishTick io (nonFiscalReceiptSection ext io (physicalReceiptSection ext io
               (kitchenPart ext io (case fst (io (world s3) req) of RespJobs js \<Rightarrow> js | _ \<Rightarrow> [])
                  (snd (perform io req s3)))))"
    and "fst (runTickBody ext io s) \<noteq> None \<Longrightarrow>
         \<exists>new. trace (snd (runTickBody ext io s)) = trace s @ new
               \<and> (\<forall>j c ok e. PrintCompleteJob j c ok e \<notin> set new)"
proof -
  let ?s1 = "snd (ensureSignedIn io s)"
  let ?hb = "heartbeatAgent io True ?s1"
  have q1: "quietFor Kitchen s ?s1"
    by (rule ensureSignedIn_quiet) (rule quietFor_refl)
  have qh: "quietFor Kitchen s ?hb"
    by (rule heartbeatAgent_quiet) (rule q1)
  show q3: "quietFor Kitchen s s3"
    unfolding s3_def by (rule ensureSupabaseClient_quiet) (rule qh)
  have esc: "fst (ensureSupabaseClient ?hb) = None" if "fst (ensureSignedIn io s) = None"
    using ensureSignedIn_valid [OF that] quietFor_valid [OF qh]
    by (simp add: ensureSupabaseClient_fst)
  show iff: "fst (runTickBody ext io s) = None
         \<longleftrightarrow> fst (ensureSignedIn io s) = None \<and> hasRestaurantId (worker (snd (ensureSignedIn io s)))
             \<and> failure (fst (io (world s3) req)) = None"
    using esc
    by (auto simp add: runTickBody_def case_prod_beta s3_def req_def split: option.splits)
  show "validConfig (worker s3)
         \<and> snd (runTickBody ext io s)
           = finishTick io (nonFiscalReceiptSection ext io (physicalReceiptSection ext io
               (kitchenPart ext io (case fst (io (world s3) req) of RespJobs js \<Rightarrow> js | _ \<Rightarrow> [])
                  (snd (perform io req s3)))))"
    if none: "fst (runTickBody ext io s) = None"
  proof -
    have a: "fst (ensureSignedIn io s) = None" "hasRestaurantId (worker (snd (ensureSignedIn io s)))"
        "failure (fst (io (world s3) req)) = None"
      using none iff by simp_all
    have "validConfig (worker s3)"
      using ensureSignedIn_valid [OF a(1)] quietFor_valid [OF q3] by simp
    moreover have "snd (runTickBody ext io s)
           = finishTick io (nonFiscalReceiptSection ext io (physicalReceiptSection ext io
               (kitchenPart ext io (case fst (io (world s3) req) of RespJobs js \<Rightarrow> js | _ \<Rightarrow> [])
                  (snd (perform io req s3)))))"
      using a esc [OF a(1)]
      by (simp add: runTickBody_def case_prod_beta s3_def req_def split: option.splits)
    ultimately show ?thesis by simp
  qed
  show "\<exists>new. trace (snd (runTickBody ext io s)) = trace s @ new
               \<and> (\<forall>j c ok e. PrintCompleteJob j c ok e \<notin> set new)"
    if some: "fst (runTickBody ext io s) \<noteq> None"
  proof -
    have "snd (runTickBody ext io s) = ?s1 \<or> snd (runTickBody ext io s) = s3
          \<or> snd (runTickBody ext io s) = snd (perform io req s3)"
      using some
      by (auto simp add: runTickBody_def case_prod_beta s3_def req_def split: option.splits if_splits)
    moreover have "\<exists>new. trace t = trace s @ new \<and> (\<forall>j c ok e. PrintCompleteJob j c ok e \<notin> set new)"
      if "quietFor Kitchen s t" for t :: "'w sys"
      using that by (fastforce simp add: quietFor_def)
    moreover have "\<exists>new. trace (snd (perform io req s3)) = trace s @ new
                     \<and> (\<forall>j c ok e. PrintCompleteJob j c ok e \<notin> set new)"
    proof -
      obtain pre where "trace s3 = trace s @ pre" "\<forall>r \<in> set pre. \<not> familyRpc Kitchen r"
        using q3 by (auto simp add: quietFor_def)
      then have "trace (snd (perform io req s3)) = trace s @ (pre @ [req])
                 \<and> (\<forall>j c ok e. PrintCompleteJob j c ok e \<notin> set (pre @ [req]))"
        by (fastforce simp add: req_def)
      then show ?thesis by blast
    qed
    ultimately show ?thesis
      using q1 q3 by metis
  qed
qed

lemma runTickBody_segments:
  fixes io :: "'w io" and s :: "'w sys"
  defines "s3 \<equiv> snd (ensureSupabaseClient (heartbeatAgent io True (snd (ensureSignedIn io s))))"
  defines "req \<equiv> PrintClaimJobs (restaurantId (worker s3)) (consumerId (config (worker s3)))
                    (claimLimit (config (worker s3)))"
  assumes none: "fst (runTickBody ext io s) = None"
  shows "\<exists>pre mid post segs.
           trace s3 = trace s @ pre
           \<and> trace (snd (runTickBody ext io s)) = trace s @ pre @ [req] @ mid @ post
           \<and> familyCalls Kitchen pre = []
           \<and> list_all2 jobSegment (case fst (io (world s3) req) of RespJobs js \<Rightarrow> js | _ \<Rightarrow> []) segs
           \<and> kitchenEvents mid = concat segs
           \<and> familyCalls Kitchen post = []"
proof -
  let ?jobs = "case fst (io (world s3) req) of RespJobs js \<Rightarrow> js | _ \<Rightarrow> []"
  let ?s4 = "snd (perform io req s3)"
  let ?K = "kitchenPart ext io ?jobs ?s4"
  let ?end = "finishTick io (nonFiscalReceiptSection ext io (physicalReceiptSection ext io ?K))"
  note c1 = runTickBody_claim(1) [where io = io and s = s, folded s3_def]
  note c3 = runTickBody_claim(3) [where io = io and s = s and ext = ext, folded s3_def req_def,
      OF none]
  have v4: "validConfig (worker ?s4)"
    using c3 by simp
  have fin: "snd (runTickBody ext io s) = ?end"
    using c3 by simp
  obtain pre where pre: "trace s3 = trace s @ pre" "familyCalls Kitchen pre = []"
    using familyCalls_quiet [OF c1] by blast
  obtain segs where segs: "list_all2 jobSegment ?jobs segs"
      "kitchenEvents (trace ?K) = kitchenEvents (trace ?s4) @ concat segs"
    using kitchenPart_events [OF v4, of ?jobs ext io] by blast
  have "quietFor Fiscal ?s4 ?K"
    by (rule kitchenPart_quiet) simp_all
  then obtain mid where mid: "trace ?K = trace ?s4 @ mid"
    by (auto simp add: quietFor_def)
  have "kitchenEvents (trace ?K) = kitchenEvents (trace ?s4) @ kitchenEvents mid"
    by (simp only: mid kitchenEvents_append)
  then have em: "kitchenEvents mid = concat segs"
    using segs(2) by simp
  have "quietFor Kitchen ?K ?end"
    by (rule finishTick_quiet, rule sections_quiet_kitchen, rule quietFor_refl)
  then obtain post where post: "trace ?end = trace ?K @ post" "familyCalls Kitchen post = []"
    using familyCalls_quiet by blast
  have "trace (snd (runTickBody ext io s)) = trace s @ pre @ [req] @ mid @ post"
    using fin post(1) mid pre(1) by simp
  then show ?thesis
    using pre segs(1) em post(2) by blast
qed

text \<open>Around the \<^verbatim>\<open>try\<close> block a tick issues no call of the kitchen family.\<close>

lemma runTick_around:
  "quietFor Kitchen s (snd (runTickStart io s))"
  "quietFor Kitchen (snd (runTickBody ext io t)) (runTickRest ext io t)"
  "runTick ext io s = (if fst (runTickStart io s) then runTickRest ext io (snd (runTickStart io s))
                       else snd (runTickStart io s))"
proof -
  show "quietFor Kitchen s (snd (runTickStart io s))"
    by (rule runTickStart_quiet) (rule quietFor_refl)
  show "quietFor Kitchen (snd (runTickBody ext io t)) (runTickRest ext io t)"
    unfolding runTickRest_def case_prod_beta Let_def
    by (auto intro!: quiet split: option.splits)
  show "runTick ext io s = (if fst (runTickStart io s) then runTickRest ext io (snd (runTickStart io s))
                       else snd (runTickStart io s))"
    by (simp add: runTick_def case_prod_beta split: bool.splits)
qed

text \<open>An environment in which every completion call that reports success fails.\<close>

definition successAckFails :: "unit io" where
  "successAckFails w req =
     (case req of
        PrintCompleteJob j c ok e \<Rightarrow> (if ok then RespError (ErrError ''fetch failed'') else RespNone, w)
      | _ \<Rightarrow> (RespNone, w))"

text \<open>
  C1, as stated: exactly one completion call per claimed kitchen job, also when the
  completion call itself throws. The completion call with \<^verbatim>\<open>success=true\<close> is inside the
  \<^verbatim>\<open>try\<close> block, so when it throws the \<^verbatim>\<open>catch\<close> clause issues a second completion call
  for the same job, with \<^verbatim>\<open>success=false\<close>.
\<close>

theorem C1_ack_counterexample:
  "kitchenEvents (trace (processKitchenJobs exampleExternals successAckFails (Some exampleRoutes)
                          [exampleJob None None] (exampleSys ())))
   = [Transport, Ack ''abc'' True, Ack ''abc'' False]"
  by code_simp

text \<open>
  C1, amended: a tick whose \<^verbatim>\<open>try\<close> block ends without an error is one that signed in,
  has a restaurant and whose claim call succeeded, whatever the completion calls did. Its
  requests are those before the claim, the claim, the requests of the loop over the claimed
  jobs, and those of the rest of the tick; only the loop contains calls of the kitchen
  family. For every claimed kitchen job at least one and at most two completion calls
  are issued, after the at most two connections for that job and before anything is done
  for the next job of the batch, whatever rendering, transport and the completion calls do:
  one call with \<^verbatim>\<open>success=false\<close> when the delivery threw, one with \<^verbatim>\<open>success=true\<close> when
  the delivery and that call succeeded, and the two calls \<^verbatim>\<open>success=true\<close>,
  \<^verbatim>\<open>success=false\<close> exactly when the delivery succeeded and the first call failed. A
  failed call with \<^verbatim>\<open>success=false\<close> is logged as an error and the loop goes on. A tick
  that ends with an error (its configuration lacks the URL or the key, the sign-in or the
  claim failed) has claimed no job and issues no completion call.
\<close>

theorem C1_ack_totality:
  "(\<not> validConfig (worker s) \<longrightarrow>
      runTickBody ext io s = (Some (ErrError ''Config desktop Supabase non valida.''), s))
   \<and> (let s1 = snd (ensureSignedIn io s);
           s3 = snd (ensureSupabaseClient (heartbeatAgent io True s1));
           req = PrintClaimJobs (restaurantId (worker s3)) (consumerId (config (worker s3)))
                   (claimLimit (config (worker s3)));
           resp = fst (io (world s3) req);
           claimed = (case resp of RespJobs js \<Rightarrow> js | _ \<Rightarrow> [])
       in (fst (runTickBody ext io s) = None
             \<longleftrightarrow> fst (ensureSignedIn io s) = None \<and> hasRestaurantId (worker s1)
                 \<and> failure resp = None)
          \<and> (fst (runTickBody ext io s) = None \<longrightarrow>
               (\<exists>pre mid post segs.
                   trace s3 = trace s @ pre
                   \<and> trace (snd (runTickBody ext io s)) = trace s @ pre @ [req] @ mid @ post
                   \<and> familyCalls Kitchen pre = []
                   \<and> list_all2 jobSegment claimed segs
                   \<and> kitchenEvents mid = concat segs
                   \<and> familyCalls Kitchen post = []))
          \<and> (fst (runTickBody ext io s) \<noteq> None \<longrightarrow>
               (\<exists>new. trace (snd (runTickBody ext io s)) = trace s @ new
                      \<and> (\<forall>j c ok e. PrintCompleteJob j c ok e \<notin> set new))))
   \<and> runTick ext io s
       = (if fst (runTickStart io s) then runTickRest ext io (snd (runTickStart io s))
          else snd (runTickStart io s))
   \<and> (\<exists>pre. trace (snd (runTickStart io s)) = trace s @ pre \<and> familyCalls Kitchen pre = [])
   \<and> (\<exists>post. trace (runTickRest ext io s) = trace (snd (runTickBody ext io s)) @ post
              \<and> familyCalls Kitchen post = [])
   \<and> (\<forall>tr. familyCalls Kitchen tr = []
          \<longleftrightarrow> (\<forall>r \<in> set tr. (\<forall>a b c. r \<noteq> PrintClaimJobs a b c)
                               \<and> (\<forall>j c ok e. r \<noteq> PrintCompleteJob j c ok e)))
   \<and> (validConfig (worker s) \<longrightarrow>
        (\<exists>segs. list_all2 jobSegment jobs segs
           \<and> kitchenEvents (trace (processKitchenJobs ext io lr jobs s))
             = kitchenEvents (trace s) @ concat segs))
   \<and> (\<forall>seg. jobSegment job seg \<longleftrightarrow>
         (\<exists>n\<le>2. seg = replicate n Transport @ [Ack (job_id job) True]
               \<or> seg = replicate n Transport @ [Ack (job_id job) False]
               \<or> seg = replicate n Transport @ [Ack (job_id job) True, Ack (job_id job) False]))
   \<and> (validConfig (worker s) \<longrightarrow>
        (\<exists>n\<le>2. kitchenEvents (trace (processKitchenJob ext io lr job s))
                 = kitchenEvents (trace s) @ replicate n Transport @ kitchenAcks ext io lr job s))
   \<and> (kitchenAcks ext io lr job s = [Ack (job_id job) True, Ack (job_id job) False]
        \<longleftrightarrow> (\<exists>u s1 e. sendToPrinter ext io job (resolveRouteForJob job lr) s = (Inr u, s1)
                       \<and> fst (completePrintJob io job True None s1) = Some e))
   \<and> (\<forall>e ackError s'.
         completePrintJob io job False (Some (normalizeError e)) s = (Some ackError, s')
         \<longrightarrow> MainLog ERROR (''[print-worker] Ack failed job '' @ take 8 (job_id job) @ '': ''
                              @ normalizeError ackError)
             \<in> set (trace (kitchenJobFailed io job e s)))"
proof -
  have tick: "let s1 = snd (ensureSignedIn io s);
           s3 = snd (ensureSupabaseClient (heartbeatAgent io True s1));
           req = PrintClaimJobs (restaurantId (worker s3)) (consumerId (config (worker s3)))
                   (claimLimit (config (worker s3)));
           resp = fst (io (world s3) req);
           claimed = (case resp of RespJobs js \<Rightarrow> js | _ \<Rightarrow> [])
       in (fst (runTickBody ext io s) = None
             \<longleftrightarrow> fst (ensureSignedIn io s) = None \<and> hasRestaurantId (worker s1)
                 \<and> failure resp = None)
          \<and> (fst (runTickBody ext io s) = None \<longrightarrow>
               (\<exists>pre mid post segs.
                   trace s3 = trace s @ pre
                   \<and> trace (snd (runTickBody ext io s)) = trace s @ pre @ [req] @ mid @ post
                   \<and> familyCalls Kitchen pre = []
                   \<and> list_all2 jobSegment claimed segs
                   \<and> kitchenEvents mid = concat segs
                   \<and> familyCalls Kitchen post = []))
          \<and> (fst (runTickBody ext io s) \<noteq> None \<longrightarrow>
               (\<exists>new. trace (snd (runTickBody ext io s)) = trace s @ new
                      \<and> (\<forall>j c ok e. PrintCompleteJob j c ok e \<notin> set new)))"
    unfolding Let_def
    apply (intro conjI impI)
    subgoal by (rule runTickBody_claim(2))
    subgoal by (rule runTickBody_segments)
    subgoal by (rule runTickBody_claim(4))
    done
  have start: "\<exists>pre. trace (snd (runTickStart io s)) = trace s @ pre \<and> familyCalls Kitchen pre = []"
    by (rule familyCalls_quiet) (rule runTick_around(1))
  have rest: "\<exists>post. trace (runTickRest ext io s) = trace (snd (runTickBody ext io s)) @ post
              \<and> familyCalls Kitchen post = []"
    by (rule familyCalls_quiet) (rule runTick_around(2))
  have fam: "familyCalls Kitchen tr = []
          \<longleftrightarrow> (\<forall>r \<in> set tr. (\<forall>a b c. r \<noteq> PrintClaimJobs a b c)
                               \<and> (\<forall>j c ok e. r \<noteq> PrintCompleteJob j c ok e))" for tr
    by (auto simp add: familyCalls_def filter_empty_conv familyRpc_def isKitchenRpc_def
          split: request.splits)
  have loop: "validConfig (worker s) \<longrightarrow>
        (\<exists>segs. list_all2 jobSegment jobs segs
           \<and> kitchenEvents (trace (processKitchenJobs ext io lr jobs s))
             = kitchenEvents (trace s) @ concat segs)"
    using processKitchenJobs_events [of s jobs ext io lr] by blast
  have seg: "jobSegment job seg \<longleftrightarrow>
         (\<exists>n\<le>2. seg = replicate n Transport @ [Ack (job_id job) True]
               \<or> seg = replicate n Transport @ [Ack (job_id job) False]
               \<or> seg = replicate n Transport @ [Ack (job_id job) True, Ack (job_id job) False])" for seg
    by (auto simp add: jobSegment_def ackShapes_def)
  have one: "validConfig (worker s) \<longrightarrow>
        (\<exists>n\<le>2. kitchenEvents (trace (processKitchenJob ext io lr job s))
                 = kitchenEvents (trace s) @ replicate n Transport @ kitchenAcks ext io lr job s)"
    using processKitchenJob_acks [of s ext io lr job] by blast
  have two: "kitchenAcks ext io lr job s = [Ack (job_id job) True, Ack (job_id job) False]
        \<longleftrightarrow> (\<exists>u s1 e. sendToPrinter ext io job (resolveRouteForJob job lr) s = (Inr u, s1)
                       \<and> fst (completePrintJob io job True None s1) = Some e)"
    by (auto simp add: kitchenAcks_def split: prod.splits sum.splits option.splits)
  have logged: "\<forall>e ackError s'.
         completePrintJob io job False (Some (normalizeError e)) s = (Some ackError, s')
         \<longrightarrow> MainLog ERROR (''[print-worker] Ack failed job '' @ take 8 (job_id job) @ '': ''
                              @ normalizeError ackError)
             \<in> set (trace (kitchenJobFailed io job e s))"
    using kitchenJobFailed_logged by blast
  have invalid: "\<not> validConfig (worker s) \<longrightarrow>
      runTickBody ext io s = (Some (ErrError ''Config desktop Supabase non valida.''), s)"
    using runTickBody_invalid by blast
  show ?thesis
    apply (intro conjI)
    subgoal by (rule invalid)
    subgoal by (rule tick)
    subgoal by (rule runTick_around(3))
    subgoal by (rule start)
    subgoal by (rule rest)
    subgoal by (intro allI) (rule fam)
    subgoal by (rule loop)
    subgoal by (intro allI) (rule seg)
    subgoal by (rule one)
    subgoal by (rule two)
    subgoal by (rule logged)
    done
qed

text \<open>
  A tick that claims two jobs while every completion call that reports success fails; no
  printer is configured.
\<close>

definition claimsTwo :: "unit io" where
  "claimsTwo w req =
     (case req of
        AuthGetUser \<Rightarrow> (RespUser (Some \<lparr> user_id = ''u1'', user_email = None \<rparr>), w)
      | ResolveRestaurant u \<Rightarrow>
          (RespScope (Some \<lparr> scope_id = ''r1'', scope_name = ''Sushi'', scope_city = None,
                              scope_role = Owner \<rparr>), w)
      | PrintClaimJobs r c l \<Rightarrow>
          (RespJobs [exampleJob None None, exampleJob (Some ''bar'') None], w)
      | PrintCompleteJob j c ok e \<Rightarrow> (if ok then RespError (ErrError ''fetch failed'') else RespNone, w)
      | _ \<Rightarrow> (RespNone, w))"

theorem C1_ack_totality_witness:
  "validConfig (worker (exampleSys ()))
   \<and> (\<exists>segs. list_all2 jobSegment [exampleJob None None, exampleJob (Some ''bar'') None] segs
         \<and> kitchenEvents (trace (processKitchenJobs exampleExternals successAckFails (Some exampleRoutes)
                                   [exampleJob None None, exampleJob (Some ''bar'') None] (exampleSys ())))
           = concat segs)
   \<and> fst (runTickBody exampleExternals claimsTwo (exampleSys ())) = None
   \<and> (\<exists>pre rid cid lim mid post segs.
         trace (snd (runTickBody exampleExternals claimsTwo (exampleSys ())))
           = pre @ [PrintClaimJobs rid cid lim] @ mid @ post
         \<and> familyCalls Kitchen pre = []
         \<and> list_all2 jobSegment [exampleJob None None, exampleJob (Some ''bar'') None] segs
         \<and> kitchenEvents mid = concat segs
         \<and> familyCalls Kitchen post = [])"
proof -
  have v: "validConfig (worker (exampleSys ()))"
    by code_simp
  have t: "kitchenEvents (trace (exampleSys ())) = []" "trace (exampleSys ()) = []"
    by (simp_all add: exampleSys_def)
  note loop = C1_ack_totality [where s = "exampleSys ()" and ext = exampleExternals
      and io = successAckFails and jobs = "[exampleJob None None, exampleJob (Some ''bar'') None]"
      and lr = "Some exampleRoutes", THEN conjunct2, THEN conjunct2, THEN conjunct2, THEN conjunct2,
      THEN conjunct2, THEN conjunct2, THEN conjunct1]
  have a: "\<exists>segs. list_all2 jobSegment [exampleJob None None, exampleJob (Some ''bar'') None] segs
         \<and> kitchenEvents (trace (processKitchenJobs exampleExternals successAckFails (Some exampleRoutes)
                                   [exampleJob None None, exampleJob (Some ''bar'') None] (exampleSys ())))
           = concat segs"
    using loop v t by simp
  have signed: "fst (ensureSignedIn claimsTwo (exampleSys ())) = None"
      "hasRestaurantId (worker (snd (ensureSignedIn claimsTwo (exampleSys ()))))"
    by code_simp+
  have claimed: "fst (claimsTwo w (PrintClaimJobs rid cid lim))
      = RespJobs [exampleJob None None, exampleJob (Some ''bar'') None]" for w rid cid lim
    by (simp add: claimsTwo_def)
  note tick = C1_ack_totality [where s = "exampleSys ()" and ext = exampleExternals
      and io = claimsTwo, THEN conjunct2, THEN conjunct1, unfolded Let_def claimed]
  have none: "fst (runTickBody exampleExternals claimsTwo (exampleSys ())) = None"
    using tick [THEN conjunct1] signed by (simp add: failure_def)
  have "\<exists>pre rid cid lim mid post segs.
         trace (snd (runTickBody exampleExternals claimsTwo (exampleSys ())))
           = pre @ [PrintClaimJobs rid cid lim] @ mid @ post
         \<and> familyCalls Kitchen pre = []
         \<and> list_all2 jobSegment [exampleJob None None, exampleJob (Some ''bar'') None] segs
         \<and> kitchenEvents mid = concat segs
         \<and> familyCalls Kitchen post = []"
    using tick [THEN conjunct2, THEN conjunct1, rule_format, OF none]
    by (simp add: t) blast
  then show ?thesis
    using v a none by blast
qed

section \<open>C5: a job family whose backend function is missing\<close>

text \<open>
  The scenario: two fiscal receipts are claimed, the fiscal device accepts every document,
  and the backend lacks the completion function of the family.
\<close>

definition exampleFiscalJob :: "string \<Rightarrow> PhysicalReceiptJobRow" where
  "exampleFiscalJob i =
     \<lparr> pj_id = i,
       pj_payload = \<lparr> fp_host = ''10.0.0.10'', fp_brand = ''epson'', fp_port = Fin 8008,
                      fp_api_path = ''/cgi-bin/fpmate.cgi'', table_number = ''9'',
                      payment_method = ''card'', total_amount = Fin (617 / 50) \<rparr>,
       pj_created_at = ''2024-01-15T12:30:00Z'' \<rparr>"

definition completeMissing :: "unit io" where
  \<comment> \<open>The fiscal device accepts every document; the backend lacks the completion function.\<close>
  "completeMissing w req =
     (case req of
        PhysicalReceiptCompleteJob j c ok r e \<Rightarrow>
          (RespError (ErrObject ''Could not find the function physical_receipt_complete_job in the schema cache''), w)
      | HttpPost u b \<Rightarrow> (RespHttp 200 ''ok'', w)
      | _ \<Rightarrow> (RespNone, w))"

text \<open>The completion calls of the fiscal family in a trace: the job and the success flag.\<close>

definition physicalCompletion :: "request \<Rightarrow> (string \<times> bool) list" where
  "physicalCompletion r = (case r of PhysicalReceiptCompleteJob j c ok rid e \<Rightarrow> [(j, ok)] | _ \<Rightarrow> [])"

definition physicalCompletions :: "request list \<Rightarrow> (string \<times> bool) list" where
  "physicalCompletions tr = concat (map physicalCompletion tr)"

lemma physicalCompletions_append [simp]:
  "physicalCompletions (x @ y) = physicalCompletions x @ physicalCompletions y"
  by (simp add: physicalCompletions_def)

lemma physicalCompletions_quiet:
  assumes "quietFor Fiscal s s'"
  shows "physicalCompletions (trace s') = physicalCompletions (trace s)"
proof -
  obtain new where new: "trace s' = trace s @ new" "\<forall>r \<in> set new. \<not> familyRpc Fiscal r"
    using assms by (auto simp add: quietFor_def)
  have "physicalCompletions new = []"
    using new(2)
    by (induction new)
       (auto simp add: physicalCompletions_def physicalCompletion_def familyRpc_def isPhysicalRpc_def
          split: request.splits)
  then show ?thesis using new(1) by simp
qed

lemma setPhysicalAvailable_validConfig:
  "validConfig (worker (setPhysicalAvailable v s)) = validConfig (worker s)"
  by (simp add: setPhysicalAvailable_def validConfig_def)

lemma completePhysicalReceiptJob_valid:
  assumes "validConfig (worker s)"
    and "completePhysicalReceiptJob io job ok r m s = (res, s')"
  shows "physicalCompletions (trace s') = physicalCompletions (trace s) @ [(pj_id job, ok)]
         \<and> validConfig (worker s')
         \<and> physicalReceiptRpcAvailable (worker s') = physicalReceiptRpcAvailable (worker s)
         \<and> (\<exists>c rid e. res = failure (fst (io (world s) (PhysicalReceiptCompleteJob (pj_id job) c ok rid e))))"
proof -
  define req where "req = PhysicalReceiptCompleteJob (pj_id job) (consumerId (config (worker s))) ok
      (if ok then (case r of None \<Rightarrow> None | Some r \<Rightarrow> if trim r \<noteq> [] then Some (trim r) else None) else None)
      (if ok then None else Some (failureText ''PHYSICAL_RECEIPT_FAILED'' m))"
  have eq: "completePhysicalReceiptJob io job ok r m s
      = (failure (fst (io (world s) req)),
         s\<lparr>worker := worker s\<lparr>supabase := True\<rparr>, world := snd (io (world s) req),
           trace := trace s @ [req]\<rparr>)"
    using assms(1)
    by (simp add: completePhysicalReceiptJob_def ensureSupabaseClient_def validConfig_def Let_def
          perform_def case_prod_beta req_def)
  have res: "res = failure (fst (io (world s) req))"
    and s': "s' = s\<lparr>worker := worker s\<lparr>supabase := True\<rparr>, world := snd (io (world s) req),
           trace := trace s @ [req]\<rparr>"
    using eq assms(2) by simp_all
  have "\<exists>c rid e. res = failure (fst (io (world s) (PhysicalReceiptCompleteJob (pj_id job) c ok rid e)))"
    unfolding res req_def by blast
  moreover have "physicalCompletions (trace s') = physicalCompletions (trace s) @ [(pj_id job, ok)]"
    by (simp add: s' req_def physicalCompletions_def physicalCompletion_def)
  moreover have "validConfig (worker s')" using assms(1) by (simp add: s' validConfig_def)
  moreover have "physicalReceiptRpcAvailable (worker s') = physicalReceiptRpcAvailable (worker s)"
    by (simp add: s')
  ultimately show ?thesis by simp
qed

lemma sendToPhysicalReceiptDevice_worker:
  "worker (snd (sendToPhysicalReceiptDevice ext io job s)) = worker s"
proof -
  have p: "worker (snd (postPhysicalReceipt ext io payload t)) = worker t" for payload and t :: "'a sys"
    by (simp add: postPhysicalReceipt_def Let_def case_prod_beta)
  have c: "worker (snd (clockText io t)) = worker t" for t :: "'a sys"
    by (simp add: clockText_def case_prod_beta split: response.splits)
  show ?thesis
    using retryLoop_worker [of "postPhysicalReceipt ext io (pj_payload job)" io s, OF p]
    by (simp add: sendToPhysicalReceiptDevice_def Let_def case_prod_beta c split: sum.splits option.splits)
qed

text \<open>
  The completion calls one fiscal job adds, and the flag after it, when every completion
  call fails with an error that \<^verbatim>\<open>isMissingRpcError\<close> recognises.
\<close>

lemma physicalJobFailed_missing:
  assumes v: "validConfig (worker s)"
    and io: "\<And>w j c ok r e. failure (fst (io w (PhysicalReceiptCompleteJob j c ok r e))) = Some err"
    and m: "isMissingRpcError err ''physical_receipt_complete_job''"
  shows "physicalCompletions (trace (physicalJobFailed io job e s))
           = physicalCompletions (trace s) @ [(pj_id job, False)]
         \<and> validConfig (worker (physicalJobFailed io job e s))
         \<and> \<not> physicalReceiptRpcAvailable (worker (physicalJobFailed io job e s))"
proof -
  obtain res s' where c: "completePhysicalReceiptJob io job False None (Some (normalizeError e)) s = (res, s')"
    by (cases "completePhysicalReceiptJob io job False None (Some (normalizeError e)) s")
  note a = completePhysicalReceiptJob_valid [OF v c]
  have res: "res = Some err" using a io by auto
  let ?w = "''RPC physical_receipt_complete_job non trovata: applica la migrazione RT fisico.''"
  let ?m = "''Errore RT job '' @ take 8 (pj_id job) @ '': '' @ normalizeError e"
  have eq: "physicalJobFailed io job e s
        = pushLog io ERROR ?m (addFailed (pushLog io WARN ?w (setPhysicalAvailable False s')))"
    using c res m by (simp add: physicalJobFailed_def Let_def)
  have q: "quietFor Fiscal (setPhysicalAvailable False s')
             (pushLog io ERROR ?m (addFailed (pushLog io WARN ?w (setPhysicalAvailable False s'))))"
    by (rule pushLog_quiet, rule add_quiet(3), rule pushLog_quiet, rule quietFor_refl)
  have "physicalCompletions (trace (physicalJobFailed io job e s)) = physicalCompletions (trace s')"
    using physicalCompletions_quiet [OF q] eq by (simp add: setPhysicalAvailable_def)
  moreover have "\<not> physicalReceiptRpcAvailable (worker (physicalJobFailed io job e s))"
    using quietFor_available [OF q] eq by (simp add: familyAvailable_def setPhysicalAvailable_def)
  moreover have "validConfig (worker (physicalJobFailed io job e s))"
    using a eq by (simp add: setPhysicalAvailable_validConfig)
  ultimately show ?thesis using a by simp
qed

lemma processPhysicalJob_missing:
  assumes v: "validConfig (worker s)"
    and io: "\<And>w j c ok r e. failure (fst (io w (PhysicalReceiptCompleteJob j c ok r e))) = Some err"
    and m: "isMissingRpcError err ''physical_receipt_complete_job''"
  shows "physicalCompletions (trace (processPhysicalJob ext io job s))
           = physicalCompletions (trace s)
             @ (case fst (sendToPhysicalReceiptDevice ext io job s) of
                  Inl e \<Rightarrow> [(pj_id job, False)]
                | Inr r \<Rightarrow> [(pj_id job, True), (pj_id job, False)])
         \<and> validConfig (worker (processPhysicalJob ext io job s))
         \<and> \<not> physicalReceiptRpcAvailable (worker (processPhysicalJob ext io job s))"
proof -
  obtain res s1 where send: "sendToPhysicalReceiptDevice ext io job s = (res, s1)"
    by (cases "sendToPhysicalReceiptDevice ext io job s")
  have v1: "validConfig (worker s1)"
    using sendToPhysicalReceiptDevice_worker [of ext io job s] send v by simp
  have "quietFor Fiscal s (snd (sendToPhysicalReceiptDevice ext io job s))"
    by (rule sendToPhysicalReceiptDevice_quiet) (rule quietFor_refl)
  then have t1: "physicalCompletions (trace s1) = physicalCompletions (trace s)"
    using physicalCompletions_quiet send by fastforce
  show ?thesis
  proof (cases res)
    case (Inl e)
    then have "processPhysicalJob ext io job s = physicalJobFailed io job e s1"
      using send by (simp add: processPhysicalJob_def)
    then show ?thesis
      using physicalJobFailed_missing [where io = io and s = s1 and err = err and job = job and e = e, OF v1 io m]
        t1 send Inl by simp
  next
    case (Inr r)
    obtain res2 s2 where c: "completePhysicalReceiptJob io job True (Some r) None s1 = (res2, s2)"
      by (cases "completePhysicalReceiptJob io job True (Some r) None s1")
    note a = completePhysicalReceiptJob_valid [OF v1 c]
    have res2: "res2 = Some err" using a io by auto
    then have "processPhysicalJob ext io job s = physicalJobFailed io job err s2"
      using send Inr c by (simp add: processPhysicalJob_def)
    then show ?thesis
      using physicalJobFailed_missing [where io = io and s = s2 and err = err and job = job and e = err, OF _ io m]
        a t1 send Inr by simp
  qed
qed

text \<open>
  Whatever the flag is, a job of a batch gets at least one completion call of its family.
\<close>

lemma familyCalls_mono:
  "quietFor g a b \<Longrightarrow> length (familyCalls f (trace a)) \<le> length (familyCalls f (trace b))"
  by (auto simp add: quietFor_def familyCalls_def)

lemma completePhysicalReceiptJob_calls:
  "validConfig (worker s) \<Longrightarrow>
   length (familyCalls Fiscal (trace (snd (completePhysicalReceiptJob io job ok r m s))))
     = Suc (length (familyCalls Fiscal (trace s)))
   \<and> validConfig (worker (snd (completePhysicalReceiptJob io job ok r m s)))"
  by (simp add: completePhysicalReceiptJob_def ensureSupabaseClient_def validConfig_def Let_def
        case_prod_beta familyCalls_def)

lemma completeNonFiscalReceiptJob_calls:
  "validConfig (worker s) \<Longrightarrow>
   length (familyCalls NonFiscal (trace (snd (completeNonFiscalReceiptJob io job ok m s))))
     = Suc (length (familyCalls NonFiscal (trace s)))
   \<and> validConfig (worker (snd (completeNonFiscalReceiptJob io job ok m s)))"
  by (simp add: completeNonFiscalReceiptJob_def ensureSupabaseClient_def validConfig_def Let_def
        case_prod_beta familyCalls_def)

lemma physicalJobFailed_calls:
  assumes "validConfig (worker s)"
  shows "length (familyCalls Fiscal (trace s))
         < length (familyCalls Fiscal (trace (physicalJobFailed io job e s)))"
proof -
  let ?c = "completePhysicalReceiptJob io job False None (Some (normalizeError e)) s"
  have q: "quietFor Kitchen (snd ?c) (pushLog io l m (addFailed t))"
    if "quietFor Kitchen (snd ?c) t" for l m t
    by (rule pushLog_quiet, rule add_quiet(3), rule that)
  have "quietFor Kitchen (snd ?c) (physicalJobFailed io job e s)"
  proof (cases "fst ?c")
    case None
    then show ?thesis
      using q [OF quietFor_refl] by (simp add: physicalJobFailed_def Let_def case_prod_beta)
  next
    case (Some a)
    have off: "quietFor Kitchen (snd ?c) (pushLog io l m (setPhysicalAvailable False (snd ?c)))" for l m
      by (rule pushLog_quiet, rule setAvailable_quiet(2), simp, rule quietFor_refl)
    have on: "quietFor Kitchen (snd ?c) (pushLog io l m (snd ?c))" for l m
      by (rule pushLog_quiet, rule quietFor_refl)
    show ?thesis
      using Some q [OF off] q [OF on]
      by (simp add: physicalJobFailed_def Let_def case_prod_beta)
  qed
  then show ?thesis
    using familyCalls_mono [of Kitchen "snd ?c" "physicalJobFailed io job e s" Fiscal]
      completePhysicalReceiptJob_calls [OF assms, of io job False None "Some (normalizeError e)"]
    by simp
qed

lemma nonFiscalJobFailed_calls:
  assumes "validConfig (worker s)"
  shows "length (familyCalls NonFiscal (trace s))
         < length (familyCalls NonFiscal (trace (nonFiscalJobFailed io job e s)))"
proof -
  let ?c = "completeNonFiscalReceiptJob io job False (Some (normalizeError e)) s"
  have q: "quietFor Kitchen (snd ?c) (pushLog io l m (addFailed t))"
    if "quietFor Kitchen (snd ?c) t" for l m t
    by (rule pushLog_quiet, rule add_quiet(3), rule that)
  have "quietFor Kitchen (snd ?c) (nonFiscalJobFailed io job e s)"
  proof (cases "fst ?c")
    case None
    then show ?thesis
      using q [OF quietFor_refl] by (simp add: nonFiscalJobFailed_def Let_def case_prod_beta)
  next
    case (Some a)
    have off: "quietFor Kitchen (snd ?c) (setNonFiscalAvailable False (snd ?c))"
      by (rule setAvailable_quiet(1), simp, rule quietFor_refl)
    have on: "quietFor Kitchen (snd ?c) (pushLog io l m (snd ?c))" for l m
      by (rule pushLog_quiet, rule quietFor_refl)
    show ?thesis
      using Some q [OF off] q [OF on]
      by (simp add: nonFiscalJobFailed_def Let_def case_prod_beta)
  qed
  then show ?thesis
    using familyCalls_mono [of Kitchen "snd ?c" "nonFiscalJobFailed io job e s" NonFiscal]
      completeNonFiscalReceiptJob_calls [OF assms, of io job False "Some (normalizeError e)"]
    by simp
qed

lemma processPhysicalJob_calls:
  assumes "validConfig (worker s)"
  shows "length (familyCalls Fiscal (trace s))
         < length (familyCalls Fiscal (trace (processPhysicalJob ext io job s)))"
proof -
  obtain res s1 where send: "sendToPhysicalReceiptDevice ext io job s = (res, s1)"
    by (cases "sendToPhysicalReceiptDevice ext io job s")
  have q: "quietFor Kitchen s (snd (sendToPhysicalReceiptDevice ext io job s))"
    by (rule sendToPhysicalReceiptDevice_quiet) (rule quietFor_refl)
  have v1: "validConfig (worker s1)"
    using quietFor_valid [OF q] send assms by simp
  have m1: "length (familyCalls Fiscal (trace s)) \<le> length (familyCalls Fiscal (trace s1))"
    using familyCalls_mono [OF q, of Fiscal] send by simp
  show ?thesis
  proof (cases res)
    case (Inl e)
    then show ?thesis
      using send physicalJobFailed_calls [OF v1, of io job e] m1
      by (simp add: processPhysicalJob_def)
  next
    case (Inr r)
    let ?c = "completePhysicalReceiptJob io job True (Some r) None s1"
    note c = completePhysicalReceiptJob_calls [OF v1, of io job True "Some r" None]
    show ?thesis
    proof (cases "fst ?c")
      case None
      then have "processPhysicalJob ext io job s
          = pushLog io INFO (''Emesso scontrino RT job '' @ take 8 (pj_id job)) (addPrinted (snd ?c))"
        using send Inr by (simp add: processPhysicalJob_def case_prod_beta)
      moreover have "quietFor Kitchen (snd ?c)
          (pushLog io INFO (''Emesso scontrino RT job '' @ take 8 (pj_id job)) (addPrinted (snd ?c)))"
        by (rule pushLog_quiet, rule add_quiet(2), rule quietFor_refl)
      ultimately show ?thesis
        using familyCalls_mono [of Kitchen "snd ?c" "processPhysicalJob ext io job s" Fiscal] c m1
        by simp
    next
      case (Some e)
      then have "processPhysicalJob ext io job s = physicalJobFailed io job e (snd ?c)"
        using send Inr by (simp add: processPhysicalJob_def case_prod_beta)
      then show ?thesis
        using physicalJobFailed_calls [of "snd ?c" io job e] c m1 by simp
    qed
  qed
qed

lemma processNonFiscalJob_calls:
  assumes "validConfig (worker s)"
  shows "length (familyCalls NonFiscal (trace s))
         < length (familyCalls NonFiscal (trace (processNonFiscalJob ext io job s)))"
proof -
  obtain res s1 where send: "sendToNonFiscalReceiptPrinter ext io job s = (res, s1)"
    by (cases "sendToNonFiscalReceiptPrinter ext io job s")
  have q: "quietFor Kitchen s (snd (sendToNonFiscalReceiptPrinter ext io job s))"
    by (rule sendToNonFiscalReceiptPrinter_quiet) (rule quietFor_refl)
  have v1: "validConfig (worker s1)"
    using quietFor_valid [OF q] send assms by simp
  have m1: "length (familyCalls NonFiscal (trace s)) \<le> length (familyCalls NonFiscal (trace s1))"
    using familyCalls_mono [OF q, of NonFiscal] send by simp
  show ?thesis
  proof (cases res)
    case (Inl e)
    then show ?thesis
      using send nonFiscalJobFailed_calls [OF v1, of io job e] m1
      by (simp add: processNonFiscalJob_def)
  next
    case (Inr r)
    let ?c = "completeNonFiscalReceiptJob io job True None s1"
    note c = completeNonFiscalReceiptJob_calls [OF v1, of io job True None]
    show ?thesis
    proof (cases "fst ?c")
      case None
      then obtain msg where "processNonFiscalJob ext io job s = pushLog io INFO msg (addPrinted (snd ?c))"
        using send Inr by (simp add: processNonFiscalJob_def case_prod_beta)
      moreover have "quietFor Kitchen (snd ?c) (pushLog io INFO msg (addPrinted (snd ?c)))" for msg
        by (rule pushLog_quiet, rule add_quiet(2), rule quietFor_refl)
      ultimately show ?thesis
        using familyCalls_mono [of Kitchen "snd ?c" "processNonFiscalJob ext io job s" NonFiscal] c m1
        by simp
    next
      case (Some e)
      then have "processNonFiscalJob ext io job s = nonFiscalJobFailed io job e (snd ?c)"
        using send Inr by (simp add: processNonFiscalJob_def case_prod_beta)
      then show ?thesis
        using nonFiscalJobFailed_calls [of "snd ?c" io job e] c m1 by simp
    qed
  qed
qed

definition degraded :: "'w sys \<Rightarrow> 'w sys" where
  \<comment> \<open>A running service whose fiscal flag is off.\<close>
  "degraded s =
     s\<lparr>worker := (worker s)\<lparr>physicalReceiptRpcAvailable := False,
                              service := (service (worker s))\<lparr>running := True\<rparr>\<rparr>\<rparr>"


lemma example_missing: "isMissingRpcError
    (ErrObject ''Could not find the function physical_receipt_complete_job in the schema cache'')
    ''physical_receipt_complete_job''"
  by code_simp

lemma example_valid: "validConfig (worker (exampleSys ()))"
  by code_simp

lemma example_send:
  "fst (sendToPhysicalReceiptDevice exampleExternals completeMissing (exampleFiscalJob i) s)
   = Inr (''RT-'' @ take 8 i @ ''-'')"
proof -
  have h: "trim ''10.0.0.10'' = ''10.0.0.10''" by code_simp
  show ?thesis
    by (simp add: sendToPhysicalReceiptDevice_def retryLoop_1 postPhysicalReceipt_def Let_def
          case_prod_beta exampleFiscalJob_def h completeMissing_def readFiscalResponse_def
          exampleExternals_def clockText_def)
qed



text \<open>
  An environment in which the user is signed in and has a restaurant, and the backend
  lacks the claim function of the fiscal family.
\<close>

definition claimMissingStarted :: "unit io" where
  "claimMissingStarted w req =
     (case req of
        AuthGetUser \<Rightarrow> (RespUser (Some \<lparr> user_id = ''u1'', user_email = None \<rparr>), w)
      | ResolveRestaurant u \<Rightarrow>
          (RespScope (Some \<lparr> scope_id = ''r1'', scope_name = ''Sushi'', scope_city = None,
                              scope_role = Owner \<rparr>), w)
      | PhysicalReceiptClaimJobs r c l \<Rightarrow>
          (RespError (ErrObject ''Could not find the function physical_receipt_claim_jobs in schema cache''), w)
      | _ \<Rightarrow> (RespNone, w))"



end
